theory Spec2Isabelle
  imports Complex_Main "HOL-Library.List_Lexorder" "HOL-Library.Char_ord"
begin

section \<open>Errors and results\<close>

text \<open>
  The code cells of the tutorial notebook \<open>tutorials/jax_intro.ipynb\<close>, embedded as
  functions of HOL under the names the notebook gives them. A Python exception is a
  value: a computation that raises \<open>e\<close> returns \<open>Inl e\<close>, one that returns \<open>v\<close> returns
  \<open>Inr v\<close>, and \<open>ebind\<close> runs a second computation on the result of a first that returned.
  \<open>sequence\<close> runs a list of computations from left to right. \<open>float32\<close> is idealised as
  \<open>real\<close>; \<open>NotANumber\<close> stands for the not-a-number value of a mean over zero elements,
  which \<open>real\<close> does not have.
\<close>

datatype error =
    ShapeMismatch
  | NotANumber
  | TypeError string
  | ValueError
  | KeyError string
  | IndexError
  | AttributeError string
  | NameError string

definition ebind :: "error + 'a \<Rightarrow> ('a \<Rightarrow> error + 'b) \<Rightarrow> error + 'b" where
  "ebind r f = (case r of Inl e \<Rightarrow> Inl e | Inr v \<Rightarrow> f v)"

fun sequence :: "(error + 'a) list \<Rightarrow> error + 'a list" where
  "sequence [] = Inr []"
| "sequence (r # rs) = ebind r (\<lambda>v. ebind (sequence rs) (\<lambda>vs. Inr (v # vs)))"

section \<open>Arrays\<close>

text \<open>
  An array is its shape and its elements in row-major order; \<open>wf_array\<close> says that there
  are as many elements as the shape asks for. The operations of this section are the
  operations of NumPy and \<open>jax.numpy\<close> that the notebook's expressions use. They are
  library functions, written here from their documented behaviour: \<open>binop f\<close> is the
  elementwise operation \<open>f\<close> with broadcasting (the shapes are aligned at their last
  axes, an axis of length 1 is stretched, any other two lengths must be equal),
  \<open>index_axis ax i a\<close> is \<open>a\<close> indexed at \<open>i\<close> along axis \<open>ax\<close>, \<open>iterate\<close> is the iteration
  over the first axis of an array, \<open>unpack2\<close> the unpacking \<open>m, b = params\<close>, \<open>array_pow\<close>
  the operator \<open>**\<close> with a natural exponent, and \<open>jnp_mean\<close> the mean of all elements.
\<close>

record 'a ndarray =
  shape :: "nat list"
  data :: "'a list"

definition wf_array :: "'a ndarray \<Rightarrow> bool" where
  "wf_array a \<longleftrightarrow> length (data a) = prod_list (shape a)"

definition scalar :: "'a \<Rightarrow> 'a ndarray" where
  "scalar v = \<lparr>shape = [], data = [v]\<rparr>"

definition array1 :: "'a list \<Rightarrow> 'a ndarray" where
  "array1 xs = \<lparr>shape = [length xs], data = xs\<rparr>"

fun bcast_rev :: "nat list \<Rightarrow> nat list \<Rightarrow> nat list option" where
  "bcast_rev [] ys = Some ys"
| "bcast_rev xs [] = Some xs"
| "bcast_rev (x # xs) (y # ys) =
     (if x = y \<or> y = 1 then map_option ((#) x) (bcast_rev xs ys)
      else if x = 1 then map_option ((#) y) (bcast_rev xs ys)
      else None)"

definition broadcast_shapes :: "nat list \<Rightarrow> nat list \<Rightarrow> nat list option" where
  "broadcast_shapes s t = map_option rev (bcast_rev (rev s) (rev t))"

fun unravel :: "nat list \<Rightarrow> nat \<Rightarrow> nat list" where
  "unravel [] k = []"
| "unravel (d # ds) k = (k div prod_list ds) # unravel ds (k mod prod_list ds)"

definition ravel :: "nat list \<Rightarrow> nat list \<Rightarrow> nat" where
  "ravel s idx = foldl (\<lambda>acc (d, i). acc * d + i) 0 (zip s idx)"

definition bcast_index :: "nat list \<Rightarrow> nat list \<Rightarrow> nat list" where
  "bcast_index s idx =
     map2 (\<lambda>d i. if d = 1 then 0 else i) s (drop (length idx - length s) idx)"

definition bcast_get :: "'a ndarray \<Rightarrow> nat list \<Rightarrow> 'a" where
  "bcast_get a idx = data a ! ravel (shape a) (bcast_index (shape a) idx)"

definition binop :: "('a \<Rightarrow> 'b \<Rightarrow> 'c) \<Rightarrow> 'a ndarray \<Rightarrow> 'b ndarray \<Rightarrow> error + 'c ndarray" where
  "binop f a b =
     (case broadcast_shapes (shape a) (shape b) of
        None \<Rightarrow> Inl ShapeMismatch
      | Some s \<Rightarrow>
          Inr \<lparr>shape = s,
               data = map (\<lambda>k. f (bcast_get a (unravel s k)) (bcast_get b (unravel s k)))
                        [0..<prod_list s]\<rparr>)"

definition index_axis :: "nat \<Rightarrow> nat \<Rightarrow> 'a ndarray \<Rightarrow> 'a ndarray" where
  "index_axis ax i a =
     (let s = shape a; d = s ! ax; q = prod_list (drop (Suc ax) s); p = prod_list (take ax s)
      in \<lparr>shape = take ax s @ drop (Suc ax) s,
          data = map (\<lambda>k. data a ! (((k div q) * d + i) * q + k mod q)) [0..<p * q]\<rparr>)"

definition iterate :: "'a ndarray \<Rightarrow> error + 'a ndarray list" where
  "iterate a =
     (case shape a of
        [] \<Rightarrow> Inl (TypeError ''iteration over a 0-d array'')
      | d # _ \<Rightarrow> Inr (map (\<lambda>i. index_axis 0 i a) [0..<d]))"

definition unpack2 :: "'a ndarray \<Rightarrow> error + ('a ndarray \<times> 'a ndarray)" where
  "unpack2 a =
     ebind (iterate a) (\<lambda>items.
       case items of [m, b] \<Rightarrow> Inr (m, b) | _ \<Rightarrow> Inl ValueError)"

definition array_pow :: "'a::monoid_mult ndarray \<Rightarrow> nat \<Rightarrow> 'a ndarray" where
  "array_pow a n = a\<lparr>data := map (\<lambda>v. v ^ n) (data a)\<rparr>"

definition jnp_mean :: "real ndarray \<Rightarrow> error + real ndarray" where
  "jnp_mean a =
     (if data a = [] then Inl NotANumber
      else Inr (scalar (sum_list (data a) / real (length (data a)))))"

section \<open>Linear regression\<close>

text \<open>
  \<open>linear_model\<close> and \<open>mse_loss\<close> are the notebook's functions of these names. In
  \<open>mse_loss\<close> the first copy of the notebook calls \<open>np.mean\<close> and the second \<open>jnp.mean\<close>;
  on a JAX array both are the mean of all elements, \<open>jnp_mean\<close>.
\<close>

definition linear_model :: "real ndarray \<Rightarrow> real ndarray \<Rightarrow> real ndarray \<Rightarrow> error + real ndarray" where
  "linear_model x m b = ebind (binop (*) m x) (\<lambda>mx. binop (+) mx b)"

definition mse_loss :: "real ndarray \<Rightarrow> real ndarray \<Rightarrow> real ndarray \<Rightarrow> error + real ndarray" where
  "mse_loss params x y =
     ebind (unpack2 params) (\<lambda>(m, b).
     ebind (linear_model x m b) (\<lambda>y_pred.
     ebind (binop (-) y_pred y) (\<lambda>d.
     jnp_mean (array_pow d 2))))"

text \<open>
  \<open>analytic_gradient\<close> is not code of the notebook: it is the closed formula
  \<open>(mean(2 * x * (m * x + b - y)), mean(2 * (m * x + b - y)))\<close> for the gradient of the
  loss, written with the array operations above, against which \<open>jax.grad(mse_loss)\<close> is
  compared. \<open>jax.grad\<close> is a library function and is not computed here: \<open>is_grad f p g\<close>
  is its contract, that \<open>g\<close> has the shape of \<open>p\<close> and each component of \<open>g\<close> is the
  derivative of the scalar \<open>f\<close> in the same component of \<open>p\<close> (\<open>set_entry p i t\<close> is \<open>p\<close>
  with component \<open>i\<close> replaced by \<open>t\<close>, \<open>result_item\<close> the value of a scalar result).
  \<open>sq_err\<close> is the squared error of one data point.
\<close>

definition analytic_gradient ::
  "real \<Rightarrow> real \<Rightarrow> real ndarray \<Rightarrow> real ndarray \<Rightarrow> error + (real ndarray \<times> real ndarray)" where
  "analytic_gradient m b x y =
     ebind (binop (*) (scalar m) x) (\<lambda>mx.
     ebind (binop (+) mx (scalar b)) (\<lambda>p.
     ebind (binop (-) p y) (\<lambda>r.
     ebind (binop (*) (scalar 2) x) (\<lambda>tx.
     ebind (binop (*) tx r) (\<lambda>g0.
     ebind (jnp_mean g0) (\<lambda>c0.
     ebind (binop (*) (scalar 2) r) (\<lambda>g1.
     ebind (jnp_mean g1) (\<lambda>c1. Inr (c0, c1)))))))))"

definition result_item :: "error + real ndarray \<Rightarrow> real" where
  "result_item r = (case r of Inr a \<Rightarrow> (case data a of v # _ \<Rightarrow> v | [] \<Rightarrow> 0) | Inl _ \<Rightarrow> 0)"

definition set_entry :: "'a ndarray \<Rightarrow> nat \<Rightarrow> 'a \<Rightarrow> 'a ndarray" where
  "set_entry p i t = p\<lparr>data := (data p)[i := t]\<rparr>"

definition is_grad :: "(real ndarray \<Rightarrow> error + real ndarray) \<Rightarrow> real ndarray \<Rightarrow> real ndarray \<Rightarrow> bool" where
  "is_grad f p g \<longleftrightarrow>
     shape g = shape p \<and> length (data g) = length (data p) \<and>
     (\<forall>i < length (data p).
        (\<forall>t. \<exists>v. f (set_entry p i t) = Inr (scalar v)) \<and>
        ((\<lambda>t. result_item (f (set_entry p i t))) has_field_derivative data g ! i) (at (data p ! i)))"

definition sq_err :: "real \<Rightarrow> real \<Rightarrow> real \<times> real \<Rightarrow> real" where
  "sq_err m b p = (m * fst p + b - snd p)\<^sup>2"

section \<open>Vectorisation: \<open>vmap\<close>, \<open>jnp.vdot\<close>, \<open>jnp.dot\<close>\<close>

text \<open>
  \<open>vmap2 f in0 in1 out_ax\<close> is \<open>jax.vmap(f, in_axes=(in0, in1), out_axes=out_ax)\<close> for a
  function of two arrays and \<open>vmap1 f in_ax out_ax\<close> the same for a function of one
  array: \<open>f\<close> is applied to each slice of the mapped arguments along their mapped axes,
  an argument whose axis is \<open>None\<close> is passed whole, and the results are stacked along
  axis \<open>out_ax\<close> (\<open>stack\<close>). The mapped axes must exist and have one length
  (\<open>batch_size\<close>). The shape of one result is that of \<open>f\<close> on arrays of zeros with the
  shapes of the slices (\<open>in_proto\<close>), so a batch of size zero has a result of the right
  shape. \<open>vdot\<close>, \<open>jnp_dot\<close>, \<open>jnp_transpose\<close> and \<open>jnp_array\<close> are \<open>jnp.vdot\<close>, \<open>jnp.dot\<close>,
  \<open>jnp.transpose\<close> and \<open>jnp.array\<close> on a list of arrays. All of these are library
  functions, written here from their documented behaviour, for any type of numbers with
  a sum and a product, so that the notebook's integer matrices are covered exactly.

  \<open>jnp.vdot\<close> conjugates its first argument, which \<open>jnp.dot\<close> does not. What the
  conjugate of a number is depends on the type of the array's elements, so it is the
  first argument \<open>conjugate\<close> of \<open>vdot\<close> and of the functions built on it: for arrays
  of integers and of real numbers it is the identity \<open>id\<close>, and for arrays of complex
  numbers it is the complex conjugate \<open>cnj\<close>.

  \<open>square\<close>, \<open>batched_square\<close>, \<open>vector_vector\<close>, \<open>matrix_vector\<close>, \<open>matrix_matrix\<close> and
  \<open>matrix_matrix_transpose\<close> are the notebook's definitions, and \<open>squared_loop\<close> is its
  expression \<open>jnp.array([square(x) for x in xs])\<close>. \<open>row_dot\<close> and \<open>cell\<close> name one entry
  of a matrix-vector and of a matrix-matrix product.
\<close>

definition zeros :: "nat list \<Rightarrow> 'a::zero ndarray" where
  "zeros s = \<lparr>shape = s, data = replicate (prod_list s) 0\<rparr>"

definition stack :: "nat \<Rightarrow> nat list \<Rightarrow> 'a ndarray list \<Rightarrow> error + 'a ndarray" where
  "stack ax s rs =
     (if ax \<le> length s \<and> list_all (\<lambda>r. shape r = s) rs then
        (let n = length rs; q = prod_list (drop ax s); p = prod_list (take ax s)
         in Inr \<lparr>shape = take ax s @ n # drop ax s,
                 data = map (\<lambda>k. data (rs ! ((k div q) mod n)) ! ((k div (q * n)) * q + k mod q))
                          [0..<p * n * q]\<rparr>)
      else Inl ShapeMismatch)"

definition jnp_array :: "'a ndarray list \<Rightarrow> error + 'a ndarray" where
  "jnp_array rs = (case rs of [] \<Rightarrow> Inr \<lparr>shape = [0], data = []\<rparr> | r # _ \<Rightarrow> stack 0 (shape r) rs)"

definition in_slice :: "nat option \<Rightarrow> nat \<Rightarrow> 'a ndarray \<Rightarrow> 'a ndarray" where
  "in_slice ax i a = (case ax of None \<Rightarrow> a | Some k \<Rightarrow> index_axis k i a)"

definition in_proto :: "nat option \<Rightarrow> 'a::zero ndarray \<Rightarrow> 'a ndarray" where
  "in_proto ax a =
     (case ax of None \<Rightarrow> a | Some k \<Rightarrow> zeros (take k (shape a) @ drop (Suc k) (shape a)))"

definition mapped_size :: "nat option \<Rightarrow> 'a ndarray \<Rightarrow> error + nat option" where
  "mapped_size ax a =
     (case ax of
        None \<Rightarrow> Inr None
      | Some k \<Rightarrow> if k < length (shape a) then Inr (Some (shape a ! k)) else Inl ValueError)"

definition batch_size :: "nat option \<Rightarrow> nat option \<Rightarrow> 'a ndarray \<Rightarrow> 'b ndarray \<Rightarrow> error + nat" where
  "batch_size in0 in1 a b =
     ebind (mapped_size in0 a) (\<lambda>n0.
     ebind (mapped_size in1 b) (\<lambda>n1.
       case (n0, n1) of
         (None, None) \<Rightarrow> Inl ValueError
       | (Some n, None) \<Rightarrow> Inr n
       | (None, Some n) \<Rightarrow> Inr n
       | (Some n, Some n') \<Rightarrow> if n = n' then Inr n else Inl ValueError))"

definition vmap2 ::
  "('a::zero ndarray \<Rightarrow> 'b::zero ndarray \<Rightarrow> error + 'c ndarray) \<Rightarrow>
     nat option \<Rightarrow> nat option \<Rightarrow> nat \<Rightarrow> 'a ndarray \<Rightarrow> 'b ndarray \<Rightarrow> error + 'c ndarray" where
  "vmap2 f in0 in1 out_ax a b =
     ebind (batch_size in0 in1 a b) (\<lambda>n.
     ebind (f (in_proto in0 a) (in_proto in1 b)) (\<lambda>proto.
     ebind (sequence (map (\<lambda>i. f (in_slice in0 i a) (in_slice in1 i b)) [0..<n])) (\<lambda>rs.
     stack out_ax (shape proto) rs)))"

definition vmap1 ::
  "('a::zero ndarray \<Rightarrow> error + 'c ndarray) \<Rightarrow> nat \<Rightarrow> nat \<Rightarrow> 'a ndarray \<Rightarrow> error + 'c ndarray" where
  "vmap1 f in_ax out_ax a =
     ebind (mapped_size (Some in_ax) a) (\<lambda>n.
     ebind (f (in_proto (Some in_ax) a)) (\<lambda>proto.
     ebind (sequence (map (\<lambda>i. f (index_axis in_ax i a)) [0..<the n])) (\<lambda>rs.
     stack out_ax (shape proto) rs)))"

definition vdot ::
  "('a \<Rightarrow> 'a) \<Rightarrow> 'a::{monoid_add,times} ndarray \<Rightarrow> 'a ndarray \<Rightarrow> error + 'a ndarray" where
  "vdot conjugate a b =
     (if length (data a) = length (data b)
      then Inr (scalar (sum_list (map2 (\<lambda>u v. conjugate u * v) (data a) (data b))))
      else Inl ShapeMismatch)"

definition jnp_dot :: "'a::{monoid_add,times} ndarray \<Rightarrow> 'a ndarray \<Rightarrow> error + 'a ndarray" where
  "jnp_dot a b =
     (if shape a = [] \<or> shape b = [] then binop (*) a b
      else
        (let k = last (shape a); sa = butlast (shape a) in
         if length (shape b) = 1 then
           (if hd (shape b) = k then
              Inr \<lparr>shape = sa,
                   data = map (\<lambda>i. sum_list (map (\<lambda>u. data a ! (i * k + u) * data b ! u) [0..<k]))
                            [0..<prod_list sa]\<rparr>
            else Inl ShapeMismatch)
         else
           (let c = last (shape b); kb = last (butlast (shape b));
                sb = butlast (butlast (shape b)); nb = prod_list sb in
            if kb = k then
              Inr \<lparr>shape = sa @ sb @ [c],
                   data = map (\<lambda>t. sum_list (map (\<lambda>u. data a ! ((t div (nb * c)) * k + u)
                                                    * data b ! ((((t div c) mod nb) * k + u) * c + t mod c))
                                            [0..<k]))
                            [0..<prod_list sa * nb * c]\<rparr>
            else Inl ShapeMismatch)))"

definition jnp_transpose :: "'a ndarray \<Rightarrow> 'a ndarray" where
  "jnp_transpose a =
     \<lparr>shape = rev (shape a),
      data = map (\<lambda>k. data a ! ravel (shape a) (rev (unravel (rev (shape a)) k)))
               [0..<prod_list (shape a)]\<rparr>"

definition square :: "'a::{monoid_add,times} ndarray \<Rightarrow> error + 'a ndarray" where
  "square x = binop (*) x x"

definition squared_loop :: "'a::{monoid_add,times} ndarray \<Rightarrow> error + 'a ndarray" where
  "squared_loop xs =
     ebind (iterate xs) (\<lambda>items.
     ebind (sequence (map square items)) jnp_array)"

definition batched_square :: "'a::{monoid_add,times} ndarray \<Rightarrow> error + 'a ndarray" where
  "batched_square = vmap1 square 0 0"

definition vector_vector ::
  "('a \<Rightarrow> 'a) \<Rightarrow> 'a::{monoid_add,times} ndarray \<Rightarrow> 'a ndarray \<Rightarrow> error + 'a ndarray" where
  "vector_vector conjugate x y = vdot conjugate x y"

definition matrix_vector ::
  "('a \<Rightarrow> 'a) \<Rightarrow> 'a::{monoid_add,times} ndarray \<Rightarrow> 'a ndarray \<Rightarrow> error + 'a ndarray" where
  "matrix_vector conjugate = vmap2 (vector_vector conjugate) (Some 0) None 0"

definition matrix_matrix ::
  "('a \<Rightarrow> 'a) \<Rightarrow> 'a::{monoid_add,times} ndarray \<Rightarrow> 'a ndarray \<Rightarrow> error + 'a ndarray" where
  "matrix_matrix conjugate = vmap2 (matrix_vector conjugate) None (Some 1) 1"

definition matrix_matrix_transpose ::
  "('a \<Rightarrow> 'a) \<Rightarrow> 'a::{monoid_add,times} ndarray \<Rightarrow> 'a ndarray \<Rightarrow> error + 'a ndarray" where
  "matrix_matrix_transpose conjugate = vmap2 (matrix_vector conjugate) None (Some 1) 0"

definition row_dot ::
  "('a \<Rightarrow> 'a) \<Rightarrow> 'a::{monoid_add,times} ndarray \<Rightarrow> nat \<Rightarrow> 'a list \<Rightarrow> nat \<Rightarrow> 'a" where
  "row_dot conjugate A a vs i =
     sum_list (map (\<lambda>k. conjugate (data A ! (i * a + k)) * vs ! k) [0..<a])"

definition cell ::
  "('a \<Rightarrow> 'a) \<Rightarrow> 'a::{monoid_add,times} ndarray \<Rightarrow> 'a ndarray \<Rightarrow> nat \<Rightarrow> nat \<Rightarrow> nat \<Rightarrow> nat \<Rightarrow> 'a" where
  "cell conjugate A B a c i j =
     sum_list (map (\<lambda>u. conjugate (data A ! (i * a + u)) * data B ! (u * c + j)) [0..<a])"

section \<open>Pytrees and the two-layer network\<close>

text \<open>
  A pytree is a leaf, a dictionary with string keys (its entries in the order of
  insertion) or a tuple. \<open>getitem\<close> is the subscript \<open>d[k]\<close> of a dictionary and \<open>param\<close>
  the double subscript \<open>params[layer][name]\<close>, which must end at an array. \<open>newaxis1\<close> is
  the indexing \<open>x[:, None]\<close>. \<open>random_normal noise key s\<close> stands for
  \<open>jax.random.normal(jax.random.PRNGKey(key), shape=s)\<close>: the values drawn are the
  parameter \<open>noise\<close>, about which nothing is assumed. \<open>init_network\<close>, \<open>forward\<close> and
  \<open>loss\<close> are the notebook's functions of these names.

  \<open>relu\<close> is \<open>jax.nn.relu\<close>, the elementwise \<open>maximum(v, 0)\<close>, which returns a value that is
  not a number unchanged. \<open>relu\<close> and \<open>forward\<close> are written for any type of numbers, and
  used at two: at \<open>real\<close>, the idealisation of floating-point numbers of the rest of this
  development, and at \<open>float32\<close>, the real numbers together with the value \<open>NaN\<close> of
  floating-point arithmetic: the sum and the product of two numbers are their sum and
  product, a sum or product with \<open>NaN\<close> is \<open>NaN\<close>, and no comparison with \<open>NaN\<close> holds.
  Rounding, overflow and the infinities are left out of \<open>float32\<close>.
\<close>

datatype 'a pytree =
    Leaf 'a
  | Dict "(string \<times> 'a pytree) list"
  | Tuple "'a pytree list"

definition getitem :: "'a pytree \<Rightarrow> string \<Rightarrow> error + 'a pytree" where
  "getitem t k =
     (case t of
        Dict kvs \<Rightarrow> (case map_of kvs k of Some v \<Rightarrow> Inr v | None \<Rightarrow> Inl (KeyError k))
      | _ \<Rightarrow> Inl (TypeError ''indices must be integers''))"

definition as_array :: "'a pytree \<Rightarrow> error + 'a" where
  "as_array t = (case t of Leaf a \<Rightarrow> Inr a | _ \<Rightarrow> Inl (TypeError ''not an array''))"

definition param :: "'a pytree \<Rightarrow> string \<Rightarrow> string \<Rightarrow> error + 'a" where
  "param params layer name =
     ebind (getitem params layer) (\<lambda>l. ebind (getitem l name) as_array)"

datatype float32 = Finite real | NaN

instantiation float32 :: "{monoid_add, times, ord}"
begin

definition zero_float32 :: float32 where
  "zero_float32 = Finite 0"

fun plus_float32 :: "float32 \<Rightarrow> float32 \<Rightarrow> float32" where
  "plus_float32 (Finite a) (Finite b) = Finite (a + b)"
| "plus_float32 _ _ = NaN"

fun times_float32 :: "float32 \<Rightarrow> float32 \<Rightarrow> float32" where
  "times_float32 (Finite a) (Finite b) = Finite (a * b)"
| "times_float32 _ _ = NaN"

fun less_eq_float32 :: "float32 \<Rightarrow> float32 \<Rightarrow> bool" where
  "less_eq_float32 (Finite a) (Finite b) = (a \<le> b)"
| "less_eq_float32 _ _ = False"

fun less_float32 :: "float32 \<Rightarrow> float32 \<Rightarrow> bool" where
  "less_float32 (Finite a) (Finite b) = (a < b)"
| "less_float32 _ _ = False"

instance
proof
  fix a b c :: float32
  show "a + b + c = a + (b + c)"
    by (cases a; cases b; cases c) simp_all
  show "0 + a = a"
    by (cases a) (simp_all add: zero_float32_def)
  show "a + 0 = a"
    by (cases a) (simp_all add: zero_float32_def)
qed

end

definition relu :: "'a::{zero,ord} ndarray \<Rightarrow> 'a ndarray" where
  "relu a = a\<lparr>data := map (\<lambda>v. max v 0) (data a)\<rparr>"

definition random_normal :: "(nat \<Rightarrow> nat \<Rightarrow> real) \<Rightarrow> nat \<Rightarrow> nat list \<Rightarrow> real ndarray" where
  "random_normal noise key s = \<lparr>shape = s, data = map (noise key) [0..<prod_list s]\<rparr>"

definition init_network :: "(nat \<Rightarrow> nat \<Rightarrow> real) \<Rightarrow> nat \<Rightarrow> nat \<Rightarrow> nat \<Rightarrow> real ndarray pytree" where
  "init_network noise input_dim hidden_dim output_dim =
     Dict [(''layer1'', Dict [(''weights'', Leaf (random_normal noise 123 [input_dim, hidden_dim])),
                              (''biases'', Leaf (zeros [hidden_dim]))]),
           (''layer2'', Dict [(''weights'', Leaf (random_normal noise 246 [hidden_dim, output_dim])),
                              (''biases'', Leaf (zeros [output_dim]))])]"

definition forward ::
  "'a::{monoid_add,times,ord} ndarray pytree \<Rightarrow> 'a ndarray \<Rightarrow> error + 'a ndarray" where
  "forward params x =
     ebind (param params ''layer1'' ''weights'') (\<lambda>w1.
     ebind (jnp_dot x w1) (\<lambda>xw1.
     ebind (param params ''layer1'' ''biases'') (\<lambda>b1.
     ebind (binop (+) xw1 b1) (\<lambda>z1.
     let a1 = relu z1 in
     ebind (param params ''layer2'' ''weights'') (\<lambda>w2.
     ebind (jnp_dot a1 w2) (\<lambda>aw2.
     ebind (param params ''layer2'' ''biases'') (\<lambda>b2.
     ebind (binop (+) aw2 b2) (\<lambda>z2.
     let a2 = relu z2 in
     Inr a2))))))))"

definition loss :: "real ndarray pytree \<Rightarrow> real ndarray \<Rightarrow> real ndarray \<Rightarrow> error + real ndarray" where
  "loss params x y_true =
     ebind (forward params x) (\<lambda>y_pred.
     ebind (binop (-) y_pred y_true) (\<lambda>d.
     jnp_mean (array_pow d 2)))"

definition newaxis1 :: "'a ndarray \<Rightarrow> error + 'a ndarray" where
  "newaxis1 a =
     (case shape a of [] \<Rightarrow> Inl IndexError | d # ds \<Rightarrow> Inr (a\<lparr>shape := d # 1 # ds\<rparr>))"

text \<open>
  \<open>tree_map\<close> and \<open>tree_map2\<close> are \<open>jax.tree_map\<close> with one tree and with two: library
  functions, written here from their documented behaviour. The entries of a dictionary
  are visited, and returned, in the sorted order of their keys, as the library did when
  the notebook was run: the recorded output of \<open>print_leaf_shapes(update)\<close> lists
  \<open>biases\<close> before \<open>weights\<close>. The second tree must have the structure of the first.
  \<open>shape_tree\<close> is the structure of a tree together with the shape of each leaf.

  \<open>gradient_descent_step\<close> is the notebook's function; its \<open>grad_fn = jax.grad(loss)\<close> is
  a parameter, and \<open>sgd_update learning_rate\<close> is its \<open>lambda p, g: p - learning_rate * g\<close>.
  \<open>print_leaf_shapes\<close> returns the lines that the notebook's function prints
  (\<open>show_shape\<close> writes a shape as Python writes a tuple of integers). \<open>zero_grad\<close> is a
  gradient function for examples.
\<close>

lemma ebind_cong [fundef_cong]:
  "r = r' \<Longrightarrow> (\<And>v. r' = Inr v \<Longrightarrow> f v = f' v) \<Longrightarrow> ebind r f = ebind r' f'"
  by (auto simp: ebind_def split: sum.splits)

fun tree_map :: "('a \<Rightarrow> error + 'b) \<Rightarrow> 'a pytree \<Rightarrow> error + 'b pytree" where
  "tree_map f (Leaf a) = ebind (f a) (\<lambda>b. Inr (Leaf b))"
| "tree_map f (Dict kvs) =
     ebind (sequence (map (\<lambda>(k, t). ebind (tree_map f t) (\<lambda>u. Inr (k, u))) (sort_key fst kvs)))
       (\<lambda>kus. Inr (Dict kus))"
| "tree_map f (Tuple ts) =
     ebind (sequence (map (tree_map f) ts)) (\<lambda>us. Inr (Tuple us))"

function tree_map2 :: "('a \<Rightarrow> 'b \<Rightarrow> error + 'c) \<Rightarrow> 'a pytree \<Rightarrow> 'b pytree \<Rightarrow> error + 'c pytree" where
  "tree_map2 f (Leaf p) r =
     (case r of
        Leaf g \<Rightarrow> ebind (f p g) (\<lambda>c. Inr (Leaf c))
      | _ \<Rightarrow> Inl (TypeError ''unsupported operand type''))"
| "tree_map2 f (Dict kvs) r =
     (case r of
        Dict kvs' \<Rightarrow>
          if map fst (sort_key fst kvs) = map fst (sort_key fst kvs') then
            ebind (sequence (map (\<lambda>(kt, kt'). ebind (tree_map2 f (snd kt) (snd kt')) (\<lambda>u. Inr (fst kt, u)))
                               (zip (sort_key fst kvs) (sort_key fst kvs'))))
              (\<lambda>kus. Inr (Dict kus))
          else Inl ValueError
      | _ \<Rightarrow> Inl ValueError)"
| "tree_map2 f (Tuple ts) r =
     (case r of
        Tuple rs \<Rightarrow>
          if length ts = length rs then
            ebind (sequence (map (\<lambda>(t, t'). tree_map2 f t t') (zip ts rs))) (\<lambda>us. Inr (Tuple us))
          else Inl ValueError
      | _ \<Rightarrow> Inl ValueError)"
  by pat_completeness auto
termination
proof (relation "measure (\<lambda>(f, t, r). size t)")
  show "wf (measure (\<lambda>(f, t, r). size t))" by simp
next
  fix f :: "'a \<Rightarrow> 'b \<Rightarrow> error + 'c" and kvs :: "(string \<times> 'a pytree) list"
    and r :: "'b pytree" and kvs' :: "(string \<times> 'b pytree) list" and x xa y
  assume "(xa, y) = x" "x \<in> set (zip (sort_key fst kvs) (sort_key fst kvs'))"
  then have "xa \<in> set kvs"
    by (auto dest: set_zip_leftD)
  then have "size (snd xa) < Suc (size_list (size_prod (\<lambda>_. 0) size) kvs)"
    by (induction kvs) (auto simp: less_Suc_eq_le)
  then show "((f, snd xa, snd y), (f, Dict kvs, r)) \<in> measure (\<lambda>(f, t, r). size t)"
    by simp
next
  fix f :: "'a \<Rightarrow> 'b \<Rightarrow> error + 'c" and ts :: "'a pytree list"
    and r :: "'b pytree" and rs :: "'b pytree list" and x xa y
  assume "(xa, y) = x" "x \<in> set (zip ts rs)"
  then have "xa \<in> set ts"
    by (auto dest: set_zip_leftD)
  then have "size xa < Suc (size_list size ts)"
    by (induction ts) (auto simp: less_Suc_eq_le)
  then show "((f, xa, y), (f, Tuple ts, r)) \<in> measure (\<lambda>(f, t, r). size t)"
    by simp
qed

fun shape_tree :: "'a ndarray pytree \<Rightarrow> nat list pytree" where
  "shape_tree (Leaf a) = Leaf (shape a)"
| "shape_tree (Dict kvs) = Dict (map (\<lambda>kt. (fst kt, shape_tree (snd kt))) (sort_key fst kvs))"
| "shape_tree (Tuple ts) = Tuple (map shape_tree ts)"

definition sgd_update :: "real \<Rightarrow> real ndarray \<Rightarrow> real ndarray \<Rightarrow> error + real ndarray" where
  "sgd_update learning_rate p g =
     ebind (binop (*) (scalar learning_rate) g) (\<lambda>lg. binop (-) p lg)"

definition gradient_descent_step ::
  "(real ndarray pytree \<Rightarrow> real ndarray \<Rightarrow> real ndarray \<Rightarrow> error + real ndarray pytree) \<Rightarrow>
     real ndarray pytree \<Rightarrow> real ndarray \<Rightarrow> real ndarray \<Rightarrow> real \<Rightarrow> error + real ndarray pytree" where
  "gradient_descent_step grad_fn params x y_true learning_rate =
     ebind (grad_fn params x y_true) (\<lambda>gradients.
     tree_map2 (sgd_update learning_rate) params gradients)"

fun show_nat :: "nat \<Rightarrow> string" where
  "show_nat n = (if n < 10 then [''0123456789'' ! n]
                 else show_nat (n div 10) @ [''0123456789'' ! (n mod 10)])"

fun join :: "string \<Rightarrow> string list \<Rightarrow> string" where
  "join sep [] = []"
| "join sep [x] = x"
| "join sep (x # y # ys) = x @ sep @ join sep (y # ys)"

definition show_shape :: "nat list \<Rightarrow> string" where
  "show_shape s =
     (case s of
        [d] \<Rightarrow> ''('' @ show_nat d @ '',)''
      | _ \<Rightarrow> ''('' @ join '', '' (map show_nat s) @ '')'')"

fun print_leaf_shapes :: "'a ndarray pytree \<Rightarrow> string list \<Rightarrow> error + string list" where
  "print_leaf_shapes (Dict kvs) path =
     ebind (sequence (map (\<lambda>(k, v).
              let new_path = path @ [k] in
              (case v of
                 Dict _ \<Rightarrow> print_leaf_shapes v new_path
               | Leaf a \<Rightarrow> Inr [join '' -> '' new_path @ '': '' @ show_shape (shape a)]
               | Tuple _ \<Rightarrow> Inl (AttributeError ''shape''))) kvs))
       (\<lambda>ls. Inr (concat ls))"
| "print_leaf_shapes _ path = Inl (AttributeError ''items'')"

definition zero_grad :: "real ndarray pytree \<Rightarrow> real ndarray \<Rightarrow> real ndarray \<Rightarrow> error + real ndarray pytree" where
  "zero_grad params x y = tree_map (\<lambda>a. Inr (zeros (shape a))) params"

section \<open>The notebook's array computations\<close>

text \<open>
  The remaining array expressions of the notebook's cells. \<open>has_shape r s\<close> says that a
  computation returned an array of shape \<open>s\<close> with as many elements. \<open>slow_function\<close>,
  \<open>true_m\<close>, \<open>true_b\<close>, \<open>x_data\<close>, \<open>y_data\<close>, \<open>two_layer_nn_model\<close>, \<open>two_layer_nn_mse_loss\<close>
  and \<open>params_two_layer_nn\<close> are the notebook's; the Python float \<open>0.0\<close> that ends the
  tuple \<open>params_two_layer_nn\<close> is an array of shape \<open>()\<close>. \<open>update_two_layer_nn\<close> is the
  generator expression \<open>param - learning_rate * grad_param for param, grad_param in
  zip(...)\<close> of the second training loop. \<open>pmap_multiply = jax.pmap(matrix_matrix)\<close> maps
  over the first axis of both arguments, one slice for each device, which for the
  result is a \<open>vmap\<close>. \<open>double_leaves\<close> is \<open>jax.tree_map(lambda x: x * 2, tree)\<close> and
  \<open>example_tree\<close> the tree it is applied to; \<open>jax_array\<close> is the matrix of the first cell.
\<close>

definition has_shape :: "error + 'a ndarray \<Rightarrow> nat list \<Rightarrow> bool" where
  "has_shape r s =
     (case r of Inl _ \<Rightarrow> False | Inr a \<Rightarrow> shape a = s \<and> length (data a) = prod_list s)"

definition map_array :: "('a \<Rightarrow> 'b) \<Rightarrow> 'a ndarray \<Rightarrow> 'b ndarray" where
  "map_array f a = \<lparr>shape = shape a, data = map f (data a)\<rparr>"

definition slow_function :: "real ndarray \<Rightarrow> error + real ndarray" where
  "slow_function x = binop (*) (map_array sin x) (map_array cos x)"

definition linspace :: "real \<Rightarrow> real \<Rightarrow> nat \<Rightarrow> real ndarray" where
  "linspace start stop num =
     array1 (map (\<lambda>i. start + real i * ((stop - start) / real (num - 1))) [0..<num])"

definition true_m :: real where
  "true_m = 5 / 2"

definition true_b :: real where
  "true_b = - 1"

definition x_data :: "real ndarray" where
  "x_data = linspace (- 10) 10 1000"

definition y_data :: "(nat \<Rightarrow> nat \<Rightarrow> real) \<Rightarrow> error + real ndarray" where
  "y_data noise =
     ebind (binop (*) (scalar true_m) x_data) (\<lambda>mx.
     ebind (binop (+) mx (scalar true_b)) (\<lambda>line.
     ebind (binop (*) (random_normal noise 123 (shape x_data)) (scalar 2)) (\<lambda>eps.
     binop (+) line eps)))"

definition two_layer_nn_model ::
  "real ndarray \<Rightarrow> real ndarray \<Rightarrow> real ndarray \<Rightarrow> real ndarray \<Rightarrow> real ndarray \<Rightarrow>
     real ndarray \<Rightarrow> real ndarray \<Rightarrow> error + real ndarray" where
  "two_layer_nn_model x w1 b1 w2 b2 w_out b_out =
     ebind (jnp_dot x w1) (\<lambda>xw1.
     ebind (binop (+) xw1 b1) (\<lambda>z1.
     let hidden1 = relu z1 in
     ebind (jnp_dot hidden1 w2) (\<lambda>hw2.
     ebind (binop (+) hw2 b2) (\<lambda>z2.
     let hidden2 = relu z2 in
     ebind (jnp_dot hidden2 w_out) (\<lambda>out.
     binop (+) out b_out)))))"

definition two_layer_nn_mse_loss ::
  "real ndarray list \<Rightarrow> real ndarray \<Rightarrow> real ndarray \<Rightarrow> error + real ndarray" where
  "two_layer_nn_mse_loss params x y =
     (case params of
        [w1, b1, w2, b2, w_out, b_out] \<Rightarrow>
          ebind (two_layer_nn_model x w1 b1 w2 b2 w_out b_out) (\<lambda>y_pred.
          ebind (binop (-) y_pred y) (\<lambda>d.
          jnp_mean (array_pow d 2)))
      | _ \<Rightarrow> Inl ValueError)"

definition params_two_layer_nn :: "real ndarray list" where
  "params_two_layer_nn =
     [zeros [1, 10], zeros [10], zeros [10, 10], zeros [10], zeros [10], scalar 0]"

definition update_two_layer_nn ::
  "real \<Rightarrow> real ndarray list \<Rightarrow> real ndarray list \<Rightarrow> error + real ndarray list" where
  "update_two_layer_nn learning_rate params grad_params =
     sequence (map (\<lambda>(param, grad_param). sgd_update learning_rate param grad_param)
                 (zip params grad_params))"

definition pmap_multiply :: "real ndarray \<Rightarrow> real ndarray \<Rightarrow> error + real ndarray" where
  "pmap_multiply = vmap2 (matrix_matrix id) (Some 0) (Some 0) 0"

definition sharded_normal :: "(nat \<Rightarrow> nat \<Rightarrow> real) \<Rightarrow> nat \<Rightarrow> real ndarray" where
  "sharded_normal noise key = random_normal noise key [2, 10, 10]"

definition double_leaves :: "real ndarray pytree \<Rightarrow> error + real ndarray pytree" where
  "double_leaves = tree_map (\<lambda>x. binop (*) x (scalar 2))"

definition example_tree :: "real ndarray pytree" where
  "example_tree =
     Dict [(''a'', Leaf (array1 [1, 2])),
           (''b'', Tuple [Leaf (array1 [3, 4]), Leaf (array1 [5])])]"

definition two_layer_shapes :: "nat list list" where
  "two_layer_shapes = [[1, 10], [10], [10, 10], [10], [10], []]"

definition jax_array :: "int ndarray" where
  "jax_array = \<lparr>shape = [2, 2], data = [1, 2, 3, 4]\<rparr>"

section \<open>Array objects, variables and output\<close>

text \<open>
  To say that an array is never changed, arrays are objects at the addresses of a heap,
  each a NumPy or a JAX array, and a variable is bound to a pytree of addresses.
  \<open>assign var b t\<close> is \<open>var = t\<close> for newly created arrays \<open>t\<close> of the library \<open>b\<close>, \<open>load\<close>
  reads a variable, and \<open>print_out\<close> appends to the printed output (\<open>Text\<close> is a line of
  text, \<open>Report k vs\<close> the line of iteration \<open>k\<close> of a training loop with the numbers it
  shows).

  \<open>setitem2 var i j v\<close> is the statement \<open>var[i, j] = v\<close>. A NumPy array is changed in
  place. On a JAX array the statement raises \<open>TypeError\<close>: this is the library's
  behaviour, recorded in the output of the notebook's cell, whose message
  \<open>immutable_message\<close> abbreviates. \<open>isub var rhs\<close> is \<open>var -= rhs\<close>: in place on a NumPy
  array; a JAX array has no in-place operator, so the difference is a new array to
  which \<open>var\<close> is then bound. \<open>jax_unchanged st st'\<close> says that every JAX array of \<open>st\<close>
  is at its address in \<open>st'\<close> with its contents, and \<open>fresh_in st t\<close> that every address
  of \<open>t\<close> was allocated after \<open>st\<close>.

  \<open>create_arrays_cell\<close> and \<open>immutability_cell\<close> are the first two cells of the notebook,
  \<open>linreg_cell\<close> and \<open>two_layer_cell\<close> the two training loops (from the binding of the
  initial parameters on) with bodies \<open>linreg_body\<close> and \<open>two_layer_body\<close>, and
  \<open>gradient_descent_step_heap\<close> is \<open>gradient_descent_step\<close> on parameters held at
  addresses. The gradient functions \<open>jax.grad(...)\<close> are parameters: \<open>grad_contract\<close> and
  \<open>grad_contract_two_layer\<close> ask of them only a result of the shape of the parameters
  wherever the loss is a scalar. \<open>data_ready n\<close> says that \<open>x_data\<close> and \<open>y_data\<close> are
  bound to arrays of shape \<open>(n,)\<close>, \<open>n > 0\<close>. \<open>linreg_inv\<close> and \<open>two_layer_inv\<close> are the
  loop invariants. \<open>unchanged_throughout body n s s'\<close> says that \<open>n\<close> executions of
  \<open>body\<close> lead from \<open>s\<close> to \<open>s'\<close> through states of which each leaves the JAX arrays of
  all earlier ones as they were. \<open>small_data_state\<close>, \<open>small_network_state\<close> and the
  gradient functions \<open>zero_gradient\<close>, \<open>zero_gradient_two_layer_nn\<close>, \<open>unit_gradient\<close>,
  \<open>unit_gradient_two_layer_nn\<close> and \<open>unit_grad\<close> (every component 0, or every component 1)
  serve as examples.
\<close>

datatype backend = NumPy | JAX

record pyobj =
  backend :: backend
  contents :: "real ndarray"

datatype printed = Text string | Report nat "real list"

record state =
  heap :: "pyobj list"
  vars :: "string \<Rightarrow> nat pytree option"
  stdout :: "printed list"

definition new_object :: "backend \<Rightarrow> real ndarray \<Rightarrow> state \<Rightarrow> nat \<times> state" where
  "new_object b a st =
     (length (heap st), st\<lparr>heap := heap st @ [\<lparr>backend = b, contents = a\<rparr>]\<rparr>)"

fun alloc_tree :: "backend \<Rightarrow> real ndarray pytree \<Rightarrow> state \<Rightarrow> nat pytree \<times> state"
  and alloc_trees :: "backend \<Rightarrow> real ndarray pytree list \<Rightarrow> state \<Rightarrow> nat pytree list \<times> state"
  and alloc_items ::
    "backend \<Rightarrow> (string \<times> real ndarray pytree) list \<Rightarrow> state \<Rightarrow> (string \<times> nat pytree) list \<times> state"
where
  "alloc_tree b (Leaf a) st = (let (addr, st') = new_object b a st in (Leaf addr, st'))"
| "alloc_tree b (Tuple ts) st = (let (us, st') = alloc_trees b ts st in (Tuple us, st'))"
| "alloc_tree b (Dict kvs) st = (let (kus, st') = alloc_items b kvs st in (Dict kus, st'))"
| "alloc_trees b [] st = ([], st)"
| "alloc_trees b (t # ts) st =
     (let (u, st1) = alloc_tree b t st; (us, st2) = alloc_trees b ts st1 in (u # us, st2))"
| "alloc_items b [] st = ([], st)"
| "alloc_items b ((k, t) # kvs) st =
     (let (u, st1) = alloc_tree b t st; (kus, st2) = alloc_items b kvs st1
      in ((k, u) # kus, st2))"

fun all_leaves :: "('a \<Rightarrow> bool) \<Rightarrow> 'a pytree \<Rightarrow> bool" where
  "all_leaves P (Leaf a) = P a"
| "all_leaves P (Dict kvs) = list_all (\<lambda>kt. all_leaves P (snd kt)) kvs"
| "all_leaves P (Tuple ts) = list_all (all_leaves P) ts"

definition assign :: "string \<Rightarrow> backend \<Rightarrow> real ndarray pytree \<Rightarrow> state \<Rightarrow> state" where
  "assign var b t st =
     (let (addrs, st') = alloc_tree b t st in st'\<lparr>vars := (vars st')(var \<mapsto> addrs)\<rparr>)"

definition load :: "string \<Rightarrow> state \<Rightarrow> error + real ndarray pytree" where
  "load var st =
     (case vars st var of
        None \<Rightarrow> Inl (NameError var)
      | Some t \<Rightarrow>
          if all_leaves (\<lambda>a. a < length (heap st)) t
          then Inr (map_pytree (\<lambda>a. contents (heap st ! a)) t)
          else Inl (NameError var))"

definition load_array :: "string \<Rightarrow> state \<Rightarrow> error + real ndarray" where
  "load_array var st = ebind (load var st) as_array"

definition print_out :: "printed \<Rightarrow> state \<Rightarrow> state" where
  "print_out p st = st\<lparr>stdout := stdout st @ [p]\<rparr>"

definition immutable_message :: string where
  "immutable_message = ''object does not support item assignment. JAX arrays are immutable.''"

definition setitem2 :: "string \<Rightarrow> nat \<Rightarrow> nat \<Rightarrow> real \<Rightarrow> state \<Rightarrow> error + state" where
  "setitem2 var i j v st =
     (case vars st var of
        None \<Rightarrow> Inl (NameError var)
      | Some (Leaf addr) \<Rightarrow>
          if addr < length (heap st) then
            (let ob = heap st ! addr in
             case backend ob of
               NumPy \<Rightarrow>
                 (case shape (contents ob) of
                    [r, c] \<Rightarrow>
                      if i < r \<and> j < c then
                        Inr (st\<lparr>heap := (heap st)
                               [addr := ob\<lparr>contents :=
                                  (contents ob)\<lparr>data := (data (contents ob))[i * c + j := v]\<rparr>\<rparr>]\<rparr>)
                      else Inl IndexError
                  | _ \<Rightarrow> Inl IndexError)
             | _ \<Rightarrow> Inl (TypeError immutable_message))
          else Inl (NameError var)
      | Some _ \<Rightarrow> Inl (TypeError ''indices must be integers''))"

definition isub :: "string \<Rightarrow> real ndarray \<Rightarrow> state \<Rightarrow> error + state" where
  "isub var rhs st =
     (case vars st var of
        None \<Rightarrow> Inl (NameError var)
      | Some (Leaf addr) \<Rightarrow>
          if addr < length (heap st) then
            (let ob = heap st ! addr in
             ebind (binop (-) (contents ob) rhs) (\<lambda>r.
               case backend ob of
                 NumPy \<Rightarrow>
                   if shape r = shape (contents ob)
                   then Inr (st\<lparr>heap := (heap st)[addr := ob\<lparr>contents := r\<rparr>]\<rparr>)
                   else Inl ValueError
               | _ \<Rightarrow> Inr (assign var JAX (Leaf r) st)))
          else Inl (NameError var)
      | Some _ \<Rightarrow> Inl (TypeError ''unsupported operand type''))"

definition jax_unchanged :: "state \<Rightarrow> state \<Rightarrow> bool" where
  "jax_unchanged st st' \<longleftrightarrow>
     length (heap st) \<le> length (heap st') \<and>
     list_all (\<lambda>a. backend (heap st ! a) = JAX \<longrightarrow> heap st' ! a = heap st ! a)
       [0..<length (heap st)]"

definition fresh_in :: "state \<Rightarrow> nat pytree \<Rightarrow> bool" where
  "fresh_in st t = all_leaves (\<lambda>a. length (heap st) \<le> a) t"

definition ones :: "nat list \<Rightarrow> real ndarray" where
  "ones s = \<lparr>shape = s, data = replicate (prod_list s) 1\<rparr>"

definition empty_state :: state where
  "empty_state = \<lparr>heap = [], vars = (\<lambda>_. None), stdout = []\<rparr>"

definition create_arrays_cell :: "state \<Rightarrow> state" where
  "create_arrays_cell st =
     (let st1 = assign ''numpy_array'' NumPy (Leaf (map_array real_of_int jax_array)) st;
          st2 = assign ''numpy_ones'' NumPy (Leaf (ones [10])) st1;
          st3 = assign ''jax_array'' JAX (Leaf (map_array real_of_int jax_array)) st2
      in assign ''jax_ones'' JAX (Leaf (ones [10])) st3)"

definition immutability_cell :: "state \<Rightarrow> error + state" where
  "immutability_cell st =
     ebind (setitem2 ''numpy_array'' 1 1 0 st) (\<lambda>st1.
       case setitem2 ''jax_array'' 1 1 0 st1 of
         Inl (TypeError err) \<Rightarrow> Inr (print_out (Text (''Exeption raised: '' @ err)) st1)
       | Inl e \<Rightarrow> Inl e
       | Inr st2 \<Rightarrow> Inr st2)"

fun for_loop :: "nat list \<Rightarrow> (nat \<Rightarrow> 's \<Rightarrow> error + 's) \<Rightarrow> 's \<Rightarrow> error + 's" where
  "for_loop [] body s = Inr s"
| "for_loop (i # rest) body s = ebind (body i s) (for_loop rest body)"

definition py_range :: "nat \<Rightarrow> nat list" where
  "py_range n = [0..<n]"

definition item :: "real ndarray \<Rightarrow> real" where
  "item a = (case data a of v # _ \<Rightarrow> v | [] \<Rightarrow> 0)"

definition getitem1 :: "real ndarray \<Rightarrow> nat \<Rightarrow> error + real ndarray" where
  "getitem1 a i =
     (case shape a of
        [] \<Rightarrow> Inl IndexError
      | d # _ \<Rightarrow> if i < d then Inr (index_axis 0 i a) else Inl IndexError)"

definition linreg_body ::
  "(real ndarray \<Rightarrow> real ndarray \<Rightarrow> real ndarray \<Rightarrow> error + real ndarray) \<Rightarrow>
     nat \<Rightarrow> state \<Rightarrow> error + state" where
  "linreg_body gradient i st =
     ebind (load_array ''params'' st) (\<lambda>params.
     ebind (load_array ''x_data'' st) (\<lambda>x.
     ebind (load_array ''y_data'' st) (\<lambda>y.
     ebind (gradient params x y) (\<lambda>grad_params.
     let st1 = assign ''grad_params'' JAX (Leaf grad_params) st in
     ebind (binop (*) (scalar (1 / 100)) grad_params) (\<lambda>scaled.
     ebind (isub ''params'' scaled st1) (\<lambda>st2.
     if i > 90 then
       ebind (load_array ''params'' st2) (\<lambda>params'.
       ebind (getitem1 params' 0) (\<lambda>m.
       ebind (getitem1 params' 1) (\<lambda>b.
       ebind (mse_loss params' x y) (\<lambda>l.
       Inr (print_out (Report (i + 1) [item m, item b, item l]) st2)))))
     else Inr st2))))))"

definition linreg_cell ::
  "(real ndarray \<Rightarrow> real ndarray \<Rightarrow> real ndarray \<Rightarrow> error + real ndarray) \<Rightarrow>
     state \<Rightarrow> error + state" where
  "linreg_cell gradient st =
     (let st0 = assign ''params'' JAX (Leaf (array1 [0, 0])) st
      in for_loop (py_range 100) (linreg_body gradient) st0)"

definition gradient_descent_step_heap ::
  "(real ndarray pytree \<Rightarrow> real ndarray \<Rightarrow> real ndarray \<Rightarrow> error + real ndarray pytree) \<Rightarrow>
     nat pytree \<Rightarrow> real ndarray \<Rightarrow> real ndarray \<Rightarrow> real \<Rightarrow> state \<Rightarrow> error + (nat pytree \<times> state)" where
  "gradient_descent_step_heap grad_fn params x y_true learning_rate st =
     (if all_leaves (\<lambda>a. a < length (heap st)) params then
        ebind (gradient_descent_step grad_fn (map_pytree (\<lambda>a. contents (heap st ! a)) params)
                 x y_true learning_rate)
          (\<lambda>update. Inr (alloc_tree JAX update st))
      else Inl (NameError ''params''))"

definition tuple_arrays :: "'a pytree \<Rightarrow> error + 'a list" where
  "tuple_arrays t =
     (case t of Tuple ts \<Rightarrow> sequence (map as_array ts) | _ \<Rightarrow> Inl ValueError)"

definition two_layer_body ::
  "(real ndarray list \<Rightarrow> real ndarray \<Rightarrow> real ndarray \<Rightarrow> error + real ndarray list) \<Rightarrow>
     nat \<Rightarrow> state \<Rightarrow> error + state" where
  "two_layer_body gradient_two_layer_nn i st =
     ebind (load ''params_two_layer_nn'' st) (\<lambda>params_tuple.
     ebind (tuple_arrays params_tuple) (\<lambda>params.
     ebind (load_array ''x_data'' st) (\<lambda>x.
     ebind (newaxis1 x) (\<lambda>x_col.
     ebind (load_array ''y_data'' st) (\<lambda>y.
     ebind (gradient_two_layer_nn params x_col y) (\<lambda>grads.
     let st1 = assign ''grad_params_two_layer_nn'' JAX (Tuple (map Leaf grads)) st in
     ebind (update_two_layer_nn (1 / 10) params grads) (\<lambda>new.
     let st2 = assign ''params_two_layer_nn'' JAX (Tuple (map Leaf new)) st1 in
     if i < 10 then
       ebind (two_layer_nn_mse_loss new x_col y) (\<lambda>l.
       Inr (print_out (Report (i + 1) [item l]) st2))
     else Inr st2)))))))"

definition two_layer_cell ::
  "(real ndarray list \<Rightarrow> real ndarray \<Rightarrow> real ndarray \<Rightarrow> error + real ndarray list) \<Rightarrow>
     state \<Rightarrow> error + state" where
  "two_layer_cell gradient_two_layer_nn st =
     (let st0 = assign ''params_two_layer_nn'' JAX (Tuple (map Leaf params_two_layer_nn)) st
      in for_loop (py_range 100) (two_layer_body gradient_two_layer_nn) st0)"

definition data_ready :: "nat \<Rightarrow> state \<Rightarrow> bool" where
  "data_ready n st \<longleftrightarrow>
     0 < n \<and>
     (case (load_array ''x_data'' st, load_array ''y_data'' st) of
        (Inr x, Inr y) \<Rightarrow> shape x = [n] \<and> shape y = [n]
      | _ \<Rightarrow> False)"

definition grad_contract ::
  "(real ndarray \<Rightarrow> real ndarray \<Rightarrow> real ndarray \<Rightarrow> error + real ndarray) \<Rightarrow> bool" where
  "grad_contract gradient \<longleftrightarrow>
     (\<forall>params x y. has_shape (mse_loss params x y) [] \<longrightarrow>
        (\<exists>g. gradient params x y = Inr g \<and> shape g = shape params))"

definition grad_contract_two_layer ::
  "(real ndarray list \<Rightarrow> real ndarray \<Rightarrow> real ndarray \<Rightarrow> error + real ndarray list) \<Rightarrow> bool" where
  "grad_contract_two_layer gradient \<longleftrightarrow>
     (\<forall>params x y. has_shape (two_layer_nn_mse_loss params x y) [] \<longrightarrow>
        (\<exists>gs. gradient params x y = Inr gs \<and> map shape gs = map shape params))"

fun iteration_numbers :: "printed list \<Rightarrow> nat list" where
  "iteration_numbers [] = []"
| "iteration_numbers (Report k _ # ps) = k # iteration_numbers ps"
| "iteration_numbers (Text _ # ps) = iteration_numbers ps"

definition linreg_inv :: "nat \<Rightarrow> state \<Rightarrow> bool" where
  "linreg_inv n st \<longleftrightarrow>
     data_ready n st \<and>
     (\<exists>a. vars st ''params'' = Some (Leaf a) \<and> a < length (heap st) \<and>
          backend (heap st ! a) = JAX \<and> shape (contents (heap st ! a)) = [2])"

definition two_layer_inv :: "nat \<Rightarrow> state \<Rightarrow> bool" where
  "two_layer_inv n st \<longleftrightarrow>
     data_ready n st \<and>
     (\<exists>addrs. vars st ''params_two_layer_nn'' = Some (Tuple (map Leaf addrs)) \<and>
        list_all (\<lambda>a. a < length (heap st)) addrs \<and>
        map (\<lambda>a. shape (contents (heap st ! a))) addrs = two_layer_shapes)"

definition small_data_state :: state where
  "small_data_state =
     assign ''y_data'' JAX (Leaf (array1 [1, 2]))
       (assign ''x_data'' JAX (Leaf (array1 [1, 2])) empty_state)"

definition zero_gradient :: "real ndarray \<Rightarrow> real ndarray \<Rightarrow> real ndarray \<Rightarrow> error + real ndarray" where
  "zero_gradient params x y = Inr (zeros (shape params))"

definition zero_gradient_two_layer_nn ::
  "real ndarray list \<Rightarrow> real ndarray \<Rightarrow> real ndarray \<Rightarrow> error + real ndarray list" where
  "zero_gradient_two_layer_nn params x y = Inr (map (\<lambda>p. zeros (shape p)) params)"

definition small_network_state :: "nat pytree \<times> state" where
  "small_network_state = alloc_tree JAX (init_network (\<lambda>k i. real i) 1 2 1) empty_state"


definition unchanged_throughout ::
  "(nat \<Rightarrow> state \<Rightarrow> error + state) \<Rightarrow> nat \<Rightarrow> state \<Rightarrow> state \<Rightarrow> bool" where
  "unchanged_throughout body n s s' \<longleftrightarrow>
     (\<exists>trace. length trace = Suc n \<and> trace ! 0 = s \<and> trace ! n = s' \<and>
        (\<forall>k<n. body k (trace ! k) = Inr (trace ! Suc k)) \<and>
        (\<forall>k\<le>n. \<forall>j\<le>k. jax_unchanged (trace ! j) (trace ! k)))"

definition unit_gradient :: "real ndarray \<Rightarrow> real ndarray \<Rightarrow> real ndarray \<Rightarrow> error + real ndarray" where
  "unit_gradient params x y = Inr (ones (shape params))"

definition unit_gradient_two_layer_nn ::
  "real ndarray list \<Rightarrow> real ndarray \<Rightarrow> real ndarray \<Rightarrow> error + real ndarray list" where
  "unit_gradient_two_layer_nn params x y = Inr (map (\<lambda>p. ones (shape p)) params)"

definition unit_grad ::
  "real ndarray pytree \<Rightarrow> real ndarray \<Rightarrow> real ndarray \<Rightarrow> error + real ndarray pytree" where
  "unit_grad params x y = tree_map (\<lambda>a. Inr (ones (shape a))) params"
section \<open>The control structure of the notebook's cells\<close>

text \<open>
  \<open>notebook\<close> is the list of the code cells of the first copy of the notebook in the
  file, each cell the list of its statements. A simple statement carries its text,
  abbreviated, and the names of the notebook's functions that it calls; a list
  comprehension and a generator expression are \<open>For\<close> loops over what they iterate. The
  second copy of the notebook in the file is shorter: its cells have the compound
  statements of the first eighteen cells here, less the loop over
  \<open>result.device_buffers\<close>.

  \<open>all_stmts\<close> lists every statement with the statements nested in it.
  \<open>is_recursive_def\<close> holds of the definition of a function whose body calls the
  function. \<open>runs_iterations body n s s'\<close> says that \<open>n\<close> executions of \<open>body\<close>, for
  \<open>0, ..., n - 1\<close>, each returning normally, lead from \<open>s\<close> to \<open>s'\<close>.
\<close>

datatype iterable = PyRange nat | Elements string | Items string

datatype stmt =
    Simple string "string list"
  | Return string "string list"
  | For iterable "stmt list"
  | While string "stmt list"
  | If string "stmt list" "stmt list"
  | Try "stmt list" string "stmt list"
  | With string "stmt list"
  | Def string "stmt list"

definition notebook :: "stmt list list" where
  "notebook =
    [[Simple ''import jax'' [],
      Simple ''import numpy as np'' [],
      Simple ''import jax.numpy as jnp'' [],
      Simple ''numpy_array = np.array([[1, 2], [3, 4]])'' [],
      Simple ''numpy_ones = np.ones(10)'' [],
      Simple ''jax_array = jnp.array([[1, 2], [3, 4]])'' [],
      Simple ''jax_ones = jax.numpy.ones(10)'' []],
     [Simple ''numpy_array[1, 1] = 0'' [],
      Try [Simple ''jax_array[1, 1] = 0'' []]
          ''TypeError''
          [Simple ''print(Exeption raised: err)'' []]],
     [Simple ''print(Array device: jax_array.device_buffer.device())'' [],
      Simple ''print(List available devices, jax.devices())'' [],
      Simple ''jax_array = jax.device_put(jax_array, jax.devices(cpu)[0])'' [],
      Simple ''print(Array device: jax_array.device_buffer.device())'' []],
     [Simple ''large_numpy_matrix = np.random.rand(5000, 5000)'' [],
      Simple ''large_jax_matrix = jnp.array(large_numpy_matrix)'' [],
      Simple ''%timeit np.dot(large_numpy_matrix, large_numpy_matrix)'' [],
      Simple ''%timeit jnp.dot(large_jax_matrix, large_jax_matrix).block_until_ready()'' []],
     [Def ''slow_function'' [Return ''jnp.sin(x) * jnp.cos(x)'' []],
      Simple ''compiled_function = jax.jit(slow_function)'' [],
      Simple ''result = compiled_function(jnp.array([1.0, 2.0, 3.0]))'' [''slow_function''],
      Simple ''print(result)'' [],
      Def ''decorated_function'' [Return ''jnp.sin(x) * jnp.cos(x)'' []],
      Simple ''print(JIT compiled with decorators: decorated_function)'' []],
     [Simple ''from jax import make_jaxpr'' [],
      Simple ''print(make_jaxpr(slow_function)(jnp.array([1.0, 2.0, 3.0])))'' [''slow_function'']],
     [Def ''jitted_function'' [Simple ''print(Inside jitted function:, x)'' []],
      Simple ''print(JIT enabled)'' [],
      Simple ''x = jnp.array([1.0, 2.0, 3.0])'' [],
      For (PyRange 3)
        [Simple ''print(Iteration i+1:)'' [],
         Simple ''jitted_function(x)'' [''jitted_function'']],
      Simple ''print(JIT disabled)'' [],
      With ''jax.disable_jit()''
        [For (PyRange 3)
           [Simple ''print(Iteration i+1:)'' [],
            Simple ''jitted_function(x)'' [''jitted_function'']]]],
     [Simple ''import matplotlib.pylab as plt'' [],
      Simple ''true_m = 2.5'' [],
      Simple ''true_b = -1.0'' [],
      Simple ''x_data = jnp.linspace(-10, 10, 1000)'' [],
      Simple ''y_data = true_m * x_data + true_b + jax.random.normal(...) * 2.0'' []],
     [Def ''linear_model'' [Return ''m * x + b'' []],
      Def ''mse_loss''
        [Simple ''m, b = params'' [],
         Simple ''y_pred = linear_model(x, m, b)'' [''linear_model''],
         Return ''np.mean((y_pred - y)**2)'' []]],
     [Simple ''gradient = jax.grad(mse_loss, argnums=0)'' [],
      Simple ''gradient(jnp.array([0.0, 0.0]), x_data, y_data)'' [''mse_loss'']],
     [Simple ''import jaxopt'' [],
      Simple ''learning_rate = 0.01'' [],
      Simple ''params = jnp.array([0.0, 0.0])'' [],
      For (PyRange 100)
        [Simple ''grad_params = gradient(params, x_data, y_data)'' [''mse_loss''],
         Simple ''params -= learning_rate * grad_params'' [],
         If ''i > 90'' [Simple ''print(Iteration i+1: m, b, Loss)'' [''mse_loss'']] []],
      Simple ''print(Optimization results, m, b)'' [],
      Simple ''solver = jaxopt.GradientDescent(fun=mse_loss, tol=10**-6)'' [],
      Simple ''params, state = solver.run(init_params=(1., 1.), x=x_data, y=y_data)'' [''mse_loss''],
      Simple ''print(JAXopt results, m, b)'' []],
     [Def ''two_layer_nn_model''
        [Simple ''hidden1 = jax.nn.relu(jnp.dot(x, w1) + b1)'' [],
         Simple ''hidden2 = jax.nn.relu(jnp.dot(hidden1, w2) + b2)'' [],
         Return ''jnp.dot(hidden2, w_out) + b_out'' []],
      Def ''two_layer_nn_mse_loss''
        [Simple ''w1, b1, w2, b2, w_out, b_out = params'' [],
         Simple ''y_pred = two_layer_nn_model(x, w1, b1, w2, b2, w_out, b_out)'' [''two_layer_nn_model''],
         Return ''jnp.mean((y_pred - y)**2)'' []],
      Simple ''gradient_two_layer_nn = jax.grad(two_layer_nn_mse_loss, argnums=0)'' [],
      Simple ''learning_rate = 0.1'' [],
      Simple ''params_two_layer_nn = (jnp.zeros((1, 10)), ..., 0.0)'' [],
      For (PyRange 100)
        [Simple ''grad_params_two_layer_nn = gradient_two_layer_nn(params_two_layer_nn, x_data[:, None], y_data)''
           [''two_layer_nn_mse_loss''],
         For (Elements ''zip(params_two_layer_nn, grad_params_two_layer_nn)'')
           [Simple ''param - learning_rate * grad_param'' []],
         Simple ''params_two_layer_nn = tuple(...)'' [],
         If ''i < 10'' [Simple ''print(Iteration i+1: Loss)'' [''two_layer_nn_mse_loss'']] []]],
     [Def ''square'' [Return ''x * x'' []]],
     [Simple ''xs = jnp.array([1.0, 2.0, 3.0, 4.0])'' [],
      For (Elements ''xs'') [Simple ''square(x)'' [''square'']],
      Simple ''squared = jnp.array([...])'' []],
     [Simple ''batched_square = jax.vmap(square)'' [],
      Simple ''squared = batched_square(xs)'' [''square'']],
     [Simple ''vector_vector = lambda x, y: jnp.vdot(x, y)'' [],
      Simple ''matrix_vector = jax.vmap(vector_vector, in_axes=(0, None), out_axes=0)'' [],
      Simple ''matrix_matrix = jax.vmap(matrix_vector, in_axes=(None, 1), out_axes=1)'' [],
      Simple ''print(matrix_matrix(jax_array, jax_array), jnp.dot(jax_array, jax_array))'' [],
      Simple ''matrix_matrix_transpose = jax.vmap(matrix_vector, in_axes=(None, 1), out_axes=0)'' [],
      Simple ''print(matrix_matrix_transpose(jax_array, jax_array))'' []],
     [Simple ''devices = jax.devices()'' [],
      Simple ''print(devices)'' []],
     [Simple ''x_sharded = jax.random.normal(jax.random.PRNGKey(123), shape=(2, 10, 10))'' [],
      Simple ''y_sharded = jax.random.normal(jax.random.PRNGKey(456), shape=(2, 10, 10))'' [],
      Simple ''pmap_multiply = jax.pmap(matrix_matrix, devices=devices*2)'' [],
      Simple ''result = pmap_multiply(x_sharded, y_sharded)'' [],
      For (Elements ''result.device_buffers'')
        [Simple ''print(Shape:, buffer.shape)'' [],
         Simple ''print(Device:, buffer.device_buffer.device())'' []],
      Simple ''print(Result Shape:, result.shape)'' []],
     [Simple ''leaf = jnp.array([1.0, 2.0, 3.0])'' [],
      Simple ''tree = (jnp.array([1.0, 2.0, 3.0]), jnp.array([4.0, 5.0]))'' [],
      Simple ''tree = {a: jnp.array([1.0, 2.0, 3.0]), b: jnp.array([4.0, 5.0])}'' []],
     [Simple ''tree = {a: jnp.array([1.0, 2.0]), b: (jnp.array([3.0, 4.0]), jnp.array([5.0]))}'' [],
      Simple ''result = jax.tree_map(lambda x: x * 2, tree)'' [],
      Simple ''print(result)'' []],
     [Def ''init_network''
        [Simple ''params = {layer1: {weights: ..., biases: ...}, layer2: {weights: ..., biases: ...}}'' [],
         Return ''params'' []]],
     [Def ''forward''
        [Simple ''z1 = jnp.dot(x, params[layer1][weights]) + params[layer1][biases]'' [],
         Simple ''a1 = jax.nn.relu(z1)'' [],
         Simple ''z2 = jnp.dot(a1, params[layer2][weights]) + params[layer2][biases]'' [],
         Simple ''a2 = jax.nn.relu(z2)'' [],
         Return ''a2'' []]],
     [Def ''loss''
        [Simple ''y_pred = forward(params, x)'' [''forward''],
         Return ''jnp.mean((y_pred - y_true) ** 2)'' []],
      Simple ''grad_fn = jax.grad(loss)'' [],
      Def ''gradient_descent_step''
        [Simple ''gradients = grad_fn(params, x, y_true)'' [''loss''],
         Return ''jax.tree_map(lambda p, g: p - learning_rate * g, params, gradients)'' []]],
     [Def ''print_leaf_shapes''
        [For (Items ''d'')
           [Simple ''new_path = path + [k]'' [],
            If ''isinstance(v, dict)''
              [Simple ''print_leaf_shapes(v, new_path)'' [''print_leaf_shapes'']]
              [Simple ''print(path: v.shape)'' []]]],
      Simple ''update = gradient_descent_step(init_network(1, 10, 1), x_data[:, None], y_data[:, None])''
        [''gradient_descent_step'', ''init_network''],
      Simple ''print_leaf_shapes(update)'' [''print_leaf_shapes'']],
     [],
     []]"

fun calls :: "stmt \<Rightarrow> string list" where
  "calls (Simple _ fs) = fs"
| "calls (Return _ fs) = fs"
| "calls (For _ body) = concat (map calls body)"
| "calls (While _ body) = concat (map calls body)"
| "calls (If _ yes no) = concat (map calls yes) @ concat (map calls no)"
| "calls (Try body _ handler) = concat (map calls body) @ concat (map calls handler)"
| "calls (With _ body) = concat (map calls body)"
| "calls (Def _ _) = []"

fun substmts :: "stmt \<Rightarrow> stmt list" where
  "substmts (Simple l fs) = [Simple l fs]"
| "substmts (Return l fs) = [Return l fs]"
| "substmts (For it body) = For it body # concat (map substmts body)"
| "substmts (While c body) = While c body # concat (map substmts body)"
| "substmts (If c yes no) = If c yes no # concat (map substmts yes) @ concat (map substmts no)"
| "substmts (Try body exc handler) =
     Try body exc handler # concat (map substmts body) @ concat (map substmts handler)"
| "substmts (With c body) = With c body # concat (map substmts body)"
| "substmts (Def f body) = Def f body # concat (map substmts body)"

definition all_stmts :: "stmt list list \<Rightarrow> stmt list" where
  "all_stmts cells = concat (map substmts (concat cells))"

fun is_if :: "stmt \<Rightarrow> bool" where
  "is_if (If _ _ _) = True"
| "is_if _ = False"

fun is_try :: "stmt \<Rightarrow> bool" where
  "is_try (Try _ _ _) = True"
| "is_try _ = False"

fun is_while :: "stmt \<Rightarrow> bool" where
  "is_while (While _ _) = True"
| "is_while _ = False"

fun is_recursive_def :: "stmt \<Rightarrow> bool" where
  "is_recursive_def (Def f body) = (f \<in> set (concat (map calls body)))"
| "is_recursive_def _ = False"

fun loop_iterable :: "stmt \<Rightarrow> iterable list" where
  "loop_iterable (For it _) = [it]"
| "loop_iterable _ = []"

fun def_name :: "stmt \<Rightarrow> string list" where
  "def_name (Def f _) = [f]"
| "def_name _ = []"

fun if_condition :: "stmt \<Rightarrow> string list" where
  "if_condition (If c _ _) = [c]"
| "if_condition _ = []"

definition straight_line_or_for :: "stmt \<Rightarrow> bool" where
  "straight_line_or_for s \<longleftrightarrow> \<not> is_if s \<and> \<not> is_try s \<and> \<not> is_while s \<and> \<not> is_recursive_def s"

definition runs_iterations :: "(nat \<Rightarrow> 's \<Rightarrow> error + 's) \<Rightarrow> nat \<Rightarrow> 's \<Rightarrow> 's \<Rightarrow> bool" where
  "runs_iterations body n s s' \<longleftrightarrow>
     (\<exists>trace. length trace = Suc n \<and> trace ! 0 = s \<and> trace ! n = s' \<and>
        (\<forall>k<n. body k (trace ! k) = Inr (trace ! Suc k)))"

lemma ebind_Inr [simp]: "ebind (Inr v) f = f v"
  by (simp add: ebind_def)

lemma ebind_Inl [simp]: "ebind (Inl e) f = Inl e"
  by (simp add: ebind_def)

lemma broadcast_scalar_left [simp]: "broadcast_shapes [] s = Some s"
  by (simp add: broadcast_shapes_def)

lemma bcast_rev_Nil2 [simp]: "bcast_rev xs [] = Some xs"
  by (cases xs) simp_all

lemma broadcast_scalar_right [simp]: "broadcast_shapes s [] = Some s"
  by (simp add: broadcast_shapes_def)

lemma bcast_rev_same [simp]: "bcast_rev xs xs = Some xs"
  by (induction xs) simp_all

lemma broadcast_same [simp]: "broadcast_shapes s s = Some s"
  by (simp add: broadcast_shapes_def)

lemma bcast_get_scalar [simp]: "bcast_get (scalar v) idx = v"
  by (simp add: bcast_get_def scalar_def bcast_index_def ravel_def)

lemma bcast_get_array1:
  "k < length xs \<Longrightarrow> bcast_get (array1 xs) [k] = xs ! k"
  by (auto simp: bcast_get_def array1_def bcast_index_def ravel_def)

lemma map_nth_fun: "map (\<lambda>k. g (xs ! k)) [0..<length xs] = map g xs"
  by (rule nth_equalityI) simp_all

lemma shape_scalar [simp]: "shape (scalar v) = []"
  by (simp add: scalar_def)

lemma shape_array1 [simp]: "shape (array1 xs) = [length xs]"
  by (simp add: array1_def)

lemma data_array1 [simp]: "data (array1 xs) = xs"
  by (simp add: array1_def)

lemma data_scalar [simp]: "data (scalar v) = [v]"
  by (simp add: scalar_def)

lemma array1_eq: "\<lparr>shape = [length xs], data = xs\<rparr> = array1 xs"
  by (simp add: array1_def)

lemma unravel_1 [simp]: "unravel [n] k = [k]"
  by simp

lemma binop_scalar_array1:
  "binop f (scalar m) (array1 xs) = Inr (array1 (map (f m) xs))"
proof -
  have "map (\<lambda>k. f m (bcast_get (array1 xs) [k])) [0..<length xs] = map (\<lambda>k. f m (xs ! k)) [0..<length xs]"
    by (rule map_cong) (simp_all add: bcast_get_array1)
  also have "\<dots> = map (f m) xs"
    by (rule map_nth_fun)
  finally have *: "map (\<lambda>k. f m (bcast_get (array1 xs) [k])) [0..<length xs] = map (f m) xs" .
  show ?thesis
    unfolding binop_def by (simp add: * )
qed

lemma binop_array1_scalar:
  "binop f (array1 xs) (scalar b) = Inr (array1 (map (\<lambda>v. f v b) xs))"
proof -
  have "map (\<lambda>k. f (bcast_get (array1 xs) [k]) b) [0..<length xs] = map (\<lambda>k. f (xs ! k) b) [0..<length xs]"
    by (rule map_cong) (simp_all add: bcast_get_array1)
  also have "\<dots> = map (\<lambda>v. f v b) xs"
    by (rule map_nth_fun)
  finally have *: "map (\<lambda>k. f (bcast_get (array1 xs) [k]) b) [0..<length xs] = map (\<lambda>v. f v b) xs" .
  show ?thesis
    unfolding binop_def by (simp add: * )
qed

lemma binop_array1_array1:
  assumes "length xs = length ys"
  shows "binop f (array1 xs) (array1 ys) = Inr (array1 (map2 f xs ys))"
proof -
  have "map (\<lambda>k. f (bcast_get (array1 xs) [k]) (bcast_get (array1 ys) [k])) [0..<length xs]
        = map (\<lambda>k. f (xs ! k) (ys ! k)) [0..<length xs]"
    using assms by (intro map_cong) (simp_all add: bcast_get_array1)
  also have "\<dots> = map2 f xs ys"
    using assms by (intro nth_equalityI) simp_all
  finally have *: "map (\<lambda>k. f (bcast_get (array1 xs) [k]) (bcast_get (array1 ys) [k])) [0..<length xs]
        = map2 f xs ys" .
  have len: "length ys = length xs"
    using assms by simp
  show ?thesis
    unfolding binop_def by (simp add: len * )
qed

lemma index_axis_array1:
  "i < length xs \<Longrightarrow> index_axis 0 i (array1 xs) = scalar (xs ! i)"
  by (simp add: index_axis_def scalar_def)

lemma unpack2_array1: "unpack2 (array1 [m, b]) = Inr (scalar m, scalar b)"
  by (simp add: unpack2_def iterate_def index_axis_array1 upt_rec)


lemma linear_model_array1:
  "linear_model (array1 xs) (scalar m) (scalar b) = Inr (array1 (map (\<lambda>v. m * v + b) xs))"
  by (simp add: linear_model_def binop_scalar_array1 binop_array1_scalar)

lemma mse_loss_array1:
  assumes "length xs = length ys"
  shows "mse_loss (array1 [m, b]) (array1 xs) (array1 ys) =
           (if xs = [] then Inl NotANumber
            else Inr (scalar (sum_list (map (sq_err m b) (zip xs ys)) / real (length xs))))"
proof -
  have 1: "map2 (-) (map (\<lambda>v. m * v + b) xs) ys = map (\<lambda>p. m * fst p + b - snd p) (zip xs ys)"
    using assms by (intro nth_equalityI) simp_all
  have 2: "binop (-) (array1 (map (\<lambda>v. m * v + b) xs)) (array1 ys)
             = Inr (array1 (map (\<lambda>p. m * fst p + b - snd p) (zip xs ys)))"
    using assms by (simp add: binop_array1_array1 1)
  have 3: "map (\<lambda>v. v\<^sup>2) (map (\<lambda>p. m * fst p + b - snd p) (zip xs ys)) = map (sq_err m b) (zip xs ys)"
    by (simp add: sq_err_def)
  have 4: "data (array_pow (array1 (map (\<lambda>p. m * fst p + b - snd p) (zip xs ys))) 2)
             = map (sq_err m b) (zip xs ys)"
    unfolding array_pow_def using 3 by simp
  have 5: "ys = [] \<longleftrightarrow> xs = []"
    using assms by auto
  have 6: "length (zip xs ys) = length xs"
    using assms by simp
  show ?thesis
    by (simp add: mse_loss_def unpack2_array1 linear_model_array1 2 jnp_mean_def 4 5 6
        del: length_zip)
qed

lemma DERIV_sum_sq_m:
  "((\<lambda>t. sum_list (map (sq_err t b) ps)) has_field_derivative
      sum_list (map (\<lambda>p. 2 * fst p * (m * fst p + b - snd p)) ps)) (at m)"
proof (induction ps)
  case Nil
  show ?case by simp
next
  case (Cons p ps)
  have "((\<lambda>t. sq_err t b p) has_field_derivative 2 * fst p * (m * fst p + b - snd p)) (at m)"
    unfolding sq_err_def by (auto intro!: derivative_eq_intros)
  from DERIV_add [OF this Cons.IH] show ?case by simp
qed

lemma DERIV_sum_sq_b:
  "((\<lambda>t. sum_list (map (sq_err m t) ps)) has_field_derivative
      sum_list (map (\<lambda>p. 2 * (m * fst p + b - snd p)) ps)) (at b)"
proof (induction ps)
  case Nil
  show ?case by simp
next
  case (Cons p ps)
  have "((\<lambda>t. sq_err m t p) has_field_derivative 2 * (m * fst p + b - snd p)) (at b)"
    unfolding sq_err_def by (auto intro!: derivative_eq_intros)
  from DERIV_add [OF this Cons.IH] show ?case by simp
qed

lemma jnp_mean_array1:
  "jnp_mean (array1 vs) =
     (if vs = [] then Inl NotANumber else Inr (scalar (sum_list vs / real (length vs))))"
  by (simp add: jnp_mean_def)

lemma analytic_gradient_array1:
  assumes "length xs = length ys"
  shows "analytic_gradient m b (array1 xs) (array1 ys) =
           (if xs = [] then Inl NotANumber
            else Inr (scalar (sum_list (map (\<lambda>p. 2 * fst p * (m * fst p + b - snd p)) (zip xs ys)) / real (length xs)),
                      scalar (sum_list (map (\<lambda>p. 2 * (m * fst p + b - snd p)) (zip xs ys)) / real (length xs))))"
proof -
  let ?r = "map (\<lambda>p. m * fst p + b - snd p) (zip xs ys)"
  let ?g0 = "map (\<lambda>p. 2 * fst p * (m * fst p + b - snd p)) (zip xs ys)"
  let ?g1 = "map (\<lambda>p. 2 * (m * fst p + b - snd p)) (zip xs ys)"
  have a1: "binop (*) (scalar m) (array1 xs) = Inr (array1 (map ((*) m) xs))"
    by (rule binop_scalar_array1)
  have a2: "binop (+) (array1 (map ((*) m) xs)) (scalar b)
              = Inr (array1 (map (\<lambda>v. v + b) (map ((*) m) xs)))"
    by (rule binop_array1_scalar)
  have "map2 (-) (map (\<lambda>v. v + b) (map ((*) m) xs)) ys = ?r"
    using assms by (intro nth_equalityI) simp_all
  then have a3: "binop (-) (array1 (map (\<lambda>v. v + b) (map ((*) m) xs))) (array1 ys) = Inr (array1 ?r)"
    using assms by (simp add: binop_array1_array1)
  have a4: "binop (*) (scalar 2) (array1 xs) = Inr (array1 (map ((*) 2) xs))"
    by (rule binop_scalar_array1)
  have "map2 (*) (map ((*) 2) xs) ?r = ?g0"
    using assms by (intro nth_equalityI) simp_all
  then have a5: "binop (*) (array1 (map ((*) 2) xs)) (array1 ?r) = Inr (array1 ?g0)"
    using assms by (simp add: binop_array1_array1)
  have "map ((*) 2) ?r = ?g1"
    by simp
  then have a6: "binop (*) (scalar 2) (array1 ?r) = Inr (array1 ?g1)"
    by (simp add: binop_scalar_array1)
  have e: "zip xs ys = [] \<longleftrightarrow> xs = []"
    using assms by (cases xs; cases ys) simp_all
  have n: "length (zip xs ys) = length xs"
    using assms by simp
  have e': "ys = [] \<longleftrightarrow> xs = []"
    using assms by auto
  show ?thesis
    unfolding analytic_gradient_def a1 ebind_Inr a2 a3 a4 a5 a6 jnp_mean_array1
    by (simp add: e e' n del: length_zip)
qed

text \<open>
  Claim C1 as stated: for every pair of equal-length data vectors, \<open>gradient\<close> returns
  the array \<open>[mean(2*x*(m*x + b - y)), mean(2*(m*x + b - y))]\<close>. Vectors of length 0 are
  of equal length, and on them the loss and both means of the formula are the
  not-a-number result of a mean over zero elements: the formula is no array of two
  numbers, in particular not the \<open>[0., 0.]\<close> that \<open>jax.grad\<close> returns there, and no
  array is the derivative of the loss.
\<close>

theorem gradient_on_empty_data:
  "length ([] :: real list) = length ([] :: real list) \<and>
   mse_loss (array1 [0, 0]) (array1 []) (array1 []) = Inl NotANumber \<and>
   analytic_gradient 0 0 (array1 []) (array1 []) = Inl NotANumber \<and>
   analytic_gradient 0 0 (array1 []) (array1 []) \<noteq> Inr (scalar 0, scalar 0) \<and>
   \<not> (\<exists>g. is_grad (\<lambda>params. mse_loss params (array1 []) (array1 [])) (array1 [0, 0]) g)"
proof -
  have l: "mse_loss (array1 [t, u]) (array1 []) (array1 []) = Inl NotANumber" for t u
    by (simp add: mse_loss_array1)
  have a: "analytic_gradient 0 0 (array1 []) (array1 []) = Inl NotANumber"
    by (simp add: analytic_gradient_array1)
  have "\<not> is_grad (\<lambda>params. mse_loss params (array1 []) (array1 [])) (array1 [0, 0]) g" for g
  proof
    assume "is_grad (\<lambda>params. mse_loss params (array1 []) (array1 [])) (array1 [0, 0]) g"
    then have "\<exists>v. mse_loss (set_entry (array1 [0, 0]) 0 0) (array1 []) (array1 []) = Inr (scalar v)"
      by (simp add: is_grad_def)
    moreover have "set_entry (array1 [0, 0 :: real]) 0 0 = array1 [0, 0]"
      by (simp add: set_entry_def array1_def)
    ultimately show False
      by (simp add: l)
  qed
  with l a show ?thesis
    by simp
qed

text \<open>
  Claim C1, amended. \<open>gradient = jax.grad(mse_loss, argnums=0)\<close> is the analytic gradient
  of the mean-squared-error loss of the linear model on non-empty data. For all
  parameters \<open>m\<close>, \<open>b\<close> and all data vectors \<open>xs\<close>, \<open>ys\<close> of equal length, not 0, the
  array \<open>[mean(2*x*(m*x + b - y)), mean(2*(m*x + b - y))]\<close> satisfies the contract of
  \<open>jax.grad\<close> for \<open>mse_loss\<close> at \<open>[m, b]\<close> (component \<open>i\<close> is the derivative of
  the loss in parameter \<open>i\<close>), and it is the only array that does, so it is what
  \<open>gradient\<close> returns.
\<close>

theorem gradient_is_analytic:
  assumes "length xs = length ys" and ne: "xs \<noteq> []"
  shows "\<exists>g0 g1. analytic_gradient m b (array1 xs) (array1 ys) = Inr (scalar g0, scalar g1) \<and>
           is_grad (\<lambda>params. mse_loss params (array1 xs) (array1 ys))
             (array1 [m, b]) (array1 [g0, g1]) \<and>
           (\<forall>g. is_grad (\<lambda>params. mse_loss params (array1 xs) (array1 ys))
                  (array1 [m, b]) g \<longrightarrow> g = array1 [g0, g1])"
proof -
  have len: "length xs = length ys"
    by (rule assms(1))
  let ?n = "real (length xs)"
  let ?g0 = "sum_list (map (\<lambda>p. 2 * fst p * (m * fst p + b - snd p)) (zip xs ys)) / ?n"
  let ?g1 = "sum_list (map (\<lambda>p. 2 * (m * fst p + b - snd p)) (zip xs ys)) / ?n"
  let ?f = "\<lambda>params. mse_loss params (array1 xs) (array1 ys)"
  have ag: "analytic_gradient m b (array1 xs) (array1 ys) = Inr (scalar ?g0, scalar ?g1)"
    using ne by (simp add: analytic_gradient_array1 [OF len])
  have e0: "set_entry (array1 [m, b]) 0 t = array1 [t, b]" for t
    by (simp add: set_entry_def array1_def)
  have e1: "set_entry (array1 [m, b]) (Suc 0) t = array1 [m, t]" for t
    by (simp add: set_entry_def array1_def)
  have v0: "result_item (?f (array1 [t, b])) = sum_list (map (sq_err t b) (zip xs ys)) / ?n" for t
    using ne by (simp add: mse_loss_array1 [OF len] result_item_def)
  have v1: "result_item (?f (array1 [m, t])) = sum_list (map (sq_err m t) (zip xs ys)) / ?n" for t
    using ne by (simp add: mse_loss_array1 [OF len] result_item_def)
  have d0: "((\<lambda>t. result_item (?f (set_entry (array1 [m, b]) 0 t))) has_field_derivative ?g0) (at m)"
    unfolding e0 v0 by (rule DERIV_cdivide [OF DERIV_sum_sq_m])
  have d1: "((\<lambda>t. result_item (?f (set_entry (array1 [m, b]) (Suc 0) t))) has_field_derivative ?g1) (at b)"
    unfolding e1 v1 by (rule DERIV_cdivide [OF DERIV_sum_sq_b])
  have r0: "\<exists>v. ?f (set_entry (array1 [m, b]) 0 t) = Inr (scalar v)" for t
    unfolding e0 using ne by (auto simp: mse_loss_array1 [OF len])
  have r1: "\<exists>v. ?f (set_entry (array1 [m, b]) (Suc 0) t) = Inr (scalar v)" for t
    unfolding e1 using ne by (auto simp: mse_loss_array1 [OF len])
  have u: "g = array1 [?g0, ?g1]" if g: "is_grad ?f (array1 [m, b]) g" for g
  proof -
    from g have sh: "shape g = [2]" and len: "length (data g) = 2"
      by (simp_all add: is_grad_def)
    from g have "\<forall>i<2. ((\<lambda>t. result_item (?f (set_entry (array1 [m, b]) i t)))
                   has_field_derivative data g ! i) (at ([m, b] ! i))"
      by (simp add: is_grad_def)
    then have g0: "((\<lambda>t. result_item (?f (set_entry (array1 [m, b]) 0 t)))
                   has_field_derivative data g ! 0) (at m)"
      and g1: "((\<lambda>t. result_item (?f (set_entry (array1 [m, b]) (Suc 0) t)))
                   has_field_derivative data g ! Suc 0) (at b)"
      by (auto dest: spec [of _ 0] spec [of _ "Suc 0"])
    from DERIV_unique [OF g0 d0] DERIV_unique [OF g1 d1]
    have v: "data g ! 0 = ?g0" "data g ! Suc 0 = ?g1"
      by simp_all
    from len obtain p q where pq: "data g = [p, q]"
      by (cases "data g"; cases "tl (data g)") auto
    with v have "data g = [?g0, ?g1]"
      by simp
    with sh show ?thesis
      by (cases g) (simp add: array1_def)
  qed
  have "is_grad ?f (array1 [m, b]) (array1 [?g0, ?g1])"
    unfolding is_grad_def
  proof (intro conjI allI impI)
    fix i t assume "i < length (data (array1 [m, b]))"
    then have "i = 0 \<or> i = Suc 0" by auto
    then show "\<exists>v. ?f (set_entry (array1 [m, b]) i t) = Inr (scalar v)"
      using r0 r1 by blast
  next
    fix i assume "i < length (data (array1 [m, b]))"
    then have "i = 0 \<or> i = Suc 0" by auto
    then show "((\<lambda>t. result_item (?f (set_entry (array1 [m, b]) i t))) has_field_derivative
                  data (array1 [?g0, ?g1]) ! i) (at (data (array1 [m, b]) ! i))"
      using d0 d1 by auto
  qed simp_all
  with ag u show "\<exists>g0 g1. analytic_gradient m b (array1 xs) (array1 ys) = Inr (scalar g0, scalar g1) \<and>
               is_grad ?f (array1 [m, b]) (array1 [g0, g1]) \<and>
               (\<forall>g. is_grad ?f (array1 [m, b]) g \<longrightarrow> g = array1 [g0, g1])"
    by blast
qed

theorem gradient_is_analytic_witness:
  "length [1, 2, 3 :: real] = length [3, 5, 8 :: real] \<and>
   analytic_gradient 1 2 (array1 [1, 2, 3]) (array1 [3, 5, 8])
     = Inr (scalar (- 22 / 3), scalar (- 8 / 3)) \<and>
   is_grad (\<lambda>params. mse_loss params (array1 [1, 2, 3]) (array1 [3, 5, 8]))
     (array1 [1, 2]) (array1 [- 22 / 3, - 8 / 3])"
proof -
  have len: "length [1, 2, 3 :: real] = length [3, 5, 8 :: real]"
    by simp
  have ag: "analytic_gradient 1 2 (array1 [1, 2, 3]) (array1 [3, 5, 8])
     = Inr (scalar (- 22 / 3), scalar (- 8 / 3))"
    by (simp add: analytic_gradient_array1)
  have ne: "[1, 2, 3 :: real] \<noteq> []"
    by simp
  from gradient_is_analytic [OF len ne, of 1 2] ag len show ?thesis
    by (auto simp: scalar_def)
qed

lemma sequence_map_Inr:
  assumes "\<And>i. i \<in> set js \<Longrightarrow> f i = Inr (g i)"
  shows "sequence (map f js) = Inr (map g js)"
  using assms by (induction js) simp_all

lemma index_axis_0_matrix:
  assumes "shape A = [b, a]"
  shows "index_axis 0 i A = array1 (map (\<lambda>k. data A ! (i * a + k)) [0..<a])"
proof -
  have "map (\<lambda>k. data A ! ((k div a * b + i) * a + k mod a)) [0..<a]
          = map (\<lambda>k. data A ! (i * a + k)) [0..<a]"
    by (rule map_cong) simp_all
  then show ?thesis
    by (simp add: index_axis_def assms array1_def)
qed

lemma index_axis_1_matrix:
  assumes "shape B = [a, c]"
  shows "index_axis (Suc 0) j B = array1 (map (\<lambda>k. data B ! (k * c + j)) [0..<a])"
  by (simp add: index_axis_def assms array1_def)


lemma map2_map_upt:
  "map2 h (map f [0..<n]) (map g [0..<n]) = map (\<lambda>k. h (f k) (g k)) [0..<n]"
  by (rule nth_equalityI) simp_all

lemma stack_0_scalars:
  "stack 0 [] (map (\<lambda>i. scalar (r i)) [0..<n]) = Inr (array1 (map r [0..<n]))"
proof -
  have "map (\<lambda>k. data (map (\<lambda>i. scalar (r i)) [0..<n] ! (k mod n)) ! 0) [0..<n] = map r [0..<n]"
    by (rule map_cong) simp_all
  then show ?thesis
    by (simp add: stack_def list_all_iff array1_def)
qed

lemma stack_1_vectors:
  "stack 1 [b] (map (\<lambda>j. array1 (map (\<lambda>i. r i j) [0..<b])) [0..<c])
     = Inr \<lparr>shape = [b, c], data = map (\<lambda>k. r (k div c) (k mod c)) [0..<b * c]\<rparr>"
proof -
  let ?rs = "map (\<lambda>j. array1 (map (\<lambda>i. r i j) [0..<b])) [0..<c]"
  have "map (\<lambda>k. data (?rs ! (k mod c)) ! (k div c)) [0..<b * c]
          = map (\<lambda>k. r (k div c) (k mod c)) [0..<b * c]"
  proof (rule map_cong)
    fix k assume "k \<in> set [0..<b * c]"
    then have k: "k < b * c" by simp
    then have "0 < c" by (cases c) simp_all
    then have 1: "k mod c < c" by simp
    have 2: "k div c < b"
      using k by (simp add: less_mult_imp_div_less)
    show "data (?rs ! (k mod c)) ! (k div c) = r (k div c) (k mod c)"
      using 1 2 by simp
  qed simp
  then show ?thesis
    by (simp add: stack_def list_all_iff)
qed

lemma stack_0_vectors:
  "stack 0 [b] (map (\<lambda>j. array1 (map (\<lambda>i. r i j) [0..<b])) [0..<c])
     = Inr \<lparr>shape = [c, b], data = map (\<lambda>k. r (k mod b) (k div b)) [0..<c * b]\<rparr>"
proof -
  let ?rs = "map (\<lambda>j. array1 (map (\<lambda>i. r i j) [0..<b])) [0..<c]"
  have "map (\<lambda>k. data (?rs ! (k div b mod c)) ! (k div (b * c) * b + k mod b)) [0..<c * b]
          = map (\<lambda>k. r (k mod b) (k div b)) [0..<c * b]"
  proof (rule map_cong)
    fix k assume "k \<in> set [0..<c * b]"
    then have k: "k < c * b" by simp
    then have "0 < b" by (cases b) simp_all
    then have 1: "k mod b < b" by simp
    have 2: "k div b < c"
      using k by (simp add: less_mult_imp_div_less mult.commute)
    have 3: "k div (b * c) = 0"
      using k by (simp add: mult.commute)
    show "data (?rs ! (k div b mod c)) ! (k div (b * c) * b + k mod b) = r (k mod b) (k div b)"
      using 1 2 3 by simp
  qed simp
  then show ?thesis
    by (simp add: stack_def list_all_iff)
qed


lemma vector_vector_row:
  assumes "length vs = a"
  shows "vector_vector conjugate (array1 (map (\<lambda>k. data A ! (i * a + k)) [0..<a])) \<lparr>shape = s, data = vs\<rparr>
           = Inr (scalar (row_dot conjugate A a vs i))"
proof -
  have "map2 (\<lambda>u v. conjugate u * v) (map (\<lambda>k. data A ! (i * a + k)) [0..<a]) vs
          = map (\<lambda>k. conjugate (data A ! (i * a + k)) * vs ! k) [0..<a]"
    using assms by (intro nth_equalityI) simp_all
  then show ?thesis
    using assms by (simp add: vector_vector_def vdot_def row_dot_def)
qed

lemma matrix_vector_value:
  assumes A: "shape A = [b, a]" and v: "length vs = a"
  shows "matrix_vector conjugate A \<lparr>shape = s, data = vs\<rparr> = Inr (array1 (map (row_dot conjugate A a vs) [0..<b]))"
proof -
  let ?v = "\<lparr>shape = s, data = vs\<rparr>"
  have n: "batch_size (Some 0) None A ?v = Inr b"
    by (simp add: batch_size_def mapped_size_def A)
  have p: "vector_vector conjugate (in_proto (Some 0) A) (in_proto None ?v)
             = Inr (scalar (sum_list (map2 (\<lambda>u v. conjugate u * v) (replicate a 0) vs)))"
    using v by (simp add: in_proto_def A zeros_def vector_vector_def vdot_def)
  have r: "sequence (map (\<lambda>i. vector_vector conjugate (in_slice (Some 0) i A) (in_slice None i ?v)) [0..<b])
             = Inr (map (\<lambda>i. scalar (row_dot conjugate A a vs i)) [0..<b])"
    by (rule sequence_map_Inr)
      (simp add: in_slice_def index_axis_0_matrix [OF A] vector_vector_row [OF v])
  show ?thesis
    unfolding matrix_vector_def vmap2_def n p r ebind_Inr shape_scalar
    by (rule stack_0_scalars)
qed

lemma index_axis_1_record:
  assumes "shape B = [a, c]"
  shows "index_axis (Suc 0) j B = \<lparr>shape = [a], data = map (\<lambda>k. data B ! (k * c + j)) [0..<a]\<rparr>"
  by (simp add: index_axis_1_matrix [OF assms] array1_def)

lemma row_dot_column:
  "row_dot conjugate A a (map (\<lambda>k. data B ! (k * c + j)) [0..<a]) i = cell conjugate A B a c i j"
  unfolding row_dot_def cell_def
  by (rule arg_cong [where f = sum_list], rule map_cong) simp_all

lemma matrix_vector_column:
  assumes A: "shape A = [b, a]" and B: "shape B = [a, c]"
  shows "matrix_vector conjugate A (index_axis (Suc 0) j B) = Inr (array1 (map (\<lambda>i. cell conjugate A B a c i j) [0..<b]))"
  unfolding index_axis_1_record [OF B]
  by (simp add: matrix_vector_value [OF A] row_dot_column)

lemma matrix_vector_proto:
  assumes A: "shape A = [b, a]"
  shows "\<exists>p. matrix_vector conjugate A (zeros [a]) = Inr p \<and> shape p = [b]"
  unfolding zeros_def by (simp add: matrix_vector_value [OF A])

lemma matrix_matrix_value:
  assumes A: "shape A = [b, a]" and B: "shape B = [a, c]"
  shows "matrix_matrix conjugate A B
           = Inr \<lparr>shape = [b, c], data = map (\<lambda>k. cell conjugate A B a c (k div c) (k mod c)) [0..<b * c]\<rparr>"
proof -
  obtain p where p: "matrix_vector conjugate A (zeros [a]) = Inr p" "shape p = [b]"
    using matrix_vector_proto [OF A] by blast
  have n: "batch_size None (Some 1) A B = Inr c"
    by (simp add: batch_size_def mapped_size_def B)
  have pr: "matrix_vector conjugate (in_proto None A) (in_proto (Some 1) B) = Inr p"
    by (simp add: in_proto_def B p)
  have r: "sequence (map (\<lambda>j. matrix_vector conjugate (in_slice None j A) (in_slice (Some 1) j B)) [0..<c])
             = Inr (map (\<lambda>j. array1 (map (\<lambda>i. cell conjugate A B a c i j) [0..<b])) [0..<c])"
    by (rule sequence_map_Inr) (simp add: in_slice_def matrix_vector_column [OF A B])
  show ?thesis
    unfolding matrix_matrix_def vmap2_def n pr r ebind_Inr p
    by (rule stack_1_vectors)
qed

lemma matrix_matrix_transpose_value:
  assumes A: "shape A = [b, a]" and B: "shape B = [a, c]"
  shows "matrix_matrix_transpose conjugate A B
           = Inr \<lparr>shape = [c, b], data = map (\<lambda>k. cell conjugate A B a c (k mod b) (k div b)) [0..<c * b]\<rparr>"
proof -
  obtain p where p: "matrix_vector conjugate A (zeros [a]) = Inr p" "shape p = [b]"
    using matrix_vector_proto [OF A] by blast
  have n: "batch_size None (Some 1) A B = Inr c"
    by (simp add: batch_size_def mapped_size_def B)
  have pr: "matrix_vector conjugate (in_proto None A) (in_proto (Some 1) B) = Inr p"
    by (simp add: in_proto_def B p)
  have r: "sequence (map (\<lambda>j. matrix_vector conjugate (in_slice None j A) (in_slice (Some 1) j B)) [0..<c])
             = Inr (map (\<lambda>j. array1 (map (\<lambda>i. cell conjugate A B a c i j) [0..<b])) [0..<c])"
    by (rule sequence_map_Inr) (simp add: in_slice_def matrix_vector_column [OF A B])
  show ?thesis
    unfolding matrix_matrix_transpose_def vmap2_def n pr r ebind_Inr p
    by (rule stack_0_vectors)
qed

lemma jnp_dot_matrices:
  assumes A: "shape A = [b, a]" and B: "shape B = [a, c]"
  shows "jnp_dot A B
           = Inr \<lparr>shape = [b, c], data = map (\<lambda>k. cell id A B a c (k div c) (k mod c)) [0..<b * c]\<rparr>"
  by (simp add: jnp_dot_def A B cell_def)

lemma index_in_matrix:
  assumes "i < (b::nat)" and "j < c"
  shows "i * c + j < b * c"
proof -
  have "i * c + j < i * c + c"
    using assms by simp
  also have "\<dots> = Suc i * c"
    by simp
  also have "\<dots> \<le> b * c"
    using assms by (intro mult_le_mono1) simp
  finally show ?thesis .
qed

lemma jnp_transpose_matrix:
  "jnp_transpose \<lparr>shape = [b, c], data = map (\<lambda>k. F (k div c) (k mod c)) [0..<b * c]\<rparr>
     = \<lparr>shape = [c, b], data = map (\<lambda>k. F (k mod b) (k div b)) [0..<c * b]\<rparr>"
proof -
  let ?D = "map (\<lambda>k. F (k div c) (k mod c)) [0..<b * c]"
  have "map (\<lambda>k. ?D ! ravel [b, c] (rev (unravel (rev [b, c]) k))) [0..<b * c]
          = map (\<lambda>k. F (k mod b) (k div b)) [0..<b * c]"
  proof (rule map_cong)
    fix k assume "k \<in> set [0..<b * c]"
    then have k: "k < b * c" by simp
    then have "0 < b" by (cases b) simp_all
    then have i: "k mod b < b" by simp
    have j: "k div b < c"
      using k by (simp add: less_mult_imp_div_less mult.commute)
    have r: "ravel [b, c] (rev (unravel (rev [b, c]) k)) = k mod b * c + k div b"
      by (simp add: ravel_def)
    have lt: "k mod b * c + k div b < b * c"
      using i j by (rule index_in_matrix)
    show "?D ! ravel [b, c] (rev (unravel (rev [b, c]) k)) = F (k mod b) (k div b)"
      unfolding r using lt j by simp
  qed simp
  then show ?thesis
    by (simp add: jnp_transpose_def mult.commute)
qed

lemma binop_scalar_scalar: "binop f (scalar v) (scalar w) = Inr (scalar (f v w))"
  by (simp add: binop_def)

lemma index_axis_0_vector:
  assumes "shape xs = [n]"
  shows "index_axis 0 i xs = scalar (data xs ! i)"
  by (simp add: index_axis_def assms scalar_def)

lemma batched_square_value:
  assumes "shape xs = [n]"
  shows "batched_square xs = Inr (array1 (map (\<lambda>i. data xs ! i * data xs ! i) [0..<n]))"
proof -
  have z: "in_proto (Some 0) xs = scalar 0"
    by (simp add: in_proto_def assms zeros_def scalar_def)
  have r: "sequence (map (\<lambda>i. square (index_axis 0 i xs)) [0..<n])
             = Inr (map (\<lambda>i. scalar (data xs ! i * data xs ! i)) [0..<n])"
    by (rule sequence_map_Inr)
      (simp add: index_axis_0_vector [OF assms] square_def binop_scalar_scalar)
  show ?thesis
    unfolding batched_square_def vmap1_def
    by (simp add: mapped_size_def assms z square_def binop_scalar_scalar r [unfolded square_def]
        stack_0_scalars)
qed

lemma squared_loop_value:
  assumes "shape xs = [n]"
  shows "squared_loop xs = Inr (array1 (map (\<lambda>i. data xs ! i * data xs ! i) [0..<n]))"
proof -
  let ?rs = "map (\<lambda>i. scalar (data xs ! i * data xs ! i)) [0..<n]"
  have it: "iterate xs = Inr (map (\<lambda>i. scalar (data xs ! i)) [0..<n])"
    by (simp add: iterate_def assms index_axis_0_vector [OF assms])
  have sq: "sequence (map square (map (\<lambda>i. scalar (data xs ! i)) [0..<n])) = Inr ?rs"
    unfolding map_map comp_def
    by (rule sequence_map_Inr) (simp add: square_def binop_scalar_scalar)
  have arr: "jnp_array ?rs = Inr (array1 (map (\<lambda>i. data xs ! i * data xs ! i) [0..<n]))"
  proof (cases n)
    case 0
    then show ?thesis by (simp add: jnp_array_def array1_def)
  next
    case (Suc n')
    then have "jnp_array ?rs = stack 0 [] ?rs"
      by (simp add: jnp_array_def upt_conv_Cons del: upt_Suc)
    then show ?thesis
      by (simp only: stack_0_scalars)
  qed
  show ?thesis
    unfolding squared_loop_def it ebind_Inr sq by (rule arr)
qed

lemma cell_map_array:
  assumes "length (data A) = b * a" and "i < b"
  shows "cell id (map_array conjugate A) B a c i j = cell conjugate A B a c i j"
proof -
  have "map (\<lambda>u. data (map_array conjugate A) ! (i * a + u) * data B ! (u * c + j)) [0..<a]
          = map (\<lambda>u. conjugate (data A ! (i * a + u)) * data B ! (u * c + j)) [0..<a]"
  proof (rule map_cong)
    fix u assume "u \<in> set [0..<a]"
    then have "u < a" by simp
    with assms(2) have "i * a + u < b * a"
      by (rule index_in_matrix)
    then show "data (map_array conjugate A) ! (i * a + u) * data B ! (u * c + j)
                 = conjugate (data A ! (i * a + u)) * data B ! (u * c + j)"
      by (simp add: map_array_def assms(1))
  qed simp
  then show ?thesis
    unfolding cell_def id_apply by (rule arg_cong)
qed

lemma matrix_matrix_conjugate:
  assumes A: "shape A = [b, a]" and wf: "length (data A) = b * a" and B: "shape B = [a, c]"
  shows "\<exists>M. matrix_matrix conjugate A B = Inr M \<and> jnp_dot (map_array conjugate A) B = Inr M"
proof -
  have A': "shape (map_array conjugate A) = [b, a]"
    by (simp add: map_array_def A)
  have "map (\<lambda>k. cell id (map_array conjugate A) B a c (k div c) (k mod c)) [0..<b * c]
          = map (\<lambda>k. cell conjugate A B a c (k div c) (k mod c)) [0..<b * c]"
  proof (rule map_cong)
    fix k assume "k \<in> set [0..<b * c]"
    then have "k < b * c" by simp
    then have "k div c < b"
      by (simp add: less_mult_imp_div_less)
    then show "cell id (map_array conjugate A) B a c (k div c) (k mod c)
                 = cell conjugate A B a c (k div c) (k mod c)"
      by (rule cell_map_array [OF wf])
  qed simp
  then show ?thesis
    by (simp add: matrix_matrix_value [OF A B] jnp_dot_matrices [OF A' B])
qed

text \<open>
  Claim C2 as stated: \<open>matrix_matrix(A, B)\<close> equals \<open>jnp.dot(A, B)\<close> for every matrix \<open>A\<close>
  and \<open>B\<close> of compatible shapes. \<open>matrix_matrix\<close> is built on \<open>jnp.vdot\<close>, which
  conjugates its first argument, and \<open>jnp.dot\<close> does not conjugate: for the complex
  matrices \<open>A = [[1j]]\<close> and \<open>B = [[1]]\<close>, \<open>matrix_matrix(A, B)\<close> is \<open>[[-1j]]\<close> and
  \<open>jnp.dot(A, B)\<close> is \<open>[[1j]]\<close>.
\<close>

theorem matrix_matrix_conjugates:
  "matrix_matrix cnj \<lparr>shape = [1, 1], data = [\<i>]\<rparr> \<lparr>shape = [1, 1], data = [1]\<rparr>
     = Inr \<lparr>shape = [1, 1], data = [- \<i>]\<rparr> \<and>
   jnp_dot \<lparr>shape = [1, 1], data = [\<i>]\<rparr> \<lparr>shape = [1, 1], data = [1]\<rparr>
     = Inr \<lparr>shape = [1, 1], data = [\<i>]\<rparr> \<and>
   matrix_matrix cnj \<lparr>shape = [1, 1], data = [\<i>]\<rparr> \<lparr>shape = [1, 1], data = [1]\<rparr>
     \<noteq> jnp_dot \<lparr>shape = [1, 1], data = [\<i>]\<rparr> \<lparr>shape = [1, 1], data = [1]\<rparr>"
proof -
  let ?A = "\<lparr>shape = [1, 1], data = [\<i>]\<rparr>"
  let ?B = "\<lparr>shape = [1, 1], data = [1 :: complex]\<rparr>"
  have m: "matrix_matrix cnj ?A ?B = Inr \<lparr>shape = [1, 1], data = [- \<i>]\<rparr>"
    by (simp add: matrix_matrix_value [where b = 1 and a = 1 and c = 1] cell_def)
  have d: "jnp_dot ?A ?B = Inr \<lparr>shape = [1, 1], data = [\<i>]\<rparr>"
    by (simp add: jnp_dot_matrices [where b = 1 and a = 1 and c = 1] cell_def)
  have "- \<i> \<noteq> \<i>"
    by (simp add: complex_eq_iff)
  with m d show ?thesis
    by simp
qed

text \<open>
  Claim C2, amended. Vectorisation equivalence. For every matrix \<open>A\<close> of shape \<open>[b, a]\<close>
  and \<open>B\<close> of shape \<open>[a, c]\<close> of integers or of real numbers (conjugation is the
  identity), \<open>matrix_matrix\<close> (two nested \<open>vmap\<close>s of the scalar product
  \<open>vector_vector\<close>) returns the same array as \<open>jnp.dot\<close>. For any conjugation, so also
  for complex matrices, \<open>matrix_matrix(A, B)\<close> returns the same array as \<open>jnp.dot\<close> on
  the conjugate of \<open>A\<close> and \<open>B\<close>. For every vector \<open>xs\<close>, of any type of numbers,
  \<open>batched_square = jax.vmap(square)\<close> returns the same array as the element-by-element
  loop \<open>jnp.array([square(x) for x in xs])\<close>.
\<close>

theorem vectorization_equivalence:
  fixes A B xs :: "'a::{monoid_add,times} ndarray"
  shows "(shape A = [b, a] \<and> shape B = [a, c] \<longrightarrow>
            (\<exists>M. matrix_matrix id A B = Inr M \<and> jnp_dot A B = Inr M)) \<and>
         (shape A = [b, a] \<and> length (data A) = b * a \<and> shape B = [a, c] \<longrightarrow>
            (\<exists>M. matrix_matrix conjugate A B = Inr M \<and>
                 jnp_dot (map_array conjugate A) B = Inr M)) \<and>
         (shape xs = [n] \<longrightarrow>
            (\<exists>r. batched_square xs = Inr r \<and> squared_loop xs = Inr r))"
proof (intro conjI impI)
  assume "shape A = [b, a] \<and> shape B = [a, c]"
  then have A: "shape A = [b, a]" and B: "shape B = [a, c]"
    by simp_all
  show "\<exists>M. matrix_matrix id A B = Inr M \<and> jnp_dot A B = Inr M"
    using matrix_matrix_value [OF A B] jnp_dot_matrices [OF A B] by simp
next
  assume "shape A = [b, a] \<and> length (data A) = b * a \<and> shape B = [a, c]"
  then show "\<exists>M. matrix_matrix conjugate A B = Inr M \<and>
                 jnp_dot (map_array conjugate A) B = Inr M"
    using matrix_matrix_conjugate by blast
next
  assume "shape xs = [n]"
  then show "\<exists>r. batched_square xs = Inr r \<and> squared_loop xs = Inr r"
    using batched_square_value squared_loop_value by blast
qed

theorem vectorization_equivalence_witness:
  "matrix_matrix id \<lparr>shape = [2, 2], data = [1, 2, 3, 4 :: int]\<rparr>
                    \<lparr>shape = [2, 2], data = [1, 2, 3, 4]\<rparr>
     = Inr \<lparr>shape = [2, 2], data = [7, 10, 15, 22]\<rparr> \<and>
   jnp_dot \<lparr>shape = [2, 2], data = [1, 2, 3, 4 :: int]\<rparr>
           \<lparr>shape = [2, 2], data = [1, 2, 3, 4]\<rparr>
     = Inr \<lparr>shape = [2, 2], data = [7, 10, 15, 22]\<rparr> \<and>
   matrix_matrix uminus \<lparr>shape = [2, 2], data = [1, 2, 3, 4 :: int]\<rparr>
                        \<lparr>shape = [2, 2], data = [1, 2, 3, 4]\<rparr>
     = Inr \<lparr>shape = [2, 2], data = [- 7, - 10, - 15, - 22]\<rparr> \<and>
   jnp_dot (map_array uminus \<lparr>shape = [2, 2], data = [1, 2, 3, 4 :: int]\<rparr>)
           \<lparr>shape = [2, 2], data = [1, 2, 3, 4]\<rparr>
     = Inr \<lparr>shape = [2, 2], data = [- 7, - 10, - 15, - 22]\<rparr> \<and>
   batched_square (array1 [1, 2, 3, 4 :: int]) = Inr (array1 [1, 4, 9, 16]) \<and>
   squared_loop (array1 [1, 2, 3, 4 :: int]) = Inr (array1 [1, 4, 9, 16])"
proof -
  let ?A = "\<lparr>shape = [2, 2], data = [1, 2, 3, 4 :: int]\<rparr>"
  let ?xs = "array1 [1, 2, 3, 4 :: int]"
  have d: "jnp_dot ?A ?A = Inr \<lparr>shape = [2, 2], data = [7, 10, 15, 22]\<rparr>"
    by code_simp
  have n: "jnp_dot (map_array uminus ?A) ?A = Inr \<lparr>shape = [2, 2], data = [- 7, - 10, - 15, - 22]\<rparr>"
    by code_simp
  have l: "squared_loop ?xs = Inr (array1 [1, 4, 9, 16])"
    by code_simp
  from vectorization_equivalence [of ?A 2 2 ?A 2 uminus ?xs 4] d n l show ?thesis
    by simp
qed
text \<open>
  Claim C8. For every matrix \<open>A\<close> of shape \<open>[b, a]\<close> and \<open>B\<close> of shape \<open>[a, c]\<close>, of any
  type of numbers and with any conjugation, \<open>matrix_matrix_transpose\<close> (the same \<open>vmap\<close>
  with \<open>out_axes=0\<close> in place of \<open>out_axes=1\<close>) returns the transpose of what
  \<open>matrix_matrix\<close> returns.
\<close>

theorem transpose_by_out_axes:
  fixes A B :: "'a::{monoid_add,times} ndarray"
  assumes "shape A = [b, a]" and "shape B = [a, c]"
  shows "\<exists>M. matrix_matrix conjugate A B = Inr M \<and>
             matrix_matrix_transpose conjugate A B = Inr (jnp_transpose M)"
  using matrix_matrix_value [OF assms] matrix_matrix_transpose_value [OF assms]
  by (simp add: jnp_transpose_matrix)

theorem transpose_by_out_axes_witness:
  "matrix_matrix_transpose id \<lparr>shape = [2, 2], data = [1, 2, 3, 4 :: int]\<rparr>
                              \<lparr>shape = [2, 2], data = [1, 2, 3, 4]\<rparr>
     = Inr \<lparr>shape = [2, 2], data = [7, 15, 10, 22]\<rparr>"
proof -
  let ?A = "\<lparr>shape = [2, 2], data = [1, 2, 3, 4 :: int]\<rparr>"
  have s: "shape ?A = [2, 2]"
    by simp
  have m: "matrix_matrix id ?A ?A = Inr \<lparr>shape = [2, 2], data = [7, 10, 15, 22]\<rparr>"
    by code_simp
  have t: "jnp_transpose \<lparr>shape = [2, 2], data = [7, 10, 15, 22 :: int]\<rparr>
             = \<lparr>shape = [2, 2], data = [7, 15, 10, 22]\<rparr>"
    by code_simp
  from transpose_by_out_axes [OF s s, of id] m t show ?thesis
    by simp
qed
lemma sequence_map_ex:
  assumes "\<And>x. x \<in> set xs \<Longrightarrow> \<exists>y. F x = Inr y \<and> Q x y"
  shows "\<exists>ys. sequence (map F xs) = Inr ys \<and> list_all2 Q xs ys"
  using assms
proof (induction xs)
  case Nil
  show ?case by simp
next
  case (Cons x xs)
  from Cons.prems obtain y where y: "F x = Inr y" "Q x y"
    by auto
  from Cons obtain ys where ys: "sequence (map F xs) = Inr ys" "list_all2 Q xs ys"
    by auto
  from y ys show ?case
    by simp
qed

lemma sgd_update_shape:
  assumes "shape g = shape p"
  shows "\<exists>c. sgd_update lr p g = Inr c \<and> shape c = shape p"
  using assms by (simp add: sgd_update_def binop_def)

lemma same_shape_trees_zip:
  assumes "map (\<lambda>kt. (fst kt, shape_tree (snd kt))) gs = map (\<lambda>kt. (fst kt, shape_tree (snd kt))) ps"
    and "(kt, kt') \<in> set (zip ps gs)"
  shows "fst kt' = fst kt \<and> shape_tree (snd kt') = shape_tree (snd kt)"
proof -
  from assms(2) obtain i where i: "i < length ps" "i < length gs" "ps ! i = kt" "gs ! i = kt'"
    by (auto simp: set_zip)
  from assms(1) i have "(fst (gs ! i), shape_tree (snd (gs ! i))) = (fst (ps ! i), shape_tree (snd (ps ! i)))"
    by (metis (mono_tags, lifting) nth_map)
  with i show ?thesis by simp
qed

lemma map_shape_of_results:
  assumes "list_all2 (\<lambda>x ku. fst ku = fst (fst x) \<and> shape_tree (snd ku) = shape_tree (snd (fst x)))
             (zip ps gs) kus"
    and "length gs = length ps"
  shows "map (\<lambda>kt. (fst kt, shape_tree (snd kt))) kus = map (\<lambda>kt. (fst kt, shape_tree (snd kt))) ps"
proof (rule nth_equalityI)
  from assms show len: "length (map (\<lambda>kt. (fst kt, shape_tree (snd kt))) kus)
      = length (map (\<lambda>kt. (fst kt, shape_tree (snd kt))) ps)"
    by (auto dest: list_all2_lengthD)
  fix i assume "i < length (map (\<lambda>kt. (fst kt, shape_tree (snd kt))) kus)"
  then have i: "i < length kus" "i < length ps" "i < length gs"
    using len assms(2) by simp_all
  with assms(1) have "fst (kus ! i) = fst (fst (zip ps gs ! i)) \<and>
      shape_tree (snd (kus ! i)) = shape_tree (snd (fst (zip ps gs ! i)))"
    by (auto simp: list_all2_conv_all_nth)
  with i show "map (\<lambda>kt. (fst kt, shape_tree (snd kt))) kus ! i
      = map (\<lambda>kt. (fst kt, shape_tree (snd kt))) ps ! i"
    by simp
qed

lemma map_shape_of_tuple:
  assumes "list_all2 (\<lambda>x u. shape_tree u = shape_tree (fst x)) (zip ts rs) us"
    and "length rs = length ts"
  shows "map shape_tree us = map shape_tree ts"
proof (rule nth_equalityI)
  from assms show len: "length (map shape_tree us) = length (map shape_tree ts)"
    by (auto dest: list_all2_lengthD)
  fix i assume "i < length (map shape_tree us)"
  then have i: "i < length us" "i < length ts" "i < length rs"
    using len assms(2) by simp_all
  with assms(1) have "shape_tree (us ! i) = shape_tree (fst (zip ts rs ! i))"
    by (auto simp: list_all2_conv_all_nth)
  with i show "map shape_tree us ! i = map shape_tree ts ! i"
    by simp
qed

lemma tree_map2_shape:
  "(\<forall>p g. shape g = shape p \<longrightarrow> (\<exists>c. f p g = Inr c \<and> shape c = shape p)) \<Longrightarrow>
   shape_tree r = shape_tree t \<Longrightarrow>
   \<exists>u. tree_map2 f t r = Inr u \<and> shape_tree u = shape_tree t"
proof (induction f t r rule: tree_map2.induct)
  case (1 f p r)
  then obtain g where r: "r = Leaf g" and s: "shape g = shape p"
    by (cases r) simp_all
  with "1.prems"(1) obtain c where "f p g = Inr c" "shape c = shape p"
    by blast
  with r show ?case
    by simp
next
  case (2 f kvs r)
  let ?ps = "sort_key fst kvs"
  let ?sh = "\<lambda>kt. (fst kt, shape_tree (snd kt))"
  from "2.prems"(2) obtain kvs' where r: "r = Dict kvs'"
    by (cases r) simp_all
  let ?gs = "sort_key fst kvs'"
  from "2.prems"(2) r have E: "map ?sh ?gs = map ?sh ?ps"
    by simp
  then have "map fst (map ?sh ?gs) = map fst (map ?sh ?ps)"
    by simp
  then have keys: "map fst ?ps = map fst ?gs"
    by (simp add: comp_def)
  from E have len: "length ?gs = length ?ps"
    by (rule map_eq_imp_length_eq)
  let ?F = "\<lambda>(kt, kt'). ebind (tree_map2 f (snd kt) (snd kt')) (\<lambda>u. Inr (fst kt, u))"
  let ?Q = "\<lambda>x ku. fst ku = fst (fst x) \<and> shape_tree (snd ku) = shape_tree (snd (fst x))"
  have "\<exists>kus. sequence (map ?F (zip ?ps ?gs)) = Inr kus \<and> list_all2 ?Q (zip ?ps ?gs) kus"
  proof (rule sequence_map_ex)
    fix x assume x: "x \<in> set (zip ?ps ?gs)"
    obtain kt kt' where xx: "x = (kt, kt')"
      by (cases x)
    from same_shape_trees_zip [OF E] x xx
    have "shape_tree (snd kt') = shape_tree (snd kt)"
      by blast
    with "2.IH" [OF r keys x xx [symmetric] "2.prems"(1)]
    obtain u where "tree_map2 f (snd kt) (snd kt') = Inr u" "shape_tree u = shape_tree (snd kt)"
      by blast
    with xx show "\<exists>y. ?F x = Inr y \<and> ?Q x y"
      by simp
  qed
  then obtain kus where kus: "sequence (map ?F (zip ?ps ?gs)) = Inr kus"
    and all: "list_all2 ?Q (zip ?ps ?gs) kus"
    by blast
  have sh: "map ?sh kus = map ?sh ?ps"
    using all len by (rule map_shape_of_results)
  then have "map fst (map ?sh kus) = map fst (map ?sh ?ps)"
    by simp
  then have "map fst kus = map fst ?ps"
    by (simp add: comp_def)
  then have "sorted (map fst kus)"
    by simp
  then have id: "sort_key fst kus = kus"
    by (rule sort_key_id_if_sorted)
  from r keys kus have "tree_map2 f (Dict kvs) r = Inr (Dict kus)"
    by simp
  moreover have "shape_tree (Dict kus) = shape_tree (Dict kvs)"
    by (simp add: id sh)
  ultimately show ?case
    by blast
next
  case (3 f ts r)
  from "3.prems"(2) obtain rs where r: "r = Tuple rs"
    by (cases r) simp_all
  from "3.prems"(2) r have E: "map shape_tree rs = map shape_tree ts"
    by simp
  then have len: "length rs = length ts"
    by (rule map_eq_imp_length_eq)
  let ?F = "\<lambda>(t, t'). tree_map2 f t t'"
  let ?Q = "\<lambda>x u. shape_tree u = shape_tree (fst x)"
  have "\<exists>us. sequence (map ?F (zip ts rs)) = Inr us \<and> list_all2 ?Q (zip ts rs) us"
  proof (rule sequence_map_ex)
    fix x assume x: "x \<in> set (zip ts rs)"
    obtain t t' where xx: "x = (t, t')"
      by (cases x)
    from x xx obtain i where i: "i < length ts" "i < length rs" "ts ! i = t" "rs ! i = t'"
      by (auto simp: set_zip)
    from E i have "shape_tree t' = shape_tree t"
      by (metis nth_map)
    with "3.IH" [OF r len [symmetric] x xx [symmetric] "3.prems"(1)]
    obtain u where "tree_map2 f t t' = Inr u" "shape_tree u = shape_tree t"
      by blast
    with xx show "\<exists>y. ?F x = Inr y \<and> ?Q x y"
      by simp
  qed
  then obtain us where us: "sequence (map ?F (zip ts rs)) = Inr us"
    and all: "list_all2 ?Q (zip ts rs) us"
    by blast
  have sh: "map shape_tree us = map shape_tree ts"
    using all len by (rule map_shape_of_tuple)
  from r len us have "tree_map2 f (Tuple ts) r = Inr (Tuple us)"
    by simp
  with sh show ?case
    by simp
qed













text \<open>
  Claim C9. \<open>gradient_descent_step\<close> returns a pytree with the structure and the leaf
  shapes of its \<open>params\<close> argument, given that \<open>jax.grad\<close> returns gradients with the
  structure and leaf shapes of \<open>params\<close> (its contract). The parameters
  \<open>init_network(1, 10, 1)\<close> are a dictionary with keys \<open>layer1\<close> and \<open>layer2\<close>, each with
  \<open>weights\<close> and \<open>biases\<close>, of shapes \<open>(1, 10)\<close>, \<open>(10,)\<close>, \<open>(10, 1)\<close> and \<open>(1,)\<close>.
\<close>

theorem gradient_descent_step_structure:
  assumes "grad_fn params x y_true = Inr gradients"
    and "shape_tree gradients = shape_tree params"
  shows "(\<exists>update. gradient_descent_step grad_fn params x y_true learning_rate = Inr update \<and>
            shape_tree update = shape_tree params) \<and>
         shape_tree (init_network noise 1 10 1) =
           Dict [(''layer1'', Dict [(''biases'', Leaf [10]), (''weights'', Leaf [1, 10])]),
                 (''layer2'', Dict [(''biases'', Leaf [1]), (''weights'', Leaf [10, 1])])]"
proof
  have "\<forall>p g. shape g = shape p \<longrightarrow>
          (\<exists>c. sgd_update learning_rate p g = Inr c \<and> shape c = shape p)"
    by (simp add: sgd_update_shape)
  from tree_map2_shape [OF this assms(2)]
  show "\<exists>update. gradient_descent_step grad_fn params x y_true learning_rate = Inr update \<and>
            shape_tree update = shape_tree params"
    by (simp add: gradient_descent_step_def assms(1))
next
  show "shape_tree (init_network noise 1 10 1) =
           Dict [(''layer1'', Dict [(''biases'', Leaf [10]), (''weights'', Leaf [1, 10])]),
                 (''layer2'', Dict [(''biases'', Leaf [1]), (''weights'', Leaf [10, 1])])]"
    by (simp add: init_network_def zeros_def random_normal_def)
qed

theorem gradient_descent_step_structure_witness:
  "zero_grad (init_network (\<lambda>k i. real i) 1 10 1) (zeros [4, 1]) (zeros [4, 1])
     = Inr (Dict [(''layer1'', Dict [(''biases'', Leaf (zeros [10])), (''weights'', Leaf (zeros [1, 10]))]),
                  (''layer2'', Dict [(''biases'', Leaf (zeros [1])), (''weights'', Leaf (zeros [10, 1]))])]) \<and>
   (\<exists>update. gradient_descent_step zero_grad (init_network (\<lambda>k i. real i) 1 10 1)
                (zeros [4, 1]) (zeros [4, 1]) (1 / 100) = Inr update \<and>
      shape_tree update =
        Dict [(''layer1'', Dict [(''biases'', Leaf [10]), (''weights'', Leaf [1, 10])]),
              (''layer2'', Dict [(''biases'', Leaf [1]), (''weights'', Leaf [10, 1])])]) \<and>
   ebind (gradient_descent_step zero_grad (init_network (\<lambda>k i. real i) 1 10 1)
            (zeros [4, 1]) (zeros [4, 1]) (1 / 100))
         (\<lambda>update. print_leaf_shapes update [])
     = Inr [''layer1 -> biases: (10,)'', ''layer1 -> weights: (1, 10)'',
            ''layer2 -> biases: (1,)'', ''layer2 -> weights: (10, 1)'']"
proof -
  let ?params = "init_network (\<lambda>k i. real i) 1 10 1"
  let ?g = "Dict [(''layer1'', Dict [(''biases'', Leaf (zeros [10])), (''weights'', Leaf (zeros [1, 10]))]),
                  (''layer2'', Dict [(''biases'', Leaf (zeros [1])), (''weights'', Leaf (zeros [10, 1]))])]"
  have g: "zero_grad ?params (zeros [4, 1]) (zeros [4, 1]) = Inr ?g"
    by (simp add: zero_grad_def init_network_def zeros_def random_normal_def)
  have s: "shape_tree ?g = shape_tree ?params"
    by (simp add: init_network_def zeros_def random_normal_def)
  have p: "ebind (gradient_descent_step zero_grad ?params (zeros [4, 1]) (zeros [4, 1]) (1 / 100))
         (\<lambda>update. print_leaf_shapes update [])
     = Inr [''layer1 -> biases: (10,)'', ''layer1 -> weights: (1, 10)'',
            ''layer2 -> biases: (1,)'', ''layer2 -> weights: (10, 1)'']"
    by code_simp
  note inst = gradient_descent_step_structure
         [where grad_fn = zero_grad and params = ?params and x = "zeros [4, 1]"
            and y_true = "zeros [4, 1]" and gradients = ?g
            and learning_rate = "1 / 100" and noise = "\<lambda>k i. real i"]
  from inst [OF g s] obtain update
    where "gradient_descent_step zero_grad ?params (zeros [4, 1]) (zeros [4, 1]) (1 / 100) = Inr update"
      and "shape_tree update =
        Dict [(''layer1'', Dict [(''biases'', Leaf [10]), (''weights'', Leaf [1, 10])]),
              (''layer2'', Dict [(''biases'', Leaf [1]), (''weights'', Leaf [10, 1])])]"
    by auto
  with g p show ?thesis
    by blast
qed

lemma has_shape_Inr [simp]:
  "has_shape (Inr a) s \<longleftrightarrow> shape a = s \<and> length (data a) = prod_list s"
  by (simp add: has_shape_def)

lemma has_shape_Inl [simp]: "\<not> has_shape (Inl e) s"
  by (simp add: has_shape_def)

lemma has_shapeE:
  assumes "has_shape r s"
  obtains a where "r = Inr a" "shape a = s" "length (data a) = prod_list s"
  using assms by (cases r) (auto simp: has_shape_def)

lemma has_shape_ebind:
  assumes "has_shape r s"
    and "\<And>a. shape a = s \<Longrightarrow> length (data a) = prod_list s \<Longrightarrow> has_shape (f a) t"
  shows "has_shape (ebind r f) t"
  using assms by (auto elim!: has_shapeE)

lemma binop_has_shape:
  assumes "broadcast_shapes (shape a) (shape b) = Some s"
  shows "has_shape (binop f a b) s"
  using assms by (simp add: binop_def)

lemma shape_relu [simp]: "shape (relu a) = shape a"
  by (simp add: relu_def)

lemma length_data_relu [simp]: "length (data (relu a)) = length (data a)"
  by (simp add: relu_def)

lemma shape_array_pow [simp]: "shape (array_pow a n) = shape a"
  by (simp add: array_pow_def)

lemma length_data_array_pow [simp]: "length (data (array_pow a n)) = length (data a)"
  by (simp add: array_pow_def)

lemma jnp_mean_has_shape:
  assumes "data a \<noteq> []"
  shows "has_shape (jnp_mean a) []"
  using assms by (simp add: jnp_mean_def)

lemma jnp_dot_has_shape_22:
  assumes "shape a = [n, k]" and "shape b = [k, m]"
  shows "has_shape (jnp_dot a b) [n, m]"
  by (simp add: jnp_dot_matrices [OF assms])

lemma jnp_dot_has_shape_21:
  assumes "shape a = [n, k]" and "shape b = [k]"
  shows "has_shape (jnp_dot a b) [n]"
  by (simp add: jnp_dot_def assms)

lemma shape_zeros [simp]: "shape (zeros s) = s"
  by (simp add: zeros_def)

lemma length_data_zeros [simp]: "length (data (zeros s)) = prod_list s"
  by (simp add: zeros_def)

lemma shape_random_normal [simp]: "shape (random_normal noise key s) = s"
  by (simp add: random_normal_def)

lemma length_data_random_normal [simp]: "length (data (random_normal noise key s)) = prod_list s"
  by (simp add: random_normal_def)

lemma shape_map_array [simp]: "shape (map_array f a) = shape a"
  by (simp add: map_array_def)

lemma shape_x_data [simp]: "shape x_data = [1000]"
  by (simp add: x_data_def linspace_def)

lemma length_x_data [simp]: "length (data x_data) = 1000"
  by (simp add: x_data_def linspace_def)

lemma y_data_has_shape: "has_shape (y_data noise) [1000]"
  unfolding y_data_def
  apply (rule has_shape_ebind [where s = "[1000]"])
   apply (rule binop_has_shape)
   apply simp
  apply (rule has_shape_ebind [where s = "[1000]"])
   apply (rule binop_has_shape)
   apply simp
  apply (rule has_shape_ebind [where s = "[1000]"])
   apply (rule binop_has_shape)
   apply simp
  apply (rule binop_has_shape)
  apply simp
  done


lemma has_shape_binop_same:
  assumes "shape a = s" and "shape b = s"
  shows "has_shape (binop f a b) s"
  by (rule binop_has_shape) (simp add: assms)

lemma slow_function_has_shape: "has_shape (slow_function (array1 [1, 2, 3])) [3]"
  unfolding slow_function_def by (rule binop_has_shape) simp

lemma shape_index_axis:
  "shape (index_axis ax i a) = take ax (shape a) @ drop (Suc ax) (shape a)"
  by (simp add: index_axis_def Let_def)

lemma length_data_index_axis:
  "length (data (index_axis ax i a))
     = prod_list (take ax (shape a)) * prod_list (drop (Suc ax) (shape a))"
  by (simp add: index_axis_def Let_def)

lemma unpack2_pair:
  assumes "shape params = [2]"
  shows "unpack2 params = Inr (index_axis 0 0 params, index_axis 0 1 params)"
  by (simp add: unpack2_def iterate_def assms upt_rec)

lemma linear_model_has_shape:
  assumes "shape m = []" and "shape b = []" and "shape x = s"
  shows "has_shape (linear_model x m b) s"
  unfolding linear_model_def
  apply (rule has_shape_ebind [where s = s])
   apply (rule binop_has_shape)
   apply (simp add: assms)
  apply (rule binop_has_shape)
  apply (simp add: assms)
  done

lemma mse_tail_has_shape:
  assumes "shape y_pred = s" and "shape y = s" and "0 < prod_list s"
  shows "has_shape (ebind (binop (-) y_pred y) (\<lambda>d. jnp_mean (array_pow d 2))) []"
  apply (rule has_shape_ebind [where s = s])
   apply (rule has_shape_binop_same [OF assms(1,2)])
  apply (rule jnp_mean_has_shape)
  using assms(3) apply (auto simp flip: length_0_conv)
  done

lemma mse_loss_has_shape:
  assumes "shape params = [2]" and "shape x = [n]" and "shape y = [n]" and "0 < n"
  shows "has_shape (mse_loss params x y) []"
  unfolding mse_loss_def unpack2_pair [OF assms(1)] ebind_Inr prod.case
  apply (rule has_shape_ebind [where s = "[n]"])
   apply (rule linear_model_has_shape)
     apply (simp_all add: shape_index_axis assms)
  apply (rule mse_tail_has_shape [where s = "[n]"])
    apply (simp_all add: assms)
  done

lemma sgd_update_has_shape:
  assumes "shape g = shape p"
  shows "has_shape (sgd_update lr p g) (shape p)"
  unfolding sgd_update_def
  apply (rule has_shape_ebind [where s = "shape p"])
   apply (rule binop_has_shape)
   apply (simp add: assms)
  apply (rule binop_has_shape)
  apply simp
  done

lemma newaxis1_vector:
  assumes "shape a = [n]"
  shows "newaxis1 a = Inr (a\<lparr>shape := [n, 1]\<rparr>)"
  by (simp add: newaxis1_def assms)

lemma layer_has_shape:
  assumes "shape x = [n, k]" and "shape w = [k, m]" and "shape b = [m]"
    and "\<And>z. shape z = [n, m] \<Longrightarrow> length (data z) = n * m \<Longrightarrow> has_shape (f (relu z)) t"
  shows "has_shape (ebind (jnp_dot x w) (\<lambda>xw. ebind (binop (+) xw b) (\<lambda>z. let h = relu z in f h))) t"
  apply (rule has_shape_ebind [where s = "[n, m]"])
   apply (rule jnp_dot_has_shape_22 [OF assms(1,2)])
  apply (rule has_shape_ebind [where s = "[n, m]"])
   apply (rule binop_has_shape)
   apply (simp add: assms broadcast_shapes_def)
  apply (simp add: Let_def assms(4))
  done

lemma two_layer_nn_model_has_shape:
  assumes "shape x = [n, 1]" and "shape w1 = [1, 10]" and "shape b1 = [10]"
    and "shape w2 = [10, 10]" and "shape b2 = [10]" and "shape w_out = [10]" and "shape b_out = []"
  shows "has_shape (two_layer_nn_model x w1 b1 w2 b2 w_out b_out) [n]"
  unfolding two_layer_nn_model_def
  apply (rule layer_has_shape [OF assms(1,2,3)])
  apply (rule layer_has_shape [OF _ assms(4,5)])
   apply simp
  apply (rule has_shape_ebind [where s = "[n]"])
   apply (rule jnp_dot_has_shape_21 [OF _ assms(6)])
   apply simp
  apply (rule binop_has_shape)
  apply (simp add: assms)
  done


lemma two_layer_params_cases:
  assumes "map shape params = two_layer_shapes"
  obtains w1 b1 w2 b2 w_out b_out
  where "params = [w1, b1, w2, b2, w_out, b_out]"
    and "shape w1 = [1, 10]" and "shape b1 = [10]" and "shape w2 = [10, 10]"
    and "shape b2 = [10]" and "shape w_out = [10]" and "shape b_out = []"
  using assms unfolding two_layer_shapes_def
  by (auto simp: map_eq_Cons_conv)

lemma two_layer_nn_mse_loss_has_shape:
  assumes "map shape params = two_layer_shapes" and "shape x = [n, 1]" and "shape y = [n]"
    and "0 < n"
  shows "has_shape (two_layer_nn_mse_loss params x y) []"
proof -
  from assms(1) obtain w1 b1 w2 b2 w_out b_out
    where p: "params = [w1, b1, w2, b2, w_out, b_out]"
      and s: "shape w1 = [1, 10]" "shape b1 = [10]" "shape w2 = [10, 10]"
        "shape b2 = [10]" "shape w_out = [10]" "shape b_out = []"
    by (rule two_layer_params_cases)
  have m: "has_shape (two_layer_nn_model x w1 b1 w2 b2 w_out b_out) [n]"
    using assms(2) s by (rule two_layer_nn_model_has_shape)
  show ?thesis
    unfolding two_layer_nn_mse_loss_def p list.case
    apply (rule has_shape_ebind [OF m])
    apply (rule mse_tail_has_shape [where s = "[n]"])
      apply (simp_all add: assms)
    done
qed

lemma update_list_shapes:
  assumes "map shape grads = map shape params"
  shows "\<exists>new. sequence (map (\<lambda>(p, g). sgd_update lr p g) (zip params grads)) = Inr new \<and>
           map shape new = map shape params"
  using assms
proof (induction params arbitrary: grads)
  case Nil
  then show ?case by simp
next
  case (Cons p params)
  then obtain g grads' where g: "grads = g # grads'" "shape g = shape p"
      "map shape grads' = map shape params"
    by (auto simp: map_eq_Cons_conv)
  from sgd_update_has_shape [OF g(2), of lr] obtain c
    where c: "sgd_update lr p g = Inr c" "shape c = shape p"
    by (auto elim: has_shapeE)
  from Cons.IH [OF g(3)] obtain new
    where "sequence (map (\<lambda>(p, g). sgd_update lr p g) (zip params grads')) = Inr new"
      "map shape new = map shape params"
    by blast
  with c g(1) show ?case
    by simp
qed

lemma update_two_layer_nn_shapes:
  assumes "map shape params = two_layer_shapes" and "map shape grads = two_layer_shapes"
  shows "\<exists>new. update_two_layer_nn lr params grads = Inr new \<and> map shape new = two_layer_shapes"
  unfolding update_two_layer_nn_def
  using update_list_shapes [of grads params lr] assms by simp

lemma params_two_layer_nn_shapes: "map shape params_two_layer_nn = two_layer_shapes"
  by (simp add: params_two_layer_nn_def two_layer_shapes_def)

lemma param_init_network:
  "param (init_network noise i h out) ''layer1'' ''weights'' = Inr (random_normal noise 123 [i, h])"
  "param (init_network noise i h out) ''layer1'' ''biases'' = Inr (zeros [h])"
  "param (init_network noise i h out) ''layer2'' ''weights'' = Inr (random_normal noise 246 [h, out])"
  "param (init_network noise i h out) ''layer2'' ''biases'' = Inr (zeros [out])"
  by (simp_all add: param_def getitem_def init_network_def as_array_def)

lemma forward_init_network_has_shape:
  assumes "shape x = [n, i]"
  shows "has_shape (forward (init_network noise i h out) x) [n, out]"
  unfolding forward_def param_init_network ebind_Inr
  apply (rule layer_has_shape [OF assms])
    apply simp
   apply simp
  apply (rule layer_has_shape [where k = h and m = out])
     apply simp
    apply simp
   apply simp
  apply simp
  done

lemma loss_init_network_has_shape:
  assumes "shape x = [n, i]" and "shape y = [n, out]" and "0 < n" and "0 < out"
  shows "has_shape (loss (init_network noise i h out) x y) []"
  unfolding loss_def
  apply (rule has_shape_ebind [OF forward_init_network_has_shape [OF assms(1)]])
  apply (rule mse_tail_has_shape [where s = "[n, out]"])
    apply (simp_all add: assms)
  done

lemma matrix_matrix_has_shape:
  assumes "shape A = [b, a]" and "shape B = [a, c]"
  shows "has_shape (matrix_matrix conjugate A B) [b, c]"
  by (simp add: matrix_matrix_value [OF assms])

lemma matrix_matrix_transpose_has_shape:
  assumes "shape A = [b, a]" and "shape B = [a, c]"
  shows "has_shape (matrix_matrix_transpose conjugate A B) [c, b]"
  by (simp add: matrix_matrix_transpose_value [OF assms])

lemma stack_has_shape:
  assumes "ax \<le> length s" and "list_all (\<lambda>r. shape r = s) rs"
  shows "has_shape (stack ax s rs) (take ax s @ length rs # drop ax s)"
proof -
  have "prod_list (take ax s) * length rs * prod_list (drop ax s)
          = prod_list (take ax s) * (length rs * prod_list (drop ax s))"
    by simp
  then show ?thesis
    using assms by (simp add: stack_def Let_def)
qed

lemma pmap_multiply_has_shape:
  assumes "shape X = [d, b, a]" and "shape Y = [d, a, c]"
  shows "has_shape (pmap_multiply X Y) [d, b, c]"
proof -
  have n: "batch_size (Some 0) (Some 0) X Y = Inr d"
    by (simp add: batch_size_def mapped_size_def assms)
  obtain p where p: "matrix_matrix id (in_proto (Some 0) X) (in_proto (Some 0) Y) = Inr p"
    "shape p = [b, c]"
    using matrix_matrix_has_shape [of "in_proto (Some 0) X" b a "in_proto (Some 0) Y" c]
    by (auto simp: in_proto_def assms elim: has_shapeE)
  have "\<exists>rs. sequence (map (\<lambda>i. matrix_matrix id (in_slice (Some 0) i X) (in_slice (Some 0) i Y)) [0..<d])
            = Inr rs \<and> list_all2 (\<lambda>i r. shape r = [b, c]) [0..<d] rs"
  proof (rule sequence_map_ex)
    fix i assume "i \<in> set [0..<d]"
    from matrix_matrix_has_shape [of "in_slice (Some 0) i X" b a "in_slice (Some 0) i Y" c]
    show "\<exists>y. matrix_matrix id (in_slice (Some 0) i X) (in_slice (Some 0) i Y) = Inr y \<and> shape y = [b, c]"
      by (auto simp: in_slice_def shape_index_axis assms elim: has_shapeE)
  qed
  then obtain rs
    where rs: "sequence (map (\<lambda>i. matrix_matrix id (in_slice (Some 0) i X) (in_slice (Some 0) i Y)) [0..<d])
            = Inr rs" and all: "list_all2 (\<lambda>i r. shape r = [b, c]) [0..<d] rs"
    by blast
  from all have len: "length rs = d"
    by (auto dest: list_all2_lengthD)
  from all have sh: "list_all (\<lambda>r. shape r = [b, c]) rs"
    by (auto simp: list_all2_conv_all_nth list_all_length)
  from stack_has_shape [of 0 "[b, c]" rs, OF _ sh] len
  have "has_shape (stack 0 [b, c] rs) [d, b, c]"
    by simp
  then show ?thesis
    unfolding pmap_multiply_def vmap2_def n p rs ebind_Inr .
qed

lemma double_leaves_example:
  "double_leaves example_tree =
     Inr (Dict [(''a'', Leaf (array1 [2, 4])),
                (''b'', Tuple [Leaf (array1 [6, 8]), Leaf (array1 [10])])])"
  by (simp add: double_leaves_def example_tree_def binop_array1_scalar)

text \<open>
  Claim C5. Every array operation of the notebook's cells is applied to operands of
  compatible shapes, so each cell's computation returns an array and never the
  shape-mismatch error: the element-wise product in \<open>slow_function\<close>, the product of the
  large matrices, the construction of \<open>y_data\<close>, the loss and the update of the linear
  regression (for parameters and gradients of shape \<open>(2,)\<close>), \<open>two_layer_nn_model\<close> and its
  loss with the zero-initialised parameters and with any parameters of the same shapes on
  an input of shape \<open>(1000, 1)\<close>, the update of those parameters, the squares, the three
  matrix products of \<open>jax_array\<close>, the mapped product of the sharded arrays, the doubling of
  the example pytree, and \<open>forward\<close> and \<open>loss\<close> with \<open>init_network(1, 10, 1)\<close> on
  inputs and targets of shape \<open>(1000, 1)\<close>.
\<close>

theorem notebook_shapes_compatible:
  fixes noise :: "nat \<Rightarrow> nat \<Rightarrow> real" and large_jax_matrix :: "real ndarray"
  shows
    "has_shape (slow_function (array1 [1, 2, 3])) [3] \<and>
     (shape large_jax_matrix = [5000, 5000] \<longrightarrow>
        has_shape (jnp_dot large_jax_matrix large_jax_matrix) [5000, 5000]) \<and>
     has_shape (y_data noise) [1000] \<and>
     (\<forall>params y. shape params = [2] \<and> shape y = [1000] \<longrightarrow>
        has_shape (mse_loss params x_data y) []) \<and>
     (\<forall>params grad_params. shape params = [2] \<and> shape grad_params = [2] \<longrightarrow>
        has_shape (sgd_update (1 / 100) params grad_params) [2]) \<and>
     has_shape (newaxis1 x_data) [1000, 1] \<and>
     (\<forall>y. shape y = [1000] \<and> length (data y) = 1000 \<longrightarrow> has_shape (newaxis1 y) [1000, 1]) \<and>
     (\<forall>x y. shape x = [1000, 1] \<and> shape y = [1000] \<longrightarrow>
        has_shape (two_layer_nn_model x (zeros [1, 10]) (zeros [10]) (zeros [10, 10])
                     (zeros [10]) (zeros [10]) (scalar 0)) [1000] \<and>
        has_shape (two_layer_nn_mse_loss params_two_layer_nn x y) []) \<and>
     (\<forall>params grads x y.
        map shape params = two_layer_shapes \<and> map shape grads = two_layer_shapes \<and>
        shape x = [1000, 1] \<and> shape y = [1000] \<longrightarrow>
        has_shape (two_layer_nn_mse_loss params x y) [] \<and>
        (\<exists>new. update_two_layer_nn (1 / 10) params grads = Inr new \<and>
               map shape new = two_layer_shapes)) \<and>
     has_shape (squared_loop (array1 [1, 2, 3, 4 :: real])) [4] \<and>
     has_shape (batched_square (array1 [1, 2, 3, 4 :: real])) [4] \<and>
     has_shape (matrix_matrix id jax_array jax_array) [2, 2] \<and>
     has_shape (jnp_dot jax_array jax_array) [2, 2] \<and>
     has_shape (matrix_matrix_transpose id jax_array jax_array) [2, 2] \<and>
     has_shape (pmap_multiply (sharded_normal noise 123) (sharded_normal noise 456)) [2, 10, 10] \<and>
     (\<exists>result. double_leaves example_tree = Inr result) \<and>
     (\<forall>x y. shape x = [1000, 1] \<and> shape y = [1000, 1] \<longrightarrow>
        has_shape (forward (init_network noise 1 10 1) x) [1000, 1] \<and>
        has_shape (loss (init_network noise 1 10 1) x y) [])"
proof -
  have c1: "has_shape (slow_function (array1 [1, 2, 3])) [3]"
    by (rule slow_function_has_shape)
  have c2: "shape large_jax_matrix = [5000, 5000] \<longrightarrow>
        has_shape (jnp_dot large_jax_matrix large_jax_matrix) [5000, 5000]"
    by (simp add: jnp_dot_has_shape_22)
  have c3: "has_shape (y_data noise) [1000]"
    by (rule y_data_has_shape)
  have c4: "\<forall>params y. shape params = [2] \<and> shape y = [1000] \<longrightarrow>
        has_shape (mse_loss params x_data y) []"
    by (simp add: mse_loss_has_shape [where n = 1000])
  have c5: "\<forall>params grad_params. shape params = [2] \<and> shape grad_params = [2] \<longrightarrow>
        has_shape (sgd_update (1 / 100) params grad_params) [2]"
    using sgd_update_has_shape by metis
  have c6: "has_shape (newaxis1 x_data) [1000, 1]"
    by (simp add: newaxis1_vector [where n = 1000])
  have c7: "\<forall>y. shape y = [1000] \<and> length (data y) = 1000 \<longrightarrow> has_shape (newaxis1 y) [1000, 1]"
    by (simp add: newaxis1_vector [where n = 1000])
  have c8: "\<forall>x y. shape x = [1000, 1] \<and> shape y = [1000] \<longrightarrow>
        has_shape (two_layer_nn_model x (zeros [1, 10]) (zeros [10]) (zeros [10, 10])
                     (zeros [10]) (zeros [10]) (scalar 0)) [1000] \<and>
        has_shape (two_layer_nn_mse_loss params_two_layer_nn x y) []"
    by (simp add: two_layer_nn_model_has_shape two_layer_nn_mse_loss_has_shape
        params_two_layer_nn_shapes)
  have c9: "\<forall>params grads x y.
        map shape params = two_layer_shapes \<and> map shape grads = two_layer_shapes \<and>
        shape x = [1000, 1] \<and> shape y = [1000] \<longrightarrow>
        has_shape (two_layer_nn_mse_loss params x y) [] \<and>
        (\<exists>new. update_two_layer_nn (1 / 10) params grads = Inr new \<and>
               map shape new = two_layer_shapes)"
    by (simp add: two_layer_nn_mse_loss_has_shape update_two_layer_nn_shapes)
  have c10: "has_shape (squared_loop (array1 [1, 2, 3, 4 :: real])) [4]"
    by (simp add: squared_loop_value [where n = 4])
  have c11: "has_shape (batched_square (array1 [1, 2, 3, 4 :: real])) [4]"
    by (simp add: batched_square_value [where n = 4])
  have j: "shape jax_array = [2, 2]"
    by (simp add: jax_array_def)
  have c12: "has_shape (matrix_matrix id jax_array jax_array) [2, 2]"
    using j j by (rule matrix_matrix_has_shape)
  have c13: "has_shape (jnp_dot jax_array jax_array) [2, 2]"
    using j j by (rule jnp_dot_has_shape_22)
  have c14: "has_shape (matrix_matrix_transpose id jax_array jax_array) [2, 2]"
    using j j by (rule matrix_matrix_transpose_has_shape)
  have c15: "has_shape (pmap_multiply (sharded_normal noise 123) (sharded_normal noise 456))
               [2, 10, 10]"
    by (rule pmap_multiply_has_shape) (simp_all add: sharded_normal_def)
  have c16: "\<exists>result. double_leaves example_tree = Inr result"
    by (simp add: double_leaves_example)
  have c17: "\<forall>x y. shape x = [1000, 1] \<and> shape y = [1000, 1] \<longrightarrow>
        has_shape (forward (init_network noise 1 10 1) x) [1000, 1] \<and>
        has_shape (loss (init_network noise 1 10 1) x y) []"
    by (simp add: forward_init_network_has_shape loss_init_network_has_shape)
  from c1 c2 c3 c4 c5 c6 c7 c8 c9 c10 c11 c12 c13 c14 c15 c16 c17 show ?thesis
    by (intro conjI)
qed

theorem notebook_shapes_compatible_witness:
  "has_shape (jnp_dot (zeros [5000, 5000]) (zeros [5000, 5000] :: real ndarray)) [5000, 5000] \<and>
   has_shape (mse_loss (array1 [0, 0]) x_data (zeros [1000])) [] \<and>
   has_shape (sgd_update (1 / 100) (array1 [0, 0]) (array1 [1, 1])) [2] \<and>
   has_shape (two_layer_nn_mse_loss params_two_layer_nn (zeros [1000, 1]) (zeros [1000])) [] \<and>
   (\<exists>new. update_two_layer_nn (1 / 10) params_two_layer_nn params_two_layer_nn = Inr new \<and>
          map shape new = two_layer_shapes) \<and>
   has_shape (forward (init_network (\<lambda>k i. 0) 1 10 1) (zeros [1000, 1])) [1000, 1] \<and>
   has_shape (loss (init_network (\<lambda>k i. 0) 1 10 1) (zeros [1000, 1]) (zeros [1000, 1])) []"
proof -
  note all = notebook_shapes_compatible
    [where noise = "\<lambda>k i. 0" and large_jax_matrix = "zeros [5000, 5000]"]
  have s: "shape (zeros [5000, 5000] :: real ndarray) = [5000, 5000]"
    "shape (array1 [0, 0 :: real]) = [2]" "shape (array1 [1, 1 :: real]) = [2]"
    "shape (zeros [1000] :: real ndarray) = [1000]"
    "shape (zeros [1000, 1] :: real ndarray) = [1000, 1]"
    by simp_all
  from all s params_two_layer_nn_shapes show ?thesis
    by blast
qed

lemma jax_unchanged_refl [simp]: "jax_unchanged st st"
  by (simp add: jax_unchanged_def list_all_iff)

lemma jax_unchanged_trans:
  assumes "jax_unchanged st st'" and "jax_unchanged st' st''"
  shows "jax_unchanged st st''"
  using assms unfolding jax_unchanged_def list_all_iff
  by (auto simp: less_le_trans)

lemma jax_unchanged_append:
  assumes "heap st' = heap st @ new"
  shows "jax_unchanged st st'"
  using assms by (simp add: jax_unchanged_def list_all_iff nth_append)

lemma heap_new_object [simp]:
  "heap (snd (new_object b a st)) = heap st @ [\<lparr>backend = b, contents = a\<rparr>]"
  "vars (snd (new_object b a st)) = vars st"
  "stdout (snd (new_object b a st)) = stdout st"
  "fst (new_object b a st) = length (heap st)"
  by (simp_all add: new_object_def)

lemma alloc_extends:
  "\<exists>new. heap (snd (alloc_tree b t st)) = heap st @ new"
  "\<exists>new. heap (snd (alloc_trees b ts st)) = heap st @ new"
  "\<exists>new. heap (snd (alloc_items b kvs st)) = heap st @ new"
proof (induction b t st and b ts st and b kvs st rule: alloc_tree_alloc_trees_alloc_items.induct)
  case (1 b a st)
  then show ?case by (simp add: new_object_def)
next
  case (2 b ts st)
  then show ?case by (simp add: case_prod_beta)
next
  case (3 b kvs st)
  then show ?case by (simp add: case_prod_beta)
next
  case (4 b st)
  then show ?case by simp
next
  case (5 b t ts st)
  then show ?case
    by (auto simp: case_prod_beta) (metis append.assoc prod.collapse)
next
  case (6 b st)
  then show ?case by simp
next
  case (7 b k t kvs st)
  then show ?case
    by (auto simp: case_prod_beta) (metis append.assoc prod.collapse)
qed


lemma assign_leaf:
  "assign var b (Leaf a) st =
     st\<lparr>heap := heap st @ [\<lparr>backend = b, contents = a\<rparr>],
        vars := (vars st)(var \<mapsto> Leaf (length (heap st)))\<rparr>"
  by (simp add: assign_def new_object_def)

lemma heap_assign:
  "\<exists>new. heap (assign var b t st) = heap st @ new"
  using alloc_extends(1) [of b t st] by (auto simp: assign_def case_prod_beta)

lemma jax_unchanged_assign: "jax_unchanged st (assign var b t st)"
  using heap_assign [of var b t st] by (auto intro: jax_unchanged_append)

lemma jax_unchanged_new_object: "jax_unchanged st (snd (new_object b a st))"
  by (rule jax_unchanged_append) simp

lemma jax_unchanged_print_out: "jax_unchanged st (print_out p st)"
  by (simp add: print_out_def jax_unchanged_def list_all_iff)

lemma jax_unchanged_update:
  assumes "addr < length (heap st)" and "backend (heap st ! addr) \<noteq> JAX"
  shows "jax_unchanged st (st\<lparr>heap := (heap st)[addr := ob]\<rparr>)"
  using assms by (auto simp: jax_unchanged_def list_all_iff nth_list_update)

lemma jax_unchanged_setitem2:
  assumes "setitem2 var i j v st = Inr st'"
  shows "jax_unchanged st st'"
proof -
  from assms obtain addr where a: "vars st var = Some (Leaf addr)" "addr < length (heap st)"
    by (auto simp: setitem2_def split: option.splits pytree.splits if_splits)
  from assms a have n: "backend (heap st ! addr) = NumPy"
    by (auto simp: setitem2_def Let_def split: backend.splits)
  from assms a n obtain ob where "st' = st\<lparr>heap := (heap st)[addr := ob]\<rparr>"
    by (auto simp: setitem2_def Let_def split: list.splits if_splits)
  with a n show ?thesis
    by (simp add: jax_unchanged_update)
qed

lemma jax_unchanged_isub:
  assumes "isub var rhs st = Inr st'"
  shows "jax_unchanged st st'"
proof -
  from assms obtain addr where a: "vars st var = Some (Leaf addr)" "addr < length (heap st)"
    by (auto simp: isub_def split: option.splits pytree.splits if_splits)
  from assms a obtain r where r: "binop (-) (contents (heap st ! addr)) rhs = Inr r"
    by (cases "binop (-) (contents (heap st ! addr)) rhs") (auto simp: isub_def Let_def)
  show ?thesis
  proof (cases "backend (heap st ! addr) = NumPy")
    case True
    with assms a r obtain ob where "st' = st\<lparr>heap := (heap st)[addr := ob]\<rparr>"
      by (auto simp: isub_def Let_def split: if_splits)
    with a True show ?thesis
      by (simp add: jax_unchanged_update)
  next
    case False
    with assms a r have "st' = assign var JAX (Leaf r) st"
      by (auto simp: isub_def Let_def split: backend.splits)
    then show ?thesis
      by (simp add: jax_unchanged_assign)
  qed
qed

lemma isub_jax_rebinds:
  assumes "isub var rhs st = Inr st'" and "vars st var = Some (Leaf addr)"
    and "backend (heap st ! addr) = JAX"
  shows "vars st' var = Some (Leaf (length (heap st))) \<and> heap st' ! addr = heap st ! addr \<and>
         length (heap st') = Suc (length (heap st))"
proof -
  from assms have a: "addr < length (heap st)"
    by (auto simp: isub_def split: if_splits)
  from assms a obtain r where r: "binop (-) (contents (heap st ! addr)) rhs = Inr r"
    by (cases "binop (-) (contents (heap st ! addr)) rhs") (auto simp: isub_def Let_def)
  from assms a r have "st' = assign var JAX (Leaf r) st"
    by (auto simp: isub_def Let_def)
  with a show ?thesis
    by (simp add: assign_leaf nth_append)
qed

lemma for_loop_invariant:
  assumes step: "\<And>i s s'. body i s = Inr s' \<Longrightarrow> R s s'"
    and refl: "\<And>s. R s s"
    and trans: "\<And>s s' s''. R s s' \<Longrightarrow> R s' s'' \<Longrightarrow> R s s''"
  shows "for_loop js body s = Inr s' \<Longrightarrow> R s s'"
proof (induction js arbitrary: s)
  case Nil
  then show ?case by (simp add: refl)
next
  case (Cons i js)
  from Cons.prems obtain s1 where s1: "body i s = Inr s1" "for_loop js body s1 = Inr s'"
    by (cases "body i s") simp_all
  from step [OF s1(1)] Cons.IH [OF s1(2)] show ?case
    by (rule trans)
qed

lemma ebind_eq_Inr:
  "ebind r f = Inr v \<longleftrightarrow> (\<exists>a. r = Inr a \<and> f a = Inr v)"
  by (cases r) simp_all

lemma jax_unchanged_linreg_body:
  assumes "linreg_body gradient i st = Inr st'"
  shows "jax_unchanged st st'"
proof -
  from assms obtain grad_params scaled st3
    where st3: "isub ''params'' scaled (assign ''grad_params'' JAX (Leaf grad_params) st)
                = Inr st3"
      and fin: "st' = st3 \<or> (\<exists>p. st' = print_out p st3)"
    unfolding linreg_body_def Let_def
    by (auto simp: ebind_eq_Inr split: if_splits)
  let ?st1 = "assign ''grad_params'' JAX (Leaf grad_params) st"
  have "jax_unchanged st ?st1"
    by (rule jax_unchanged_assign)
  moreover have "jax_unchanged ?st1 st3"
    using st3 by (rule jax_unchanged_isub)
  moreover have "jax_unchanged st3 st'"
    using fin by (auto simp: jax_unchanged_print_out)
  ultimately show ?thesis
    by (blast intro: jax_unchanged_trans)
qed

lemma jax_unchanged_linreg_cell:
  assumes "linreg_cell gradient st = Inr st'"
  shows "jax_unchanged st st'"
proof -
  let ?st0 = "assign ''params'' JAX (Leaf (array1 [0, 0])) st"
  from assms have "for_loop (py_range 100) (linreg_body gradient) ?st0 = Inr st'"
    by (simp add: linreg_cell_def)
  then have "jax_unchanged ?st0 st'"
    by (rule for_loop_invariant [rotated -1])
      (auto intro: jax_unchanged_linreg_body jax_unchanged_trans)
  with jax_unchanged_assign [of st "''params''" JAX "Leaf (array1 [0, 0])"] show ?thesis
    by (rule jax_unchanged_trans)
qed

lemma load_array_Inr:
  "load_array var st = Inr x \<longleftrightarrow>
     (\<exists>a. vars st var = Some (Leaf a) \<and> a < length (heap st) \<and> contents (heap st ! a) = x)"
proof (cases "vars st var")
  case None
  then show ?thesis by (simp add: load_array_def load_def)
next
  case (Some t)
  then show ?thesis
    by (cases t) (auto simp: load_array_def load_def as_array_def)
qed

lemma iteration_numbers_append:
  "iteration_numbers (ps @ qs) = iteration_numbers ps @ iteration_numbers qs"
  by (induction ps rule: iteration_numbers.induct) simp_all

lemma print_out_simps [simp]:
  "heap (print_out p st) = heap st"
  "vars (print_out p st) = vars st"
  "stdout (print_out p st) = stdout st @ [p]"
  by (simp_all add: print_out_def)

lemma load_print_out [simp]: "load var (print_out p st) = load var st"
  by (simp add: load_def cong: option.case_cong if_cong)

lemma load_array_print_out [simp]: "load_array var (print_out p st) = load_array var st"
  by (simp add: load_array_def)

lemma data_ready_print_out [simp]: "data_ready n (print_out p st) = data_ready n st"
  by (simp add: data_ready_def)

lemma data_ready_extend:
  assumes "data_ready n st" and "heap st' = heap st @ new"
    and "vars st' ''x_data'' = vars st ''x_data''" and "vars st' ''y_data'' = vars st ''y_data''"
  shows "data_ready n st'"
proof -
  from assms(1) obtain x y where xy: "load_array ''x_data'' st = Inr x" "shape x = [n]"
      "load_array ''y_data'' st = Inr y" "shape y = [n]" and n: "0 < n"
    by (auto simp: data_ready_def split: sum.splits)
  from xy(1) assms(2,3) have "load_array ''x_data'' st' = Inr x"
    by (auto simp: load_array_Inr nth_append)
  moreover from xy(3) assms(2,4) have "load_array ''y_data'' st' = Inr y"
    by (auto simp: load_array_Inr nth_append)
  ultimately show ?thesis
    using xy n by (simp add: data_ready_def)
qed

lemma linreg_body_step:
  assumes inv: "linreg_inv n st" and gc: "grad_contract gradient"
  shows "\<exists>st'. linreg_body gradient i st = Inr st' \<and> linreg_inv n st' \<and>
           length (heap st') = length (heap st) + 2 \<and>
           iteration_numbers (stdout st') =
             iteration_numbers (stdout st) @ (if 90 < i then [Suc i] else [])"
proof -
  from inv obtain a where a: "vars st ''params'' = Some (Leaf a)" "a < length (heap st)"
      "backend (heap st ! a) = JAX" "shape (contents (heap st ! a)) = [2]"
    and dr: "data_ready n st"
    by (auto simp: linreg_inv_def)
  from dr obtain x y where xy: "load_array ''x_data'' st = Inr x" "shape x = [n]"
      "load_array ''y_data'' st = Inr y" "shape y = [n]" and n: "0 < n"
    by (auto simp: data_ready_def split: sum.splits)
  let ?p = "contents (heap st ! a)"
  have lp: "load_array ''params'' st = Inr ?p"
    using a by (simp add: load_array_Inr)
  have "has_shape (mse_loss ?p x y) []"
    using a(4) xy(2,4) n by (rule mse_loss_has_shape)
  with gc obtain g where g: "gradient ?p x y = Inr g" "shape g = [2]"
    using a(4) unfolding grad_contract_def by metis
  let ?st1 = "assign ''grad_params'' JAX (Leaf g) st"
  obtain scaled where sc: "binop (*) (scalar (1 / 100)) g = Inr scaled" "shape scaled = [2]"
    using binop_has_shape [of "scalar (1 / 100)" g "[2]" "(*)"] g(2)
    by (auto elim: has_shapeE)
  obtain p' where p': "binop (-) ?p scaled = Inr p'" "shape p' = [2]"
    using binop_has_shape [of ?p scaled "[2]" "(-)"] a(4) sc(2)
    by (auto elim: has_shapeE)
  let ?st2 = "assign ''params'' JAX (Leaf p') ?st1"
  have sub: "isub ''params'' scaled ?st1 = Inr ?st2"
    using a p' by (simp add: isub_def assign_leaf nth_append Let_def)
  have h2: "heap ?st2 = heap st @ [\<lparr>backend = JAX, contents = g\<rparr>, \<lparr>backend = JAX, contents = p'\<rparr>]"
    by (simp add: assign_leaf)
  have v2: "vars ?st2 = (vars st)(''grad_params'' \<mapsto> Leaf (length (heap st)),
                                   ''params'' \<mapsto> Leaf (Suc (length (heap st))))"
    by (simp add: assign_leaf)
  have o2: "stdout ?st2 = stdout st"
    by (simp add: assign_leaf)
  have dr2: "data_ready n ?st2"
    using dr h2 by (rule data_ready_extend) (simp_all add: v2)
  have inv2: "linreg_inv n ?st2"
    unfolding linreg_inv_def using dr2 p'(2) by (simp add: h2 v2 nth_append)
  have lp2: "load_array ''params'' ?st2 = Inr p'"
    by (simp add: load_array_Inr h2 v2 nth_append)
  obtain m where m: "getitem1 p' 0 = Inr m"
    using p'(2) by (simp add: getitem1_def)
  obtain b where b: "getitem1 p' (Suc 0) = Inr b"
    using p'(2) by (simp add: getitem1_def)
  obtain l where l: "mse_loss p' x y = Inr l"
    using mse_loss_has_shape [OF p'(2) xy(2,4) n] by (auto elim: has_shapeE)
  show ?thesis
  proof (cases "90 < i")
    case True
    let ?st3 = "print_out (Report (i + 1) [item m, item b, item l]) ?st2"
    have "linreg_body gradient i st = Inr ?st3"
      using True by (simp add: linreg_body_def lp xy g sc sub lp2 m b l Let_def)
    moreover have "linreg_inv n ?st3"
      using inv2 by (simp add: linreg_inv_def)
    moreover have "length (heap ?st3) = length (heap st) + 2"
      by (simp add: h2)
    moreover have "iteration_numbers (stdout ?st3) = iteration_numbers (stdout st) @ [Suc i]"
      by (simp add: o2 iteration_numbers_append)
    ultimately show ?thesis
      using True by auto
  next
    case False
    have "linreg_body gradient i st = Inr ?st2"
      using False by (simp add: linreg_body_def lp xy g sc sub Let_def)
    moreover have "length (heap ?st2) = length (heap st) + 2"
      by (simp add: h2)
    ultimately show ?thesis
      using False inv2 o2 by auto
  qed
qed


lemma for_loop_returns:
  assumes step: "\<And>i s. I s \<Longrightarrow>
      \<exists>s'. body i s = Inr s' \<and> I s' \<and> length (heap s') = length (heap s) + k \<and>
           iteration_numbers (stdout s') = iteration_numbers (stdout s) @ pr i"
  shows "I s \<Longrightarrow>
      \<exists>s'. for_loop js body s = Inr s' \<and> I s' \<and>
           length (heap s') = length (heap s) + k * length js \<and>
           iteration_numbers (stdout s') = iteration_numbers (stdout s) @ concat (map pr js)"
proof (induction js arbitrary: s)
  case Nil
  then show ?case by simp
next
  case (Cons i js)
  from step [OF Cons.prems, of i] obtain s1
    where s1: "body i s = Inr s1" "I s1" "length (heap s1) = length (heap s) + k"
      "iteration_numbers (stdout s1) = iteration_numbers (stdout s) @ pr i"
    by blast
  from Cons.IH [OF s1(2)] obtain s'
    where s': "for_loop js body s1 = Inr s'" "I s'"
      "length (heap s') = length (heap s1) + k * length js"
      "iteration_numbers (stdout s') = iteration_numbers (stdout s1) @ concat (map pr js)"
    by blast
  from s1 s' show ?case
    by simp
qed

lemma printed_iterations_linreg:
  "concat (map (\<lambda>i. if 90 < i then [Suc i] else []) (py_range 100)) = [92..<101]"
  unfolding py_range_def by code_simp

lemma printed_iterations_two_layer:
  "concat (map (\<lambda>i. if i < 10 then [Suc i] else []) (py_range 100)) = [1..<11]"
  unfolding py_range_def by code_simp

lemma linreg_inv_initial:
  assumes "data_ready n st"
  shows "linreg_inv n (assign ''params'' JAX (Leaf (array1 [0, 0])) st)"
proof -
  let ?st0 = "assign ''params'' JAX (Leaf (array1 [0, 0])) st"
  have h: "heap ?st0 = heap st @ [\<lparr>backend = JAX, contents = array1 [0, 0]\<rparr>]"
    by (simp add: assign_leaf)
  have "data_ready n ?st0"
    using assms h by (rule data_ready_extend) (simp_all add: assign_leaf)
  then show ?thesis
    by (simp add: linreg_inv_def assign_leaf)
qed

lemma linreg_cell_returns:
  assumes "data_ready n st" and "grad_contract gradient"
  shows "\<exists>st'. linreg_cell gradient st = Inr st' \<and>
           length (heap st') = length (heap st) + 1 + 2 * 100 \<and>
           iteration_numbers (stdout st') = iteration_numbers (stdout st) @ [92..<101]"
proof -
  let ?st0 = "assign ''params'' JAX (Leaf (array1 [0, 0])) st"
  have "\<exists>st'. for_loop (py_range 100) (linreg_body gradient) ?st0 = Inr st' \<and> linreg_inv n st' \<and>
           length (heap st') = length (heap ?st0) + 2 * length (py_range 100) \<and>
           iteration_numbers (stdout st') = iteration_numbers (stdout ?st0) @
             concat (map (\<lambda>i. if 90 < i then [Suc i] else []) (py_range 100))"
  proof (rule for_loop_returns [where I = "linreg_inv n"])
    show "linreg_inv n ?st0"
      by (rule linreg_inv_initial [OF assms(1)])
  next
    fix i s assume "linreg_inv n s"
    then show "\<exists>s'. linreg_body gradient i s = Inr s' \<and> linreg_inv n s' \<and>
           length (heap s') = length (heap s) + 2 \<and>
           iteration_numbers (stdout s') = iteration_numbers (stdout s) @
             (if 90 < i then [Suc i] else [])"
      using assms(2) by (rule linreg_body_step)
  qed
  then show ?thesis
    unfolding printed_iterations_linreg
    by (auto simp: linreg_cell_def assign_leaf py_range_def)
qed


lemma alloc_trees_leaves:
  "alloc_trees b (map Leaf arrays) st =
     (map Leaf [length (heap st)..<length (heap st) + length arrays],
      st\<lparr>heap := heap st @ map (\<lambda>a. \<lparr>backend = b, contents = a\<rparr>) arrays\<rparr>)"
proof (induction arrays arbitrary: st)
  case Nil
  show ?case by simp
next
  case (Cons a arrays)
  have "[length (heap st)..<length (heap st) + length (a # arrays)]
          = length (heap st) # [Suc (length (heap st))..<Suc (length (heap st)) + length arrays]"
    by (subst upt_rec) simp
  then show ?case
    by (simp add: Cons.IH new_object_def del: upt_Suc)
qed

lemma assign_tuple:
  "assign var b (Tuple (map Leaf arrays)) st =
     st\<lparr>heap := heap st @ map (\<lambda>a. \<lparr>backend = b, contents = a\<rparr>) arrays,
        vars := (vars st)(var \<mapsto> Tuple (map Leaf [length (heap st)..<length (heap st) + length arrays]))\<rparr>"
  by (simp add: assign_def alloc_trees_leaves)

lemma tuple_arrays_leaves: "tuple_arrays (Tuple (map Leaf arrays)) = Inr arrays"
proof -
  have "sequence (map as_array (map Leaf arrays)) = Inr arrays"
    by (induction arrays) (simp_all add: as_array_def)
  then show ?thesis
    by (simp add: tuple_arrays_def)
qed

lemma load_tuple:
  assumes "vars st var = Some (Tuple (map Leaf addrs))"
    and "list_all (\<lambda>a. a < length (heap st)) addrs"
  shows "load var st = Inr (Tuple (map Leaf (map (\<lambda>a. contents (heap st ! a)) addrs)))"
  using assms by (simp add: load_def list_all_iff comp_def)

lemma fresh_block_valid:
  "list_all (\<lambda>a. a < length (hp @ map f arrays)) [length hp..<length hp + length arrays]"
  by (simp add: list_all_iff)

lemma fresh_block_contents:
  "map (\<lambda>a. g ((hp @ map f arrays) ! a)) [length hp..<length hp + length arrays]
     = map (\<lambda>x. g (f x)) arrays"
  by (rule nth_equalityI) (simp_all add: nth_append)

lemma two_layer_inv_assign_params:
  assumes "data_ready n st" and "map shape new = two_layer_shapes"
  shows "two_layer_inv n (assign ''params_two_layer_nn'' JAX (Tuple (map Leaf new)) st)"
proof -
  let ?st' = "assign ''params_two_layer_nn'' JAX (Tuple (map Leaf new)) st"
  let ?f = "\<lambda>a. \<lparr>backend = JAX, contents = a\<rparr>"
  have h: "heap ?st' = heap st @ map ?f new"
    by (simp add: assign_tuple)
  have v: "vars ?st' = (vars st)(''params_two_layer_nn'' \<mapsto>
             Tuple (map Leaf [length (heap st)..<length (heap st) + length new]))"
    by (simp add: assign_tuple)
  have dr: "data_ready n ?st'"
    using assms(1) h by (rule data_ready_extend) (simp_all add: v)
  have c: "map (\<lambda>a. shape (contents (heap ?st' ! a))) [length (heap st)..<length (heap st) + length new]
             = two_layer_shapes"
    unfolding h using fresh_block_contents [of "\<lambda>ob. shape (contents ob)" "heap st" ?f new] assms(2)
    by (simp add: comp_def)
  have val: "list_all (\<lambda>a. a < length (heap ?st')) [length (heap st)..<length (heap st) + length new]"
    unfolding h by (rule fresh_block_valid)
  show ?thesis
    unfolding two_layer_inv_def
  proof (intro conjI exI)
    show "vars ?st' ''params_two_layer_nn''
            = Some (Tuple (map Leaf [length (heap st)..<length (heap st) + length new]))"
      by (simp add: v)
  qed (rule dr val c)+
qed

lemma two_layer_body_step:
  assumes inv: "two_layer_inv n st" and gc: "grad_contract_two_layer gradient"
  shows "\<exists>st'. two_layer_body gradient i st = Inr st' \<and> two_layer_inv n st' \<and>
           length (heap st') = length (heap st) + 12 \<and>
           iteration_numbers (stdout st') =
             iteration_numbers (stdout st) @ (if i < 10 then [Suc i] else [])"
proof -
  from inv obtain addrs where a: "vars st ''params_two_layer_nn'' = Some (Tuple (map Leaf addrs))"
      "list_all (\<lambda>a. a < length (heap st)) addrs"
      "map (\<lambda>a. shape (contents (heap st ! a))) addrs = two_layer_shapes"
    and dr: "data_ready n st"
    by (auto simp: two_layer_inv_def)
  from dr obtain x y where xy: "load_array ''x_data'' st = Inr x" "shape x = [n]"
      "load_array ''y_data'' st = Inr y" "shape y = [n]" and n: "0 < n"
    by (auto simp: data_ready_def split: sum.splits)
  let ?params = "map (\<lambda>a. contents (heap st ! a)) addrs"
  have ps: "map shape ?params = two_layer_shapes"
    using a(3) by (simp add: comp_def)
  have lp: "load ''params_two_layer_nn'' st = Inr (Tuple (map Leaf ?params))"
    using a(1,2) by (rule load_tuple)
  let ?x = "x\<lparr>shape := [n, 1]\<rparr>"
  have nx: "newaxis1 x = Inr ?x"
    using xy(2) by (rule newaxis1_vector)
  have sx: "shape ?x = [n, 1]"
    by simp
  have ls: "has_shape (two_layer_nn_mse_loss ?params ?x y) []"
    using ps sx xy(4) n by (rule two_layer_nn_mse_loss_has_shape)
  with gc obtain grads where g: "gradient ?params ?x y = Inr grads"
      "map shape grads = map shape ?params"
    unfolding grad_contract_two_layer_def by metis
  from g(2) ps have gs: "map shape grads = two_layer_shapes"
    by simp
  from update_two_layer_nn_shapes [OF ps gs, of "1 / 10"] obtain new
    where new: "update_two_layer_nn (1 / 10) ?params grads = Inr new"
      "map shape new = two_layer_shapes"
    by blast
  have len: "length grads = 6" "length new = 6"
    using gs new(2) by (auto simp: two_layer_shapes_def dest: map_eq_imp_length_eq)
  let ?st1 = "assign ''grad_params_two_layer_nn'' JAX (Tuple (map Leaf grads)) st"
  let ?st2 = "assign ''params_two_layer_nn'' JAX (Tuple (map Leaf new)) ?st1"
  have h1: "heap ?st1 = heap st @ map (\<lambda>a. \<lparr>backend = JAX, contents = a\<rparr>) grads"
    by (simp add: assign_tuple)
  have dr1: "data_ready n ?st1"
    using dr h1 by (rule data_ready_extend) (simp_all add: assign_tuple)
  have inv2: "two_layer_inv n ?st2"
    using dr1 new(2) by (rule two_layer_inv_assign_params)
  have hl: "length (heap ?st2) = length (heap st) + 12"
    by (simp add: assign_tuple len)
  have o2: "stdout ?st2 = stdout st"
    by (simp add: assign_tuple)
  obtain l where l: "two_layer_nn_mse_loss new ?x y = Inr l"
    using two_layer_nn_mse_loss_has_shape [OF new(2) sx xy(4) n] by (auto elim: has_shapeE)
  show ?thesis
  proof (cases "i < 10")
    case True
    let ?st3 = "print_out (Report (i + 1) [item l]) ?st2"
    have "two_layer_body gradient i st = Inr ?st3"
      unfolding two_layer_body_def lp ebind_Inr tuple_arrays_leaves xy nx g new Let_def
      using True l by simp
    moreover have "two_layer_inv n ?st3"
      using inv2 by (simp add: two_layer_inv_def)
    moreover have "length (heap ?st3) = length (heap st) + 12"
      using hl by simp
    moreover have "iteration_numbers (stdout ?st3) = iteration_numbers (stdout st) @ [Suc i]"
      by (simp add: o2 iteration_numbers_append)
    ultimately show ?thesis
      using True by auto
  next
    case False
    have "two_layer_body gradient i st = Inr ?st2"
      unfolding two_layer_body_def lp ebind_Inr tuple_arrays_leaves xy nx g new Let_def
      using False by simp
    then show ?thesis
      using False inv2 o2 hl by auto
  qed
qed

lemma two_layer_cell_returns:
  assumes "data_ready n st" and "grad_contract_two_layer gradient"
  shows "\<exists>st'. two_layer_cell gradient st = Inr st' \<and>
           length (heap st') = length (heap st) + 6 + 12 * 100 \<and>
           iteration_numbers (stdout st') = iteration_numbers (stdout st) @ [1..<11]"
proof -
  let ?st0 = "assign ''params_two_layer_nn'' JAX (Tuple (map Leaf params_two_layer_nn)) st"
  have "\<exists>st'. for_loop (py_range 100) (two_layer_body gradient) ?st0 = Inr st' \<and>
           two_layer_inv n st' \<and>
           length (heap st') = length (heap ?st0) + 12 * length (py_range 100) \<and>
           iteration_numbers (stdout st') = iteration_numbers (stdout ?st0) @
             concat (map (\<lambda>i. if i < 10 then [Suc i] else []) (py_range 100))"
  proof (rule for_loop_returns [where I = "two_layer_inv n"])
    show "two_layer_inv n ?st0"
      using assms(1) params_two_layer_nn_shapes by (rule two_layer_inv_assign_params)
  next
    fix i s assume "two_layer_inv n s"
    then show "\<exists>s'. two_layer_body gradient i s = Inr s' \<and> two_layer_inv n s' \<and>
           length (heap s') = length (heap s) + 12 \<and>
           iteration_numbers (stdout s') = iteration_numbers (stdout s) @
             (if i < 10 then [Suc i] else [])"
      using assms(2) by (rule two_layer_body_step)
  qed
  moreover have "length params_two_layer_nn = 6"
    by (simp add: params_two_layer_nn_def)
  ultimately show ?thesis
    unfolding printed_iterations_two_layer
    by (auto simp: two_layer_cell_def assign_tuple py_range_def)
qed

lemma for_loop_trace_list:
  "for_loop js body s = Inr s' \<Longrightarrow>
     \<exists>trace. length trace = Suc (length js) \<and> trace ! 0 = s \<and> trace ! length js = s' \<and>
        (\<forall>k<length js. body (js ! k) (trace ! k) = Inr (trace ! Suc k))"
proof (induction js arbitrary: s)
  case Nil
  then have "length [s] = Suc 0 \<and> [s] ! 0 = s \<and> [s] ! 0 = s'"
    by simp
  then show ?case
    by (intro exI [of _ "[s]"]) simp
next
  case (Cons i js)
  from Cons.prems obtain s1 where s1: "body i s = Inr s1" "for_loop js body s1 = Inr s'"
    by (cases "body i s") simp_all
  from Cons.IH [OF s1(2)] obtain trace
    where t: "length trace = Suc (length js)" "trace ! 0 = s1" "trace ! length js = s'"
      "\<forall>k<length js. body (js ! k) (trace ! k) = Inr (trace ! Suc k)"
    by blast
  have "\<forall>k<length (i # js). body ((i # js) ! k) ((s # trace) ! k) = Inr ((s # trace) ! Suc k)"
  proof (intro allI impI)
    fix k assume "k < length (i # js)"
    then show "body ((i # js) ! k) ((s # trace) ! k) = Inr ((s # trace) ! Suc k)"
      using s1(1) t(2,4) by (cases k) simp_all
  qed
  with t show ?case
    by (intro exI [of _ "s # trace"]) simp
qed

lemma for_loop_runs_iterations:
  assumes "for_loop (py_range n) body s = Inr s'"
  shows "runs_iterations body n s s'"
  using for_loop_trace_list [OF assms] by (simp add: runs_iterations_def py_range_def)

lemma jax_unchanged_two_layer_body:
  assumes "two_layer_body gradient i st = Inr st'"
  shows "jax_unchanged st st'"
proof -
  from assms obtain grads new
    where fin: "st' = assign ''params_two_layer_nn'' JAX (Tuple (map Leaf new))
                   (assign ''grad_params_two_layer_nn'' JAX (Tuple (map Leaf grads)) st) \<or>
                (\<exists>p. st' = print_out p (assign ''params_two_layer_nn'' JAX (Tuple (map Leaf new))
                   (assign ''grad_params_two_layer_nn'' JAX (Tuple (map Leaf grads)) st)))"
    unfolding two_layer_body_def Let_def
    by (auto simp: ebind_eq_Inr split: if_splits)
  let ?st1 = "assign ''grad_params_two_layer_nn'' JAX (Tuple (map Leaf grads)) st"
  let ?st2 = "assign ''params_two_layer_nn'' JAX (Tuple (map Leaf new)) ?st1"
  have "jax_unchanged st ?st1" "jax_unchanged ?st1 ?st2"
    by (rule jax_unchanged_assign)+
  then have "jax_unchanged st ?st2"
    by (rule jax_unchanged_trans)
  moreover have "jax_unchanged ?st2 st'"
    using fin by (auto simp: jax_unchanged_print_out)
  ultimately show ?thesis
    by (rule jax_unchanged_trans)
qed

lemma jax_unchanged_two_layer_cell:
  assumes "two_layer_cell gradient st = Inr st'"
  shows "jax_unchanged st st'"
proof -
  let ?st0 = "assign ''params_two_layer_nn'' JAX (Tuple (map Leaf params_two_layer_nn)) st"
  from assms have "for_loop (py_range 100) (two_layer_body gradient) ?st0 = Inr st'"
    by (simp add: two_layer_cell_def)
  then have "jax_unchanged ?st0 st'"
    by (rule for_loop_invariant [rotated -1])
      (auto intro: jax_unchanged_two_layer_body jax_unchanged_trans)
  with jax_unchanged_assign [of st "''params_two_layer_nn''" JAX] show ?thesis
    by (rule jax_unchanged_trans)
qed

lemma jax_unchanged_immutability_cell:
  assumes "immutability_cell st = Inr st'"
  shows "jax_unchanged st st'"
proof -
  from assms obtain st1 where st1: "setitem2 ''numpy_array'' 1 1 0 st = Inr st1"
    and rest: "(case setitem2 ''jax_array'' 1 1 0 st1 of
                  Inl (TypeError err) \<Rightarrow> Inr (print_out (Text (''Exeption raised: '' @ err)) st1)
                | Inl e \<Rightarrow> Inl e
                | Inr st2 \<Rightarrow> Inr st2) = Inr st'"
    unfolding immutability_cell_def ebind_eq_Inr by blast
  have 1: "jax_unchanged st st1"
    using st1 by (rule jax_unchanged_setitem2)
  have 2: "jax_unchanged st1 st'"
  proof (cases "setitem2 ''jax_array'' 1 1 0 st1")
    case (Inl e)
    with rest have "\<exists>p. st' = print_out p st1"
      by (cases e) auto
    then show ?thesis
      by (auto simp: jax_unchanged_print_out)
  next
    case (Inr st2)
    with rest have "setitem2 ''jax_array'' 1 1 0 st1 = Inr st'"
      by simp
    then show ?thesis
      by (rule jax_unchanged_setitem2)
  qed
  from 1 2 show ?thesis
    by (rule jax_unchanged_trans)
qed

lemma all_leaves_mono:
  assumes "\<And>a. P a \<Longrightarrow> Q a"
  shows "all_leaves P t \<Longrightarrow> all_leaves Q t"
  by (induction t) (auto simp: list_all_iff assms)

lemma alloc_length_mono:
  "length (heap st) \<le> length (heap (snd (alloc_tree b t st)))"
  "length (heap st) \<le> length (heap (snd (alloc_trees b ts st)))"
  "length (heap st) \<le> length (heap (snd (alloc_items b kvs st)))"
  using alloc_extends(1) [of b t st] alloc_extends(2) [of b ts st] alloc_extends(3) [of b kvs st]
  by auto

lemma alloc_fresh:
  "all_leaves (\<lambda>a. length (heap st) \<le> a) (fst (alloc_tree b t st))"
  "list_all (all_leaves (\<lambda>a. length (heap st) \<le> a)) (fst (alloc_trees b ts st))"
  "list_all (\<lambda>kt. all_leaves (\<lambda>a. length (heap st) \<le> a) (snd kt)) (fst (alloc_items b kvs st))"
proof (induction b t st and b ts st and b kvs st rule: alloc_tree_alloc_trees_alloc_items.induct)
  case (1 b a st)
  then show ?case by (simp add: new_object_def)
next
  case (2 b ts st)
  then show ?case by (simp add: case_prod_beta)
next
  case (3 b kvs st)
  then show ?case by (simp add: case_prod_beta)
next
  case (4 b st)
  then show ?case by simp
next
  case (5 b t ts st)
  let ?st1 = "snd (alloc_tree b t st)"
  have le: "length (heap st) \<le> length (heap ?st1)"
    by (rule alloc_length_mono)
  from "5.IH"(2) [OF refl prod.collapse]
  have "list_all (all_leaves (\<lambda>a. length (heap ?st1) \<le> a)) (fst (alloc_trees b ts ?st1))" .
  then have "list_all (all_leaves (\<lambda>a. length (heap st) \<le> a)) (fst (alloc_trees b ts ?st1))"
    using le by (auto simp: list_all_iff elim!: all_leaves_mono [rotated])
  with "5.IH"(1) show ?case
    by (simp add: case_prod_beta)
next
  case (6 b st)
  then show ?case by simp
next
  case (7 b k t kvs st)
  let ?st1 = "snd (alloc_tree b t st)"
  have le: "length (heap st) \<le> length (heap ?st1)"
    by (rule alloc_length_mono)
  from "7.IH"(2) [OF refl prod.collapse]
  have "list_all (\<lambda>kt. all_leaves (\<lambda>a. length (heap ?st1) \<le> a) (snd kt))
          (fst (alloc_items b kvs ?st1))" .
  then have "list_all (\<lambda>kt. all_leaves (\<lambda>a. length (heap st) \<le> a) (snd kt))
          (fst (alloc_items b kvs ?st1))"
    using le by (auto simp: list_all_iff elim!: all_leaves_mono [rotated])
  with "7.IH"(1) show ?case
    by (simp add: case_prod_beta)
qed

lemma gradient_descent_step_heap_fresh:
  assumes "gradient_descent_step_heap grad_fn params x y lr st = Inr (update, st')"
  shows "jax_unchanged st st' \<and> fresh_in st update"
proof -
  from assms obtain u where u: "alloc_tree JAX u st = (update, st')"
    unfolding gradient_descent_step_heap_def
    by (auto simp: ebind_eq_Inr split: if_splits)
  then have "update = fst (alloc_tree JAX u st)" "st' = snd (alloc_tree JAX u st)"
    by simp_all
  then show ?thesis
    using alloc_extends(1) [of JAX u st] alloc_fresh(1) [of st JAX u]
    by (auto simp: fresh_in_def intro: jax_unchanged_append)
qed

lemma for_loop_unchanged_throughout:
  assumes step: "\<And>i s s'. body i s = Inr s' \<Longrightarrow> jax_unchanged s s'"
    and run: "for_loop (py_range n) body s = Inr s'"
  shows "unchanged_throughout body n s s'"
proof -
  from for_loop_trace_list [OF run] obtain trace
    where t: "length trace = Suc n" "trace ! 0 = s" "trace ! n = s'"
      "\<forall>k<n. body k (trace ! k) = Inr (trace ! Suc k)"
    by (auto simp: py_range_def)
  have "\<forall>j\<le>k. jax_unchanged (trace ! j) (trace ! k)" if "k \<le> n" for k
    using that
  proof (induction k)
    case 0
    show ?case by simp
  next
    case (Suc k)
    show ?case
    proof (intro allI impI)
      fix j assume j: "j \<le> Suc k"
      show "jax_unchanged (trace ! j) (trace ! Suc k)"
      proof (cases "j = Suc k")
        case True
        then show ?thesis by simp
      next
        case False
        with j have "j \<le> k" by simp
        with Suc have 1: "jax_unchanged (trace ! j) (trace ! k)"
          by simp
        from Suc.prems t(4) have "body k (trace ! k) = Inr (trace ! Suc k)"
          by simp
        then have "jax_unchanged (trace ! k) (trace ! Suc k)"
          by (rule step)
        with 1 show ?thesis
          by (rule jax_unchanged_trans)
      qed
    qed
  qed
  with t show ?thesis
    unfolding unchanged_throughout_def by blast
qed


lemma vars_assign_same:
  "vars (assign var b t st) var = Some (fst (alloc_tree b t st))"
  by (simp add: assign_def case_prod_beta)


lemma linreg_body_rebinds:
  assumes run: "linreg_body gradient i st = Inr st'"
    and v: "vars st ''params'' = Some (Leaf a)" and j: "backend (heap st ! a) = JAX"
  shows "\<exists>a'. vars st' ''params'' = Some (Leaf a') \<and> length (heap st) \<le> a' \<and>
              heap st' ! a = heap st ! a"
proof -
  from run obtain grad_params scaled st3
    where st3: "isub ''params'' scaled (assign ''grad_params'' JAX (Leaf grad_params) st)
                = Inr st3"
      and fin: "st' = st3 \<or> (\<exists>p. st' = print_out p st3)"
    unfolding linreg_body_def Let_def
    by (auto simp: ebind_eq_Inr split: if_splits)
  from run v have a: "a < length (heap st)"
    unfolding linreg_body_def by (auto simp: ebind_eq_Inr load_array_Inr)
  let ?st1 = "assign ''grad_params'' JAX (Leaf grad_params) st"
  have v1: "vars ?st1 ''params'' = Some (Leaf a)"
    using v by (simp add: assign_leaf)
  have h1: "heap ?st1 ! a = heap st ! a" "length (heap ?st1) = Suc (length (heap st))"
    using a by (simp_all add: assign_leaf nth_append)
  from isub_jax_rebinds [OF st3 v1] j h1
  have "vars st3 ''params'' = Some (Leaf (Suc (length (heap st)))) \<and> heap st3 ! a = heap st ! a"
    by simp
  with fin show ?thesis
    by (auto simp: print_out_def)
qed


lemma two_layer_body_rebinds:
  assumes "two_layer_body gradient i st = Inr st'"
  shows "\<exists>t. vars st' ''params_two_layer_nn'' = Some t \<and> fresh_in st t"
proof -
  from assms obtain grads new
    where fin: "st' = assign ''params_two_layer_nn'' JAX (Tuple (map Leaf new))
                   (assign ''grad_params_two_layer_nn'' JAX (Tuple (map Leaf grads)) st) \<or>
                (\<exists>p. st' = print_out p (assign ''params_two_layer_nn'' JAX (Tuple (map Leaf new))
                   (assign ''grad_params_two_layer_nn'' JAX (Tuple (map Leaf grads)) st)))"
    unfolding two_layer_body_def Let_def
    by (auto simp: ebind_eq_Inr split: if_splits)
  let ?st1 = "assign ''grad_params_two_layer_nn'' JAX (Tuple (map Leaf grads)) st"
  let ?t = "fst (alloc_tree JAX (Tuple (map Leaf new)) ?st1)"
  from heap_assign [of "''grad_params_two_layer_nn''" JAX "Tuple (map Leaf grads)" st]
  have le: "length (heap st) \<le> length (heap ?st1)"
    by auto
  have "all_leaves (\<lambda>a. length (heap ?st1) \<le> a) ?t"
    by (rule alloc_fresh)
  then have "fresh_in st ?t"
    unfolding fresh_in_def using le by (auto elim!: all_leaves_mono [rotated])
  moreover from fin have "vars st' ''params_two_layer_nn'' = Some ?t"
    by (auto simp: vars_assign_same print_out_def)
  ultimately show ?thesis
    by blast
qed


lemma notebook_try_count: "length (filter is_try (all_stmts notebook)) = 1"
  by code_simp

lemma immutability_cell_run:
  "\<exists>st'. immutability_cell (create_arrays_cell empty_state) = Inr st' \<and>
         stdout st' = [Text (''Exeption raised: '' @ immutable_message)] \<and>
         load ''jax_array'' st' = Inr (Leaf \<lparr>shape = [2, 2], data = [1, 2, 3, 4]\<rparr>) \<and>
         load ''numpy_array'' st' = Inr (Leaf \<lparr>shape = [2, 2], data = [1, 2, 3, 0]\<rparr>)"
proof -
  let ?st0 = "create_arrays_cell empty_state"
  let ?A = "map_array real_of_int jax_array"
  have h0: "heap ?st0 = [\<lparr>backend = NumPy, contents = ?A\<rparr>, \<lparr>backend = NumPy, contents = ones [10]\<rparr>,
                        \<lparr>backend = JAX, contents = ?A\<rparr>, \<lparr>backend = JAX, contents = ones [10]\<rparr>]"
    by (simp add: create_arrays_cell_def empty_state_def assign_leaf Let_def)
  have v0: "vars ?st0 ''numpy_array'' = Some (Leaf 0)" "vars ?st0 ''jax_array'' = Some (Leaf 2)"
    by (simp_all add: create_arrays_cell_def empty_state_def assign_leaf Let_def)
  have o0: "stdout ?st0 = []"
    by (simp add: create_arrays_cell_def empty_state_def assign_leaf Let_def)
  have A: "?A = \<lparr>shape = [2, 2], data = [1, 2, 3, 4]\<rparr>"
    by (simp add: map_array_def jax_array_def)
  let ?st1 = "?st0\<lparr>heap := (heap ?st0)[0 := \<lparr>backend = NumPy, contents = \<lparr>shape = [2, 2], data = [1, 2, 3, 0]\<rparr>\<rparr>]\<rparr>"
  have s1: "setitem2 ''numpy_array'' 1 1 0 ?st0 = Inr ?st1"
    by (simp add: setitem2_def v0 h0 A Let_def)
  have s2: "setitem2 ''jax_array'' 1 1 0 ?st1 = Inl (TypeError immutable_message)"
    by (simp add: setitem2_def v0 h0 Let_def)
  let ?st' = "print_out (Text (''Exeption raised: '' @ immutable_message)) ?st1"
  have c: "immutability_cell ?st0 = Inr ?st'"
    unfolding immutability_cell_def s1 ebind_Inr s2 by simp
  have "stdout ?st' = [Text (''Exeption raised: '' @ immutable_message)]"
    by (simp add: o0)
  moreover have "load ''jax_array'' ?st' = Inr (Leaf \<lparr>shape = [2, 2], data = [1, 2, 3, 4]\<rparr>)"
    by (simp add: load_def v0 h0 A)
  moreover have "load ''numpy_array'' ?st' = Inr (Leaf \<lparr>shape = [2, 2], data = [1, 2, 3, 0]\<rparr>)"
    by (simp add: load_def v0 h0)
  ultimately show ?thesis
    using c by blast
qed

lemma notebook_loops:
  "concat (map loop_iterable (all_stmts notebook)) =
     [PyRange 3, PyRange 3, PyRange 100, PyRange 100,
      Elements ''zip(params_two_layer_nn, grad_params_two_layer_nn)'',
      Elements ''xs'', Elements ''result.device_buffers'', Items ''d'']"
  by code_simp

lemma notebook_no_while: "filter is_while (all_stmts notebook) = []"
  by code_simp

lemma notebook_if_conditions:
  "concat (map if_condition (all_stmts notebook)) = [''i > 90'', ''i < 10'', ''isinstance(v, dict)'']"
  by code_simp

lemma notebook_recursive_defs:
  "concat (map def_name (filter is_recursive_def (all_stmts notebook))) = [''print_leaf_shapes'']"
  by code_simp

lemma small_data_state_ready: "data_ready 2 small_data_state"
proof -
  have "load_array ''x_data'' small_data_state = Inr (array1 [1, 2])"
    by (simp add: load_array_Inr small_data_state_def assign_leaf empty_state_def)
  moreover have "load_array ''y_data'' small_data_state = Inr (array1 [1, 2])"
    by (simp add: load_array_Inr small_data_state_def assign_leaf empty_state_def)
  ultimately show ?thesis
    by (simp add: data_ready_def)
qed

lemma zero_gradient_contract: "grad_contract zero_gradient"
  by (simp add: grad_contract_def zero_gradient_def)

lemma zero_gradient_two_layer_nn_contract: "grad_contract_two_layer zero_gradient_two_layer_nn"
  by (simp add: grad_contract_two_layer_def zero_gradient_two_layer_nn_def comp_def)

lemma gradient_descent_step_heap_returns:
  assumes "all_leaves (\<lambda>a. a < length (heap st)) params"
    and "gradient_descent_step grad_fn (map_pytree (\<lambda>a. contents (heap st ! a)) params) x y lr
           = Inr u"
  shows "gradient_descent_step_heap grad_fn params x y lr st
           = Inr (fst (alloc_tree JAX u st), snd (alloc_tree JAX u st))"
  using assms by (simp add: gradient_descent_step_heap_def)

lemma small_network_state_value:
  "small_network_state =
     (Dict [(''layer1'', Dict [(''weights'', Leaf 0), (''biases'', Leaf 1)]),
            (''layer2'', Dict [(''weights'', Leaf 2), (''biases'', Leaf 3)])],
      \<lparr>heap = [\<lparr>backend = JAX, contents = \<lparr>shape = [1, 2], data = [0, 1]\<rparr>\<rparr>,
               \<lparr>backend = JAX, contents = \<lparr>shape = [2], data = [0, 0]\<rparr>\<rparr>,
               \<lparr>backend = JAX, contents = \<lparr>shape = [2, 1], data = [0, 1]\<rparr>\<rparr>,
               \<lparr>backend = JAX, contents = \<lparr>shape = [1], data = [0]\<rparr>\<rparr>],
        vars = (\<lambda>_. None), stdout = []\<rparr>)"
  by (simp add: small_network_state_def init_network_def empty_state_def new_object_def
      random_normal_def zeros_def upt_rec numeral_2_eq_2)

lemma small_network_step:
  "\<exists>update st'.
     gradient_descent_step_heap zero_grad (fst small_network_state)
         (zeros [4, 1]) (zeros [4, 1]) (1 / 100) (snd small_network_state)
       = Inr (update, st')"
proof -
  let ?params = "map_pytree (\<lambda>a. contents (heap (snd small_network_state) ! a))
                   (fst small_network_state)"
  have v: "all_leaves (\<lambda>a. a < length (heap (snd small_network_state))) (fst small_network_state)"
    by (simp add: small_network_state_value)
  have p: "?params = Dict [(''layer1'', Dict [(''weights'', Leaf \<lparr>shape = [1, 2], data = [0, 1]\<rparr>),
                                             (''biases'', Leaf \<lparr>shape = [2], data = [0, 0]\<rparr>)]),
            (''layer2'', Dict [(''weights'', Leaf \<lparr>shape = [2, 1], data = [0, 1]\<rparr>),
                               (''biases'', Leaf \<lparr>shape = [1], data = [0]\<rparr>)])]"
    by (simp add: small_network_state_value)
  have g: "\<exists>g. zero_grad ?params (zeros [4, 1]) (zeros [4, 1]) = Inr g \<and>
             shape_tree g = shape_tree ?params"
    unfolding p by (simp add: zero_grad_def)
  then obtain g where g: "zero_grad ?params (zeros [4, 1]) (zeros [4, 1]) = Inr g"
      "shape_tree g = shape_tree ?params"
    by blast
  have "\<forall>p g. shape g = shape p \<longrightarrow>
          (\<exists>c. sgd_update (1 / 100) p g = Inr c \<and> shape c = shape p)"
    by (simp add: sgd_update_shape)
  from tree_map2_shape [OF this g(2)] g(1)
  obtain u where "gradient_descent_step zero_grad ?params (zeros [4, 1]) (zeros [4, 1]) (1 / 100)
                    = Inr u"
    by (auto simp: gradient_descent_step_def)
  from gradient_descent_step_heap_returns [OF v this] show ?thesis
    by blast
qed

lemma unit_gradient_contract: "grad_contract unit_gradient"
  by (simp add: grad_contract_def unit_gradient_def ones_def)


lemma unit_gradient_two_layer_nn_contract: "grad_contract_two_layer unit_gradient_two_layer_nn"
  by (simp add: grad_contract_two_layer_def unit_gradient_two_layer_nn_def comp_def ones_def)


lemma linreg_first_iteration:
  "\<exists>st1. linreg_body unit_gradient 0
            (assign ''params'' JAX (Leaf (array1 [0, 0])) small_data_state) = Inr st1 \<and>
     heap st1 ! 2 = \<lparr>backend = JAX, contents = array1 [0, 0]\<rparr> \<and>
     load_array ''params'' st1 = Inr (array1 [- (1 / 100), - (1 / 100)])"
proof -
  let ?st0 = "assign ''params'' JAX (Leaf (array1 [0, 0])) small_data_state"
  let ?st1 = "assign ''grad_params'' JAX (Leaf (array1 [1, 1])) ?st0"
  let ?st2 = "assign ''params'' JAX (Leaf (array1 [- (1 / 100), - (1 / 100)])) ?st1"
  have lp: "load_array ''params'' ?st0 = Inr (array1 [0, 0])"
    and lx: "load_array ''x_data'' ?st0 = Inr (array1 [1, 2])"
    and ly: "load_array ''y_data'' ?st0 = Inr (array1 [1, 2])"
    by (simp_all add: load_array_Inr small_data_state_def assign_leaf empty_state_def)
  have g: "unit_gradient (array1 [0, 0]) (array1 [1, 2]) (array1 [1, 2]) = Inr (array1 [1, 1])"
    by (simp add: unit_gradient_def ones_def array1_def numeral_2_eq_2)
  have sc: "binop (*) (scalar (1 / 100)) (array1 [1, 1 :: real])
              = Inr (array1 [1 / 100, 1 / 100])"
    by (simp add: binop_scalar_array1)
  have d: "binop (-) (array1 [0, 0 :: real]) (array1 [1 / 100, 1 / 100])
             = Inr (array1 [- (1 / 100), - (1 / 100)])"
    by (simp add: binop_array1_array1)
  have sub: "isub ''params'' (array1 [1 / 100, 1 / 100]) ?st1 = Inr ?st2"
    by (simp add: isub_def small_data_state_def assign_leaf empty_state_def d Let_def)
  have "linreg_body unit_gradient 0 ?st0 = Inr ?st2"
    unfolding linreg_body_def lp lx ly ebind_Inr g Let_def sc sub by simp
  moreover have "heap ?st2 ! 2 = \<lparr>backend = JAX, contents = array1 [0, 0]\<rparr>"
    by (simp add: small_data_state_def assign_leaf empty_state_def)
  moreover have "load_array ''params'' ?st2 = Inr (array1 [- (1 / 100), - (1 / 100)])"
    by (simp add: load_array_Inr small_data_state_def assign_leaf empty_state_def)
  ultimately show ?thesis
    by blast
qed


lemma sequence_nth:
  "sequence rs = Inr vs \<Longrightarrow> i < length rs \<Longrightarrow> rs ! i = Inr (vs ! i)"
proof (induction rs arbitrary: vs i)
  case Nil
  then show ?case by simp
next
  case (Cons r rs)
  from Cons.prems(1) obtain v vs' where v: "r = Inr v" "sequence rs = Inr vs'" "vs = v # vs'"
    by (auto simp: ebind_eq_Inr)
  with Cons.IH [OF v(2)] Cons.prems(2) show ?case
    by (cases i) simp_all
qed


lemma two_layer_iteration_example:
  "\<exists>st1 new. two_layer_body unit_gradient_two_layer_nn 50
       (assign ''params_two_layer_nn'' JAX (Tuple (map Leaf params_two_layer_nn)) small_data_state)
         = Inr st1 \<and>
     load ''params_two_layer_nn'' st1 = Inr (Tuple (map Leaf new)) \<and>
     new ! 5 = scalar (- (1 / 10)) \<and>
     heap st1 ! 7 = \<lparr>backend = JAX, contents = scalar 0\<rparr>"
proof -
  let ?st0 = "assign ''params_two_layer_nn'' JAX (Tuple (map Leaf params_two_layer_nn))
                small_data_state"
  let ?f = "\<lambda>a. \<lparr>backend = JAX, contents = a\<rparr>"
  have hs: "length (heap small_data_state) = 2"
    by (simp add: small_data_state_def assign_leaf empty_state_def)
  have lp6: "length params_two_layer_nn = 6"
    by (simp add: params_two_layer_nn_def)
  have h0: "heap ?st0 = heap small_data_state @ map ?f params_two_layer_nn"
    by (simp add: assign_tuple)
  have v0: "vars ?st0 ''params_two_layer_nn''
              = Some (Tuple (map Leaf [length (heap small_data_state)..<
                                       length (heap small_data_state) + length params_two_layer_nn]))"
    by (simp add: assign_tuple)
  have l0: "load ''params_two_layer_nn'' ?st0 = Inr (Tuple (map Leaf params_two_layer_nn))"
    using load_tuple [OF v0] fresh_block_valid [of "heap small_data_state" ?f params_two_layer_nn]
      fresh_block_contents [of contents "heap small_data_state" ?f params_two_layer_nn]
    by (simp add: h0 comp_def)
  have inv: "two_layer_inv 2 ?st0"
    using small_data_state_ready params_two_layer_nn_shapes by (rule two_layer_inv_assign_params)
  from two_layer_body_step [OF inv unit_gradient_two_layer_nn_contract, of 50]
  obtain st1 where run: "two_layer_body unit_gradient_two_layer_nn 50 ?st0 = Inr st1"
    by blast
  define grads where "grads = map (\<lambda>p. ones (shape p)) params_two_layer_nn"
  have g: "unit_gradient_two_layer_nn params_two_layer_nn xc y = Inr grads" for xc y
    by (simp add: unit_gradient_two_layer_nn_def grads_def)
  from run obtain new
    where new: "update_two_layer_nn (1 / 10) params_two_layer_nn grads = Inr new"
      and st1: "st1 = assign ''params_two_layer_nn'' JAX (Tuple (map Leaf new))
                 (assign ''grad_params_two_layer_nn'' JAX (Tuple (map Leaf grads)) ?st0)"
    unfolding two_layer_body_def l0 ebind_Inr tuple_arrays_leaves Let_def
    by (auto simp: ebind_eq_Inr g)
  let ?mid = "assign ''grad_params_two_layer_nn'' JAX (Tuple (map Leaf grads)) ?st0"
  have lg: "length grads = 6"
    by (simp add: grads_def lp6)
  have hm: "heap ?mid = heap ?st0 @ map ?f grads"
    by (simp add: assign_tuple)
  have h1: "heap st1 = heap ?mid @ map ?f new"
    unfolding st1 by (simp add: assign_tuple)
  have v1: "vars st1 ''params_two_layer_nn''
              = Some (Tuple (map Leaf [length (heap ?mid)..<length (heap ?mid) + length new]))"
    unfolding st1 by (simp add: assign_tuple)
  have l1: "load ''params_two_layer_nn'' st1 = Inr (Tuple (map Leaf new))"
    using load_tuple [OF v1] fresh_block_valid [of "heap ?mid" ?f new]
      fresh_block_contents [of contents "heap ?mid" ?f new]
    by (simp add: h1 comp_def)
  from new have sq: "sequence (map (\<lambda>(p, g). sgd_update (1 / 10) p g)
                       (zip params_two_layer_nn grads)) = Inr new"
    by (simp add: update_two_layer_nn_def)
  from sequence_nth [OF sq, of 5]
  have "sgd_update (1 / 10) (params_two_layer_nn ! 5) (grads ! 5) = Inr (new ! 5)"
    by (simp add: lp6 lg)
  moreover have "params_two_layer_nn ! 5 = scalar 0" "grads ! 5 = scalar 1"
    by (simp_all add: grads_def params_two_layer_nn_def ones_def scalar_def)
  ultimately have n5: "new ! 5 = scalar (- (1 / 10))"
    by (simp add: sgd_update_def binop_scalar_scalar)
  have "heap st1 ! 7 = heap ?st0 ! 7"
    unfolding h1 hm by (simp add: h0 hs lp6 lg nth_append)
  also have "\<dots> = ?f (params_two_layer_nn ! 5)"
    unfolding h0 by (simp add: hs lp6 nth_append)
  also have "\<dots> = \<lparr>backend = JAX, contents = scalar 0\<rparr>"
    by (simp add: params_two_layer_nn_def)
  finally have old: "heap st1 ! 7 = \<lparr>backend = JAX, contents = scalar 0\<rparr>" .
  from run l1 n5 old show ?thesis
    by blast
qed


lemma small_network_unit_step:
  "ebind (gradient_descent_step_heap unit_grad (fst small_network_state)
            (zeros [4, 1]) (zeros [4, 1]) (1 / 100) (snd small_network_state))
         (\<lambda>(update, st'). Inr (update, heap st'))
     = Inr (Dict [(''layer1'', Dict [(''biases'', Leaf 4), (''weights'', Leaf 5)]),
                  (''layer2'', Dict [(''biases'', Leaf 6), (''weights'', Leaf 7)])],
            [\<lparr>backend = JAX, contents = \<lparr>shape = [1, 2], data = [0, 1]\<rparr>\<rparr>,
             \<lparr>backend = JAX, contents = \<lparr>shape = [2], data = [0, 0]\<rparr>\<rparr>,
             \<lparr>backend = JAX, contents = \<lparr>shape = [2, 1], data = [0, 1]\<rparr>\<rparr>,
             \<lparr>backend = JAX, contents = \<lparr>shape = [1], data = [0]\<rparr>\<rparr>,
             \<lparr>backend = JAX, contents = \<lparr>shape = [2], data = [- 1 / 100, - 1 / 100]\<rparr>\<rparr>,
             \<lparr>backend = JAX, contents = \<lparr>shape = [1, 2], data = [- 1 / 100, 99 / 100]\<rparr>\<rparr>,
             \<lparr>backend = JAX, contents = \<lparr>shape = [1], data = [- 1 / 100]\<rparr>\<rparr>,
             \<lparr>backend = JAX, contents = \<lparr>shape = [2, 1], data = [- 1 / 100, 99 / 100]\<rparr>\<rparr>])"
  by code_simp
text \<open>
  Claim C4. Item assignment on a variable bound to a JAX array raises \<open>TypeError\<close>, for
  every index and value. Run after the cell that creates the arrays, the immutability
  cell returns normally: its \<open>try\<close>/\<open>except TypeError\<close> catches the error and prints
  \<open>Exeption raised:\<close> followed by the message, \<open>jax_array\<close> still holds
  \<open>[[1, 2], [3, 4]]\<close> and \<open>numpy_array\<close> holds \<open>[[1, 2], [3, 0]]\<close>. The handler catches
  \<open>TypeError\<close> only: with \<open>jax_array\<close> unbound the cell raises \<open>NameError\<close>. The notebook
  has exactly one \<open>try\<close> statement.
\<close>

theorem item_assignment_raises_type_error:
  "(vars st var = Some (Leaf a) \<and> a < length (heap st) \<and> backend (heap st ! a) = JAX \<longrightarrow>
      setitem2 var i j v st = Inl (TypeError immutable_message)) \<and>
   (\<exists>st'. immutability_cell (create_arrays_cell empty_state) = Inr st' \<and>
         stdout st' = [Text (''Exeption raised: '' @ immutable_message)] \<and>
         load ''jax_array'' st' = Inr (Leaf \<lparr>shape = [2, 2], data = [1, 2, 3, 4]\<rparr>) \<and>
         load ''numpy_array'' st' = Inr (Leaf \<lparr>shape = [2, 2], data = [1, 2, 3, 0]\<rparr>)) \<and>
   (setitem2 ''numpy_array'' 1 1 0 st = Inr st1 \<and> vars st ''jax_array'' = None \<longrightarrow>
      immutability_cell st = Inl (NameError ''jax_array'')) \<and>
   length (filter is_try (all_stmts notebook)) = 1"
proof (intro conjI impI)
  assume "vars st var = Some (Leaf a) \<and> a < length (heap st) \<and> backend (heap st ! a) = JAX"
  then show "setitem2 var i j v st = Inl (TypeError immutable_message)"
    by (simp add: setitem2_def Let_def)
next
  show "\<exists>st'. immutability_cell (create_arrays_cell empty_state) = Inr st' \<and>
         stdout st' = [Text (''Exeption raised: '' @ immutable_message)] \<and>
         load ''jax_array'' st' = Inr (Leaf \<lparr>shape = [2, 2], data = [1, 2, 3, 4]\<rparr>) \<and>
         load ''numpy_array'' st' = Inr (Leaf \<lparr>shape = [2, 2], data = [1, 2, 3, 0]\<rparr>)"
    by (rule immutability_cell_run)
next
  assume h: "setitem2 ''numpy_array'' 1 1 0 st = Inr st1 \<and> vars st ''jax_array'' = None"
  then have "vars st1 = vars st"
    by (auto simp: setitem2_def Let_def
        split: option.splits pytree.splits if_splits backend.splits list.splits)
  with h have n: "setitem2 ''jax_array'' 1 1 0 st1 = Inl (NameError ''jax_array'')"
    by (simp add: setitem2_def)
  from h have s: "setitem2 ''numpy_array'' 1 1 0 st = Inr st1"
    by simp
  show "immutability_cell st = Inl (NameError ''jax_array'')"
    unfolding immutability_cell_def s ebind_Inr n by simp
next
  show "length (filter is_try (all_stmts notebook)) = 1"
    by (rule notebook_try_count)
qed

theorem item_assignment_raises_type_error_witness:
  "setitem2 ''jax_array'' 1 1 0 (create_arrays_cell empty_state)
     = Inl (TypeError immutable_message) \<and>
   immutability_cell
       (assign ''numpy_array'' NumPy (Leaf (map_array real_of_int jax_array)) empty_state)
     = Inl (NameError ''jax_array'')"
proof -
  let ?created = "create_arrays_cell empty_state"
  have a: "vars ?created ''jax_array'' = Some (Leaf 2) \<and> 2 < length (heap ?created) \<and>
           backend (heap ?created ! 2) = JAX"
    by (simp add: create_arrays_cell_def empty_state_def assign_leaf Let_def)
  let ?partial = "assign ''numpy_array'' NumPy (Leaf (map_array real_of_int jax_array)) empty_state"
  let ?mutated = "?partial\<lparr>heap := (heap ?partial)
                 [0 := \<lparr>backend = NumPy, contents = \<lparr>shape = [2, 2], data = [1, 2, 3, 0]\<rparr>\<rparr>]\<rparr>"
  have b: "setitem2 ''numpy_array'' 1 1 0 ?partial = Inr ?mutated \<and> vars ?partial ''jax_array'' = None"
    by (simp add: setitem2_def empty_state_def assign_leaf Let_def map_array_def jax_array_def)
  note first = item_assignment_raises_type_error
    [where st = ?created and var = "''jax_array''" and a = 2 and i = 1 and j = 1 and v = 0,
      THEN conjunct1, rule_format, OF a]
  note third = item_assignment_raises_type_error
    [where st = ?partial and ?st1.0 = ?mutated, THEN conjunct2, THEN conjunct2, THEN conjunct1,
      rule_format, OF b]
  from first third show ?thesis
    by (rule conjI)
qed

text \<open>
  Claim C7 as stated: the notebook's code has no control flow beyond straight-line
  execution and bounded \<open>for\<close> loops, that is, no conditional branching, no recursion and
  no exception handling. The notebook has all three.
\<close>

theorem notebook_control_flow_counterexample:
  "\<not> list_all straight_line_or_for (all_stmts notebook) \<and>
   list_ex is_if (all_stmts notebook) \<and>
   list_ex is_try (all_stmts notebook) \<and>
   list_ex is_recursive_def (all_stmts notebook)"
proof -
  have i: "list_ex is_if (all_stmts notebook)"
    by code_simp
  have t: "list_ex is_try (all_stmts notebook)"
    by code_simp
  have r: "list_ex is_recursive_def (all_stmts notebook)"
    by code_simp
  from i have "\<not> list_all straight_line_or_for (all_stmts notebook)"
    by (auto simp: list_ex_iff list_all_iff straight_line_or_for_def)
  with i t r show ?thesis
    by simp
qed

text \<open>
  Claim C7, amended. The control flow of the notebook's cells is straight-line code,
  function definitions, a \<open>with\<close> block and \<open>for\<close> loops over \<open>range(3)\<close>, \<open>range(100)\<close>,
  the elements of arrays and tuples and the items of a dictionary, together with three
  \<open>if\<close> statements (\<open>i > 90\<close> and \<open>i < 10\<close> guarding the prints of the two training loops,
  \<open>isinstance(v, dict)\<close> in \<open>print_leaf_shapes\<close>), one \<open>try\<close> statement and one function that
  calls itself, \<open>print_leaf_shapes\<close>; there is no \<open>while\<close> loop.
\<close>

theorem notebook_control_flow:
  "concat (map loop_iterable (all_stmts notebook)) =
     [PyRange 3, PyRange 3, PyRange 100, PyRange 100,
      Elements ''zip(params_two_layer_nn, grad_params_two_layer_nn)'',
      Elements ''xs'', Elements ''result.device_buffers'', Items ''d''] \<and>
   filter is_while (all_stmts notebook) = [] \<and>
   concat (map if_condition (all_stmts notebook)) =
     [''i > 90'', ''i < 10'', ''isinstance(v, dict)''] \<and>
   length (filter is_try (all_stmts notebook)) = 1 \<and>
   concat (map def_name (filter is_recursive_def (all_stmts notebook))) = [''print_leaf_shapes'']"
  using notebook_loops notebook_no_while notebook_if_conditions notebook_try_count
    notebook_recursive_defs
  by (intro conjI)

text \<open>
  Claim C6. Each of the two training loops runs its body exactly 100 times, for
  \<open>i = 0, ..., 99\<close>, every iteration returning normally, and then ends: the
  linear-regression loop printing iterations 92 to 100 and the two-layer loop printing
  iterations 1 to 10. This holds from any state in which \<open>x_data\<close> and \<open>y_data\<close> are
  arrays of one shape \<open>(n,)\<close> with \<open>n > 0\<close>, for gradient functions that meet the
  contract of \<open>jax.grad\<close> (a gradient of the shape of the parameters wherever the loss
  is a scalar). No loop of the notebook is a \<open>while\<close> loop: every loop iterates over a
  \<open>range\<close>, the elements of an array or tuple, or the items of a dictionary.
\<close>

theorem training_loops_run_100_iterations:
  assumes "data_ready n st"
    and "grad_contract gradient"
    and "grad_contract_two_layer gradient_two_layer_nn"
  shows "(\<exists>st'. linreg_cell gradient st = Inr st' \<and>
            runs_iterations (linreg_body gradient) 100
              (assign ''params'' JAX (Leaf (array1 [0, 0])) st) st' \<and>
            iteration_numbers (stdout st') = iteration_numbers (stdout st) @ [92..<101]) \<and>
         (\<exists>st'. two_layer_cell gradient_two_layer_nn st = Inr st' \<and>
            runs_iterations (two_layer_body gradient_two_layer_nn) 100
              (assign ''params_two_layer_nn'' JAX (Tuple (map Leaf params_two_layer_nn)) st) st' \<and>
            iteration_numbers (stdout st') = iteration_numbers (stdout st) @ [1..<11]) \<and>
         filter is_while (all_stmts notebook) = [] \<and>
         concat (map loop_iterable (all_stmts notebook)) =
           [PyRange 3, PyRange 3, PyRange 100, PyRange 100,
            Elements ''zip(params_two_layer_nn, grad_params_two_layer_nn)'',
            Elements ''xs'', Elements ''result.device_buffers'', Items ''d'']"
proof (intro conjI)
  from linreg_cell_returns [OF assms(1,2)] obtain st'
    where r: "linreg_cell gradient st = Inr st'"
      and p: "iteration_numbers (stdout st') = iteration_numbers (stdout st) @ [92..<101]"
    by blast
  from r have "for_loop (py_range 100) (linreg_body gradient)
                 (assign ''params'' JAX (Leaf (array1 [0, 0])) st) = Inr st'"
    by (simp add: linreg_cell_def)
  then have "runs_iterations (linreg_body gradient) 100
               (assign ''params'' JAX (Leaf (array1 [0, 0])) st) st'"
    by (rule for_loop_runs_iterations)
  with r p show "\<exists>st'. linreg_cell gradient st = Inr st' \<and>
            runs_iterations (linreg_body gradient) 100
              (assign ''params'' JAX (Leaf (array1 [0, 0])) st) st' \<and>
            iteration_numbers (stdout st') = iteration_numbers (stdout st) @ [92..<101]"
    by blast
next
  from two_layer_cell_returns [OF assms(1,3)] obtain st'
    where r: "two_layer_cell gradient_two_layer_nn st = Inr st'"
      and p: "iteration_numbers (stdout st') = iteration_numbers (stdout st) @ [1..<11]"
    by blast
  from r have "for_loop (py_range 100) (two_layer_body gradient_two_layer_nn)
                 (assign ''params_two_layer_nn'' JAX (Tuple (map Leaf params_two_layer_nn)) st)
               = Inr st'"
    by (simp add: two_layer_cell_def)
  then have "runs_iterations (two_layer_body gradient_two_layer_nn) 100
               (assign ''params_two_layer_nn'' JAX (Tuple (map Leaf params_two_layer_nn)) st) st'"
    by (rule for_loop_runs_iterations)
  with r p show "\<exists>st'. two_layer_cell gradient_two_layer_nn st = Inr st' \<and>
            runs_iterations (two_layer_body gradient_two_layer_nn) 100
              (assign ''params_two_layer_nn'' JAX (Tuple (map Leaf params_two_layer_nn)) st) st' \<and>
            iteration_numbers (stdout st') = iteration_numbers (stdout st) @ [1..<11]"
    by blast
next
  show "filter is_while (all_stmts notebook) = []"
    by (rule notebook_no_while)
next
  show "concat (map loop_iterable (all_stmts notebook)) =
           [PyRange 3, PyRange 3, PyRange 100, PyRange 100,
            Elements ''zip(params_two_layer_nn, grad_params_two_layer_nn)'',
            Elements ''xs'', Elements ''result.device_buffers'', Items ''d'']"
    by (rule notebook_loops)
qed

theorem training_loops_run_100_iterations_witness:
  "data_ready 2 small_data_state \<and>
   grad_contract zero_gradient \<and>
   grad_contract_two_layer zero_gradient_two_layer_nn \<and>
   (\<exists>st'. linreg_cell zero_gradient small_data_state = Inr st' \<and>
      runs_iterations (linreg_body zero_gradient) 100
        (assign ''params'' JAX (Leaf (array1 [0, 0])) small_data_state) st' \<and>
      iteration_numbers (stdout st') = [92..<101]) \<and>
   (\<exists>st'. two_layer_cell zero_gradient_two_layer_nn small_data_state = Inr st' \<and>
      runs_iterations (two_layer_body zero_gradient_two_layer_nn) 100
        (assign ''params_two_layer_nn'' JAX (Tuple (map Leaf params_two_layer_nn))
           small_data_state) st' \<and>
      iteration_numbers (stdout st') = [1..<11])"
proof -
  have d: "data_ready 2 small_data_state"
    by (rule small_data_state_ready)
  have o: "stdout small_data_state = []"
    by (simp add: small_data_state_def assign_leaf empty_state_def)
  from training_loops_run_100_iterations
         [OF d zero_gradient_contract zero_gradient_two_layer_nn_contract]
       d zero_gradient_contract zero_gradient_two_layer_nn_contract
  show ?thesis
    by (simp add: o)
qed

text \<open>
  Claim C3. No operation of the notebook changes an existing JAX array: after item
  assignment, augmented assignment \<open>-=\<close>, the binding of a new array or pytree, a print,
  one iteration of either training loop, either training cell, the immutability cell or
  \<open>gradient_descent_step\<close>, every JAX array that existed before is still at its address
  with the same contents. \<open>params -= learning_rate * grad_params\<close> on a JAX array binds
  \<open>params\<close> to a new array and leaves the old one as it was; an iteration of the first
  loop binds \<open>params\<close>, and an iteration of the second binds \<open>params_two_layer_nn\<close>, to
  arrays that did not exist before the iteration; and the pytree returned by
  \<open>gradient_descent_step\<close> consists of new arrays only. In each training cell this
  holds throughout the 100 iterations: every state of the loop, from the binding of the
  initial parameters on, leaves the JAX arrays of every earlier state as they were, so
  an array created in one iteration keeps its contents in all later ones.
\<close>

theorem jax_arrays_never_mutated:
  "(setitem2 var i j v st = Inr st' \<longrightarrow> jax_unchanged st st') \<and>
   (isub var rhs st = Inr st' \<longrightarrow> jax_unchanged st st') \<and>
   (isub var rhs st = Inr st' \<and> vars st var = Some (Leaf a) \<and> backend (heap st ! a) = JAX \<longrightarrow>
      vars st' var = Some (Leaf (length (heap st))) \<and> heap st' ! a = heap st ! a) \<and>
   jax_unchanged st (assign var b t st) \<and>
   jax_unchanged st (print_out p st) \<and>
   (linreg_body gradient k st = Inr st' \<longrightarrow> jax_unchanged st st') \<and>
   (linreg_cell gradient st = Inr st' \<longrightarrow> jax_unchanged st st') \<and>
   (two_layer_cell gradient_two_layer_nn st = Inr st' \<longrightarrow> jax_unchanged st st') \<and>
   (immutability_cell st = Inr st' \<longrightarrow> jax_unchanged st st') \<and>
   (gradient_descent_step_heap grad_fn params x y_true learning_rate st = Inr (update, st') \<longrightarrow>
      jax_unchanged st st' \<and> fresh_in st update) \<and>
   (linreg_body gradient k st = Inr st' \<and> vars st ''params'' = Some (Leaf a) \<and>
    backend (heap st ! a) = JAX \<longrightarrow>
      (\<exists>a'. vars st' ''params'' = Some (Leaf a') \<and> length (heap st) \<le> a' \<and>
            heap st' ! a = heap st ! a)) \<and>
   (two_layer_body gradient_two_layer_nn k st = Inr st' \<longrightarrow>
      jax_unchanged st st' \<and>
      (\<exists>new. vars st' ''params_two_layer_nn'' = Some new \<and> fresh_in st new)) \<and>
   (linreg_cell gradient st = Inr st' \<longrightarrow>
      unchanged_throughout (linreg_body gradient) 100
        (assign ''params'' JAX (Leaf (array1 [0, 0])) st) st') \<and>
   (two_layer_cell gradient_two_layer_nn st = Inr st' \<longrightarrow>
      unchanged_throughout (two_layer_body gradient_two_layer_nn) 100
        (assign ''params_two_layer_nn'' JAX (Tuple (map Leaf params_two_layer_nn)) st) st')"
proof -
  have r: "isub var rhs st = Inr st' \<and> vars st var = Some (Leaf a) \<and> backend (heap st ! a) = JAX \<longrightarrow>
      vars st' var = Some (Leaf (length (heap st))) \<and> heap st' ! a = heap st ! a"
    using isub_jax_rebinds [of var rhs st st' a] by blast
  have g: "gradient_descent_step_heap grad_fn params x y_true learning_rate st
                   = Inr (update, st') \<longrightarrow> jax_unchanged st st' \<and> fresh_in st update"
    using gradient_descent_step_heap_fresh by blast
  have lb: "linreg_body gradient k st = Inr st' \<and> vars st ''params'' = Some (Leaf a) \<and>
            backend (heap st ! a) = JAX \<longrightarrow>
      (\<exists>a'. vars st' ''params'' = Some (Leaf a') \<and> length (heap st) \<le> a' \<and>
            heap st' ! a = heap st ! a)"
    using linreg_body_rebinds [of gradient k st st' a] by blast
  have tb: "two_layer_body gradient_two_layer_nn k st = Inr st' \<longrightarrow>
      jax_unchanged st st' \<and>
      (\<exists>new. vars st' ''params_two_layer_nn'' = Some new \<and> fresh_in st new)"
    using jax_unchanged_two_layer_body [of gradient_two_layer_nn k st st']
      two_layer_body_rebinds [of gradient_two_layer_nn k st st'] by blast
  have lc: "linreg_cell gradient st = Inr st' \<longrightarrow>
      unchanged_throughout (linreg_body gradient) 100
        (assign ''params'' JAX (Leaf (array1 [0, 0])) st) st'"
  proof
    assume "linreg_cell gradient st = Inr st'"
    then have "for_loop (py_range 100) (linreg_body gradient)
                 (assign ''params'' JAX (Leaf (array1 [0, 0])) st) = Inr st'"
      by (simp add: linreg_cell_def)
    with jax_unchanged_linreg_body
    show "unchanged_throughout (linreg_body gradient) 100
            (assign ''params'' JAX (Leaf (array1 [0, 0])) st) st'"
      by (rule for_loop_unchanged_throughout)
  qed
  have tc: "two_layer_cell gradient_two_layer_nn st = Inr st' \<longrightarrow>
      unchanged_throughout (two_layer_body gradient_two_layer_nn) 100
        (assign ''params_two_layer_nn'' JAX (Tuple (map Leaf params_two_layer_nn)) st) st'"
  proof
    assume "two_layer_cell gradient_two_layer_nn st = Inr st'"
    then have "for_loop (py_range 100) (two_layer_body gradient_two_layer_nn)
                 (assign ''params_two_layer_nn'' JAX (Tuple (map Leaf params_two_layer_nn)) st)
               = Inr st'"
      by (simp add: two_layer_cell_def)
    with jax_unchanged_two_layer_body
    show "unchanged_throughout (two_layer_body gradient_two_layer_nn) 100
            (assign ''params_two_layer_nn'' JAX (Tuple (map Leaf params_two_layer_nn)) st) st'"
      by (rule for_loop_unchanged_throughout)
  qed
  have first: "(setitem2 var i j v st = Inr st' \<longrightarrow> jax_unchanged st st') \<and>
   (isub var rhs st = Inr st' \<longrightarrow> jax_unchanged st st') \<and>
   jax_unchanged st (assign var b t st) \<and>
   jax_unchanged st (print_out p st) \<and>
   (linreg_body gradient k st = Inr st' \<longrightarrow> jax_unchanged st st') \<and>
   (linreg_cell gradient st = Inr st' \<longrightarrow> jax_unchanged st st') \<and>
   (two_layer_cell gradient_two_layer_nn st = Inr st' \<longrightarrow> jax_unchanged st st') \<and>
   (immutability_cell st = Inr st' \<longrightarrow> jax_unchanged st st')"
    using jax_unchanged_setitem2 [of var i j v st st'] jax_unchanged_isub [of var rhs st st']
      jax_unchanged_assign [of st var b t] jax_unchanged_print_out [of st p]
      jax_unchanged_linreg_body [of gradient k st st']
      jax_unchanged_linreg_cell [of gradient st st']
      jax_unchanged_two_layer_cell [of gradient_two_layer_nn st st']
      jax_unchanged_immutability_cell [of st st']
    by blast
  from first r g lb tb lc tc show ?thesis
    by blast
qed

theorem jax_arrays_never_mutated_witness:
  "(\<exists>st'. setitem2 ''numpy_array'' 1 1 0 (create_arrays_cell empty_state) = Inr st' \<and>
      jax_unchanged (create_arrays_cell empty_state) st') \<and>
   (\<exists>st'. isub ''params'' (array1 [1, 1])
            (assign ''params'' JAX (Leaf (array1 [0, 0])) empty_state) = Inr st' \<and>
      jax_unchanged (assign ''params'' JAX (Leaf (array1 [0, 0])) empty_state) st' \<and>
      vars st' ''params'' = Some (Leaf 1) \<and>
      heap st' ! 0 = \<lparr>backend = JAX, contents = array1 [0, 0]\<rparr>) \<and>
   (\<exists>st'. linreg_body unit_gradient 0
            (assign ''params'' JAX (Leaf (array1 [0, 0])) small_data_state) = Inr st' \<and>
      jax_unchanged (assign ''params'' JAX (Leaf (array1 [0, 0])) small_data_state) st' \<and>
      heap st' ! 2 = \<lparr>backend = JAX, contents = array1 [0, 0]\<rparr> \<and>
      load_array ''params'' st' = Inr (array1 [- (1 / 100), - (1 / 100)])) \<and>
   (\<exists>st' new. two_layer_body unit_gradient_two_layer_nn 50
            (assign ''params_two_layer_nn'' JAX (Tuple (map Leaf params_two_layer_nn))
               small_data_state) = Inr st' \<and>
      jax_unchanged
        (assign ''params_two_layer_nn'' JAX (Tuple (map Leaf params_two_layer_nn))
           small_data_state) st' \<and>
      load ''params_two_layer_nn'' st' = Inr (Tuple (map Leaf new)) \<and>
      new ! 5 = scalar (- (1 / 10)) \<and>
      heap st' ! 7 = \<lparr>backend = JAX, contents = scalar 0\<rparr>) \<and>
   (\<exists>st'. linreg_cell unit_gradient small_data_state = Inr st' \<and>
      jax_unchanged small_data_state st' \<and>
      unchanged_throughout (linreg_body unit_gradient) 100
        (assign ''params'' JAX (Leaf (array1 [0, 0])) small_data_state) st') \<and>
   (\<exists>st'. two_layer_cell unit_gradient_two_layer_nn small_data_state = Inr st' \<and>
      jax_unchanged small_data_state st' \<and>
      unchanged_throughout (two_layer_body unit_gradient_two_layer_nn) 100
        (assign ''params_two_layer_nn'' JAX (Tuple (map Leaf params_two_layer_nn))
           small_data_state) st') \<and>
   (\<exists>st'. immutability_cell (create_arrays_cell empty_state) = Inr st' \<and>
      jax_unchanged (create_arrays_cell empty_state) st') \<and>
   (\<exists>update st'.
      gradient_descent_step_heap unit_grad (fst small_network_state)
          (zeros [4, 1]) (zeros [4, 1]) (1 / 100) (snd small_network_state)
        = Inr (update, st') \<and>
      jax_unchanged (snd small_network_state) st' \<and>
      fresh_in (snd small_network_state) update \<and>
      update = Dict [(''layer1'', Dict [(''biases'', Leaf 4), (''weights'', Leaf 5)]),
                     (''layer2'', Dict [(''biases'', Leaf 6), (''weights'', Leaf 7)])] \<and>
      heap st' ! 3 = \<lparr>backend = JAX, contents = \<lparr>shape = [1], data = [0]\<rparr>\<rparr> \<and>
      heap st' ! 6 = \<lparr>backend = JAX, contents = \<lparr>shape = [1], data = [- 1 / 100]\<rparr>\<rparr>)"
proof (intro conjI)
  let ?created = "create_arrays_cell empty_state"
  have "\<exists>st'. setitem2 ''numpy_array'' 1 1 0 ?created = Inr st'"
    by (simp add: setitem2_def create_arrays_cell_def empty_state_def assign_leaf Let_def
        map_array_def jax_array_def)
  then obtain s1 where s1: "setitem2 ''numpy_array'' 1 1 0 ?created = Inr s1"
    by blast
  with jax_arrays_never_mutated
         [where var = "''numpy_array''" and i = 1 and j = 1 and v = 0 and st = ?created
            and st' = s1]
  show "\<exists>st'. setitem2 ''numpy_array'' 1 1 0 ?created = Inr st' \<and> jax_unchanged ?created st'"
    by blast
next
  let ?bound = "assign ''params'' JAX (Leaf (array1 [0, 0])) empty_state"
  have h: "heap ?bound = [\<lparr>backend = JAX, contents = array1 [0, 0]\<rparr>]"
    and v: "vars ?bound ''params'' = Some (Leaf 0)"
    by (simp_all add: assign_leaf empty_state_def)
  have "\<exists>st'. isub ''params'' (array1 [1, 1]) ?bound = Inr st'"
    by (simp add: isub_def h v Let_def binop_array1_array1)
  then obtain s1 where s1: "isub ''params'' (array1 [1, 1]) ?bound = Inr s1"
    by blast
  with jax_arrays_never_mutated
         [where var = "''params''" and rhs = "array1 [1, 1]" and st = ?bound and st' = s1
            and a = 0] h v
  show "\<exists>st'. isub ''params'' (array1 [1, 1]) ?bound = Inr st' \<and>
      jax_unchanged ?bound st' \<and> vars st' ''params'' = Some (Leaf 1) \<and>
      heap st' ! 0 = \<lparr>backend = JAX, contents = array1 [0, 0]\<rparr>"
    by simp
next
  let ?st0 = "assign ''params'' JAX (Leaf (array1 [0, 0])) small_data_state"
  from linreg_first_iteration obtain s1
    where s1: "linreg_body unit_gradient 0 ?st0 = Inr s1"
      "heap s1 ! 2 = \<lparr>backend = JAX, contents = array1 [0, 0]\<rparr>"
      "load_array ''params'' s1 = Inr (array1 [- (1 / 100), - (1 / 100)])"
    by blast
  with jax_arrays_never_mutated
         [where gradient = unit_gradient and k = 0 and st = ?st0 and st' = s1]
  show "\<exists>st'. linreg_body unit_gradient 0 ?st0 = Inr st' \<and> jax_unchanged ?st0 st' \<and>
          heap st' ! 2 = \<lparr>backend = JAX, contents = array1 [0, 0]\<rparr> \<and>
          load_array ''params'' st' = Inr (array1 [- (1 / 100), - (1 / 100)])"
    by blast
next
  let ?st0 = "assign ''params_two_layer_nn'' JAX (Tuple (map Leaf params_two_layer_nn))
                small_data_state"
  from two_layer_iteration_example obtain s1 new
    where s1: "two_layer_body unit_gradient_two_layer_nn 50 ?st0 = Inr s1"
      "load ''params_two_layer_nn'' s1 = Inr (Tuple (map Leaf new))"
      "new ! 5 = scalar (- (1 / 10))"
      "heap s1 ! 7 = \<lparr>backend = JAX, contents = scalar 0\<rparr>"
    by blast
  with jax_arrays_never_mutated
         [where gradient_two_layer_nn = unit_gradient_two_layer_nn and k = 50 and st = ?st0
            and st' = s1]
  show "\<exists>st' new. two_layer_body unit_gradient_two_layer_nn 50 ?st0 = Inr st' \<and>
          jax_unchanged ?st0 st' \<and>
          load ''params_two_layer_nn'' st' = Inr (Tuple (map Leaf new)) \<and>
          new ! 5 = scalar (- (1 / 10)) \<and>
          heap st' ! 7 = \<lparr>backend = JAX, contents = scalar 0\<rparr>"
    by blast
next
  from linreg_cell_returns [OF small_data_state_ready unit_gradient_contract]
  obtain s1 where s1: "linreg_cell unit_gradient small_data_state = Inr s1"
    by blast
  with jax_arrays_never_mutated
         [where gradient = unit_gradient and st = small_data_state and st' = s1]
  show "\<exists>st'. linreg_cell unit_gradient small_data_state = Inr st' \<and>
      jax_unchanged small_data_state st' \<and>
      unchanged_throughout (linreg_body unit_gradient) 100
        (assign ''params'' JAX (Leaf (array1 [0, 0])) small_data_state) st'"
    by blast
next
  from two_layer_cell_returns [OF small_data_state_ready unit_gradient_two_layer_nn_contract]
  obtain s1 where s1: "two_layer_cell unit_gradient_two_layer_nn small_data_state = Inr s1"
    by blast
  with jax_arrays_never_mutated
         [where gradient_two_layer_nn = unit_gradient_two_layer_nn and st = small_data_state
            and st' = s1]
  show "\<exists>st'. two_layer_cell unit_gradient_two_layer_nn small_data_state = Inr st' \<and>
      jax_unchanged small_data_state st' \<and>
      unchanged_throughout (two_layer_body unit_gradient_two_layer_nn) 100
        (assign ''params_two_layer_nn'' JAX (Tuple (map Leaf params_two_layer_nn))
           small_data_state) st'"
    by blast
next
  let ?created = "create_arrays_cell empty_state"
  from immutability_cell_run obtain s1 where s1: "immutability_cell ?created = Inr s1"
    by blast
  with jax_arrays_never_mutated [where st = ?created and st' = s1]
  show "\<exists>st'. immutability_cell ?created = Inr st' \<and> jax_unchanged ?created st'"
    by blast
next
  let ?u = "Dict [(''layer1'', Dict [(''biases'', Leaf 4), (''weights'', Leaf 5)]),
                  (''layer2'', Dict [(''biases'', Leaf 6), (''weights'', Leaf 7)])]"
  from small_network_unit_step obtain s1
    where s1: "gradient_descent_step_heap unit_grad (fst small_network_state)
                 (zeros [4, 1]) (zeros [4, 1]) (1 / 100) (snd small_network_state)
               = Inr (?u, s1)"
      and h3: "heap s1 ! 3 = \<lparr>backend = JAX, contents = \<lparr>shape = [1], data = [0]\<rparr>\<rparr>"
      and h6: "heap s1 ! 6 = \<lparr>backend = JAX, contents = \<lparr>shape = [1], data = [- 1 / 100]\<rparr>\<rparr>"
    by (auto simp: ebind_eq_Inr)
  with jax_arrays_never_mutated
         [where grad_fn = unit_grad and params = "fst small_network_state"
            and x = "zeros [4, 1]" and y_true = "zeros [4, 1]" and learning_rate = "1 / 100"
            and st = "snd small_network_state" and update = ?u and st' = s1]
  show "\<exists>update st'.
      gradient_descent_step_heap unit_grad (fst small_network_state)
          (zeros [4, 1]) (zeros [4, 1]) (1 / 100) (snd small_network_state)
        = Inr (update, st') \<and>
      jax_unchanged (snd small_network_state) st' \<and>
      fresh_in (snd small_network_state) update \<and>
      update = ?u \<and>
      heap st' ! 3 = \<lparr>backend = JAX, contents = \<lparr>shape = [1], data = [0]\<rparr>\<rparr> \<and>
      heap st' ! 6 = \<lparr>backend = JAX, contents = \<lparr>shape = [1], data = [- 1 / 100]\<rparr>\<rparr>"
    by blast
qed
end
